theory Spec2Isabelle
  imports Complex_Main "HOL-Library.Sublist"
begin

section \<open>Tensors and the errors of the tensor engine\<close>

text \<open>
  The notebook builds GoogLeNet from the layers of a tensor library. Two kinds of
  tensor occur: feature maps of shape (N, C, H, W) and matrices of shape (N, F).
  A tensor is its shape together with its entries; entries are exact reals (the
  rounding of floating point is not modelled). Entries outside the shape are never
  read by any operation below.

  Every failure is an exception raised at the call; the model returns it as the left
  summand, with one constructor per check of the library and one for a missing
  dictionary key. The last two belong to the object-level reading of the forward
  pass: a tensor of the wrong rank, and a reference to no object, which a Python
  name never holds.
\<close>

record tensor4 =
  dimN :: nat
  dimC :: nat
  dimH :: nat
  dimW :: nat
  elem4 :: "nat \<Rightarrow> nat \<Rightarrow> nat \<Rightarrow> nat \<Rightarrow> real"

record tensor2 =
  dimB :: nat
  dimF :: nat
  elem2 :: "nat \<Rightarrow> nat \<Rightarrow> real"

datatype error =
    ChannelMismatch nat nat
  | ZeroOutChannels
  | ZeroStride
  | KernelTooLarge
  | EmptyInput
  | PadTooLarge
  | OutputTooSmall
  | CatEmptyList
  | CatSizeMismatch
  | AmbiguousReshape
  | MatMulMismatch nat nat
  | BatchMismatch nat nat
  | TargetOutOfBounds
  | KeyError string
  | RankMismatch
  | InvalidReference

definition shape4 :: "tensor4 \<Rightarrow> nat \<times> nat \<times> nat \<times> nat" where
  "shape4 x = (dimN x, dimC x, dimH x, dimW x)"

definition shape2 :: "tensor2 \<Rightarrow> nat \<times> nat" where
  "shape2 x = (dimB x, dimF x)"

text \<open>\<open>torch.zeros((n, c, h, w))\<close>, the input of the notebook's shape checks.\<close>

definition zeros :: "nat \<Rightarrow> nat \<Rightarrow> nat \<Rightarrow> nat \<Rightarrow> tensor4" where
  "zeros n c h w = \<lparr>dimN = n, dimC = c, dimH = h, dimW = w, elem4 = (\<lambda>_ _ _ _. 0)\<rparr>"

text \<open>\<open>torch.zeros((n, f))\<close>.\<close>

definition zeros2 :: "nat \<Rightarrow> nat \<Rightarrow> tensor2" where
  "zeros2 n f = \<lparr>dimB = n, dimF = f, elem2 = (\<lambda>_ _. 0)\<rparr>"

text \<open>Sequencing of calls that may raise: the first error ends the computation.\<close>

definition ebind :: "error + 'a \<Rightarrow> ('a \<Rightarrow> error + 'b) \<Rightarrow> error + 'b" where
  "ebind m f = (case m of Inl e \<Rightarrow> Inl e | Inr v \<Rightarrow> f v)"

section \<open>Layers of the tensor library\<close>

text \<open>
  Learnable parameters are created by the library when a layer is constructed, with
  random initial values, and changed by training. The constructors below take them
  from a parameter source, keyed by the parameter's name and index, so that a
  constructed module ranges over all parameter values.
\<close>

type_synonym state_dict = "string \<Rightarrow> nat list \<Rightarrow> real"

definition sub_dict :: "state_dict \<Rightarrow> string \<Rightarrow> state_dict" where
  "sub_dict sd name = (\<lambda>k. sd (name @ ''.'' @ k))"

definition const_dict :: "real \<Rightarrow> state_dict" where
  "const_dict v = (\<lambda>_ _. v)"

subsection \<open>Conv2d\<close>

record Conv2d =
  in_channels :: nat
  out_channels :: nat
  kernel_size :: nat
  stride :: nat
  padding :: nat
  weight :: "nat \<Rightarrow> nat \<Rightarrow> nat \<Rightarrow> nat \<Rightarrow> real"
  bias :: "nat \<Rightarrow> real"

definition nn_Conv2d :: "state_dict \<Rightarrow> string \<Rightarrow> nat \<Rightarrow> nat \<Rightarrow> nat \<Rightarrow> nat \<Rightarrow> nat \<Rightarrow> Conv2d" where
  "nn_Conv2d sd name cin cout k s p =
     \<lparr>in_channels = cin, out_channels = cout, kernel_size = k, stride = s, padding = p,
      weight = (\<lambda>co ci ki kj. sd (name @ ''.weight'') [co, ci, ki, kj]),
      bias = (\<lambda>co. sd (name @ ''.bias'') [co])\<rparr>"

text \<open>
  Output extent of a sliding window of size \<open>k\<close>, stride \<open>s\<close> and padding \<open>p\<close> over an
  extent \<open>i\<close>: \<open>floor ((i + 2p - k) / s) + 1\<close>, used only where \<open>k \<le> i + 2p\<close>.
\<close>

definition out_size :: "nat \<Rightarrow> nat \<Rightarrow> nat \<Rightarrow> nat \<Rightarrow> nat" where
  "out_size i k s p = (i + 2 * p - k) div s + 1"

text \<open>The input read at a coordinate of the zero-padded plane.\<close>

definition padded :: "tensor4 \<Rightarrow> nat \<Rightarrow> nat \<Rightarrow> nat \<Rightarrow> nat \<Rightarrow> nat \<Rightarrow> real" where
  "padded x p n c i j =
     (if p \<le> i \<and> i < dimH x + p \<and> p \<le> j \<and> j < dimW x + p
      then elem4 x n c (i - p) (j - p) else 0)"

definition conv2d_elem :: "Conv2d \<Rightarrow> tensor4 \<Rightarrow> nat \<Rightarrow> nat \<Rightarrow> nat \<Rightarrow> nat \<Rightarrow> real" where
  "conv2d_elem L x n co i j =
     bias L co +
     (\<Sum>ci\<leftarrow>[0..<in_channels L]. \<Sum>ki\<leftarrow>[0..<kernel_size L]. \<Sum>kj\<leftarrow>[0..<kernel_size L].
        weight L co ci ki kj *
        padded x (padding L) n ci (i * stride L + ki) (j * stride L + kj))"

text \<open>
  The forward call of a convolution. The checks are the library's, in its order: the
  weight has at least one output channel, the input has the layer's input channels,
  and the kernel fits into the padded input. An empty batch is accepted. So is an
  input without channels by a layer without input channels: the result then has no
  channels either.
\<close>

definition conv2d :: "Conv2d \<Rightarrow> tensor4 \<Rightarrow> error + tensor4" where
  "conv2d L x =
     (if stride L = 0 then Inl ZeroStride
      else if out_channels L = 0 then Inl ZeroOutChannels
      else if dimC x \<noteq> in_channels L then Inl (ChannelMismatch (in_channels L) (dimC x))
      else if dimH x + 2 * padding L < kernel_size L then Inl KernelTooLarge
      else if dimW x + 2 * padding L < kernel_size L then Inl KernelTooLarge
      else Inr \<lparr>dimN = dimN x, dimC = (if dimC x = 0 then 0 else out_channels L),
                dimH = out_size (dimH x) (kernel_size L) (stride L) (padding L),
                dimW = out_size (dimW x) (kernel_size L) (stride L) (padding L),
                elem4 = conv2d_elem L x\<rparr>)"

subsection \<open>Rectification\<close>

definition relu4 :: "tensor4 \<Rightarrow> tensor4" where
  "relu4 x = x\<lparr>elem4 := (\<lambda>n c i j. max 0 (elem4 x n c i j))\<rparr>"

definition relu2 :: "tensor2 \<Rightarrow> tensor2" where
  "relu2 x = x\<lparr>elem2 := (\<lambda>n f. max 0 (elem2 x n f))\<rparr>"

subsection \<open>Pooling\<close>

record MaxPool2d =
  mp_kernel_size :: nat
  mp_stride :: nat
  mp_padding :: nat

record AvgPool2d =
  ap_kernel_size :: nat
  ap_stride :: nat

text \<open>
  The input coordinates under the window of output position \<open>i\<close>: those of the
  padded coordinates \<open>i * s, ..., i * s + k - 1\<close> that fall on the input.
\<close>

definition window :: "nat \<Rightarrow> nat \<Rightarrow> nat \<Rightarrow> nat \<Rightarrow> nat \<Rightarrow> nat list" where
  "window ext k s p i = map (\<lambda>a. a - p) (filter (\<lambda>a. p \<le> a \<and> a < ext + p) [i * s..<i * s + k])"

definition max_pool2d_elem :: "MaxPool2d \<Rightarrow> tensor4 \<Rightarrow> nat \<Rightarrow> nat \<Rightarrow> nat \<Rightarrow> nat \<Rightarrow> real" where
  "max_pool2d_elem P x n c i j =
     Max (set (concat (map (\<lambda>a. map (\<lambda>b. elem4 x n c a b)
        (window (dimW x) (mp_kernel_size P) (mp_stride P) (mp_padding P) j))
        (window (dimH x) (mp_kernel_size P) (mp_stride P) (mp_padding P) i))))"

text \<open>
  Pooling rejects an input with an empty channel or spatial dimension, a padding of
  more than half the kernel, and an input too small for one window. An empty batch is
  accepted.
\<close>

definition max_pool2d :: "MaxPool2d \<Rightarrow> tensor4 \<Rightarrow> error + tensor4" where
  "max_pool2d P x =
     (if mp_stride P = 0 then Inl ZeroStride
      else if mp_kernel_size P < 2 * mp_padding P then Inl PadTooLarge
      else if dimC x = 0 then Inl EmptyInput
      else if dimH x = 0 then Inl EmptyInput
      else if dimW x = 0 then Inl EmptyInput
      else if dimH x + 2 * mp_padding P < mp_kernel_size P then Inl OutputTooSmall
      else if dimW x + 2 * mp_padding P < mp_kernel_size P then Inl OutputTooSmall
      else Inr \<lparr>dimN = dimN x, dimC = dimC x,
                dimH = out_size (dimH x) (mp_kernel_size P) (mp_stride P) (mp_padding P),
                dimW = out_size (dimW x) (mp_kernel_size P) (mp_stride P) (mp_padding P),
                elem4 = max_pool2d_elem P x\<rparr>)"

definition avg_pool2d_elem :: "AvgPool2d \<Rightarrow> tensor4 \<Rightarrow> nat \<Rightarrow> nat \<Rightarrow> nat \<Rightarrow> nat \<Rightarrow> real" where
  "avg_pool2d_elem P x n c i j =
     (\<Sum>a\<leftarrow>[i * ap_stride P..<i * ap_stride P + ap_kernel_size P].
        \<Sum>b\<leftarrow>[j * ap_stride P..<j * ap_stride P + ap_kernel_size P]. elem4 x n c a b)
     / real (ap_kernel_size P * ap_kernel_size P)"

definition avg_pool2d :: "AvgPool2d \<Rightarrow> tensor4 \<Rightarrow> error + tensor4" where
  "avg_pool2d P x =
     (if ap_stride P = 0 then Inl ZeroStride
      else if dimC x = 0 then Inl EmptyInput
      else if dimH x = 0 then Inl EmptyInput
      else if dimW x = 0 then Inl EmptyInput
      else if dimH x < ap_kernel_size P then Inl OutputTooSmall
      else if dimW x < ap_kernel_size P then Inl OutputTooSmall
      else Inr \<lparr>dimN = dimN x, dimC = dimC x,
                dimH = out_size (dimH x) (ap_kernel_size P) (ap_stride P) 0,
                dimW = out_size (dimW x) (ap_kernel_size P) (ap_stride P) 0,
                elem4 = avg_pool2d_elem P x\<rparr>)"

subsection \<open>Concatenation along the channel axis\<close>

definition cat_pair :: "tensor4 \<Rightarrow> tensor4 \<Rightarrow> tensor4" where
  "cat_pair t u =
     \<lparr>dimN = dimN t, dimC = dimC t + dimC u, dimH = dimH t, dimW = dimW t,
      elem4 = (\<lambda>n c i j. if c < dimC t then elem4 t n c i j else elem4 u n (c - dimC t) i j)\<rparr>"

text \<open>
  \<open>torch.cat(tensors, axis=1)\<close>: the tensors must agree in every dimension but the
  channels, and are laid out one after the other in the order of the sequence.
\<close>

fun cat1 :: "tensor4 list \<Rightarrow> error + tensor4" where
  "cat1 [] = Inl CatEmptyList"
| "cat1 [t] = Inr t"
| "cat1 (t # u # ts) =
     (if dimN t = dimN u \<and> dimH t = dimH u \<and> dimW t = dimW u
      then cat1 (cat_pair t u # ts) else Inl CatSizeMismatch)"

section \<open>The Inception block\<close>

type_synonym block_params = "nat \<times> nat \<times> nat \<times> nat \<times> nat \<times> nat \<times> nat"

record Inception_Block =
  ib_conv1 :: Conv2d
  ib_reduce2 :: Conv2d
  ib_conv2 :: Conv2d
  ib_reduce3 :: Conv2d
  ib_conv3 :: Conv2d
  ib_maxpool4 :: MaxPool2d
  ib_conv4 :: Conv2d

text \<open>\<open>Inception_Block.__init__\<close>: the tuple is unpacked and the seven layers are built.\<close>

definition Inception_Block_init :: "state_dict \<Rightarrow> block_params \<Rightarrow> Inception_Block" where
  "Inception_Block_init sd block_params =
     (case block_params of (in_ch, out1, red2, out2, red3, out3, out4) \<Rightarrow>
        \<lparr>ib_conv1 = nn_Conv2d sd ''conv1'' in_ch out1 1 1 0,
         ib_reduce2 = nn_Conv2d sd ''reduce2'' in_ch red2 1 1 0,
         ib_conv2 = nn_Conv2d sd ''conv2'' red2 out2 3 1 1,
         ib_reduce3 = nn_Conv2d sd ''reduce3'' in_ch red3 1 1 0,
         ib_conv3 = nn_Conv2d sd ''conv3'' red3 out3 5 1 2,
         ib_maxpool4 = \<lparr>mp_kernel_size = 3, mp_stride = 1, mp_padding = 1\<rparr>,
         ib_conv4 = nn_Conv2d sd ''conv4'' in_ch out4 1 1 0\<rparr>)"

text \<open>\<open>Inception_Block.forward\<close>, statement by statement.\<close>

definition Inception_Block_forward :: "Inception_Block \<Rightarrow> tensor4 \<Rightarrow> error + tensor4" where
  "Inception_Block_forward self x =
     ebind (conv2d (ib_conv1 self) x) (\<lambda>c1.
     ebind (conv2d (ib_reduce2 self) x) (\<lambda>r2.
     ebind (conv2d (ib_conv2 self) (relu4 r2)) (\<lambda>c2.
     ebind (conv2d (ib_reduce3 self) x) (\<lambda>r3.
     ebind (conv2d (ib_conv3 self) (relu4 r3)) (\<lambda>c3.
     ebind (max_pool2d (ib_maxpool4 self) x) (\<lambda>m4.
     ebind (conv2d (ib_conv4 self) m4) (\<lambda>c4.
     cat1 [relu4 c1, relu4 c2, relu4 c3, relu4 c4])))))))"

section \<open>The auxiliary classifier\<close>

subsection \<open>Flattening, Linear and Dropout\<close>

text \<open>
  \<open>x.reshape(x.shape[0], -1)\<close>: one row per batch element, the row holding the
  entries of that element in channel, height, width order. The size of the row is
  inferred; for a tensor without elements and a first size of 0 it cannot be, and the
  library raises.
\<close>

definition reshape_rows :: "tensor4 \<Rightarrow> error + tensor2" where
  "reshape_rows x =
     (if dimN x = 0 then Inl AmbiguousReshape
      else Inr \<lparr>dimB = dimN x, dimF = dimC x * dimH x * dimW x,
                elem2 = (\<lambda>n f. elem4 x n (f div (dimH x * dimW x)) (f div dimW x mod dimH x)
                                   (f mod dimW x))\<rparr>)"

record Linear =
  in_features :: nat
  out_features :: nat
  lin_weight :: "nat \<Rightarrow> nat \<Rightarrow> real"
  lin_bias :: "nat \<Rightarrow> real"

definition nn_Linear :: "state_dict \<Rightarrow> string \<Rightarrow> nat \<Rightarrow> nat \<Rightarrow> Linear" where
  "nn_Linear sd name fin fout =
     \<lparr>in_features = fin, out_features = fout,
      lin_weight = (\<lambda>k i. sd (name @ ''.weight'') [k, i]),
      lin_bias = (\<lambda>k. sd (name @ ''.bias'') [k])\<rparr>"

definition linear_elem :: "Linear \<Rightarrow> tensor2 \<Rightarrow> nat \<Rightarrow> nat \<Rightarrow> real" where
  "linear_elem L x n k =
     lin_bias L k + (\<Sum>i\<leftarrow>[0..<in_features L]. elem2 x n i * lin_weight L k i)"

text \<open>A fully-connected layer has a fixed input width; any other width raises.\<close>

definition linear_forward :: "Linear \<Rightarrow> tensor2 \<Rightarrow> error + tensor2" where
  "linear_forward L x =
     (if dimF x = in_features L
      then Inr \<lparr>dimB = dimB x, dimF = out_features L, elem2 = linear_elem L x\<rparr>
      else Inl (MatMulMismatch (dimF x) (in_features L)))"

text \<open>
  Dropout reads the module's \<open>training\<close> flag, which is set when the module is
  constructed and cleared by \<open>eval()\<close>. In training mode it draws one number per
  entry from the random generator; the generator is a stream of draws from [0, 1),
  passed in and returned advanced. An entry whose draw is below \<open>p\<close> is zeroed, the
  others are scaled by \<open>1 / (1 - p)\<close>. In inference mode the input is returned and
  nothing is drawn.
\<close>

type_synonym rng = "nat \<Rightarrow> real"

text \<open>The generator whose every draw is \<open>v\<close>.\<close>

definition const_rng :: "real \<Rightarrow> rng" where
  "const_rng v = (\<lambda>_. v)"

record Dropout =
  drop_p :: real
  drop_training :: bool

definition nn_Dropout :: "real \<Rightarrow> Dropout" where
  "nn_Dropout p = \<lparr>drop_p = p, drop_training = True\<rparr>"

definition dropout :: "Dropout \<Rightarrow> rng \<Rightarrow> tensor2 \<Rightarrow> tensor2 \<times> rng" where
  "dropout D g x =
     (if drop_training D
      then (x\<lparr>elem2 := (\<lambda>n f. if g (n * dimF x + f) < drop_p D then 0
                                else elem2 x n f / (1 - drop_p D))\<rparr>,
            (\<lambda>k. g (k + dimB x * dimF x)))
      else (x, g))"

subsection \<open>The module\<close>

record Auxiliary_Classifier =
  ac_avgpool1 :: AvgPool2d
  ac_conv2 :: Conv2d
  ac_fc3 :: Linear
  ac_dropout4 :: Dropout
  ac_fc5 :: Linear

text \<open>\<open>Auxiliary_Classifier.__init__\<close>.\<close>

definition Auxiliary_Classifier_init :: "state_dict \<Rightarrow> nat \<Rightarrow> nat \<Rightarrow> Auxiliary_Classifier" where
  "Auxiliary_Classifier_init sd in_ch num_classes =
     \<lparr>ac_avgpool1 = \<lparr>ap_kernel_size = 5, ap_stride = 3\<rparr>,
      ac_conv2 = nn_Conv2d sd ''conv2'' in_ch 128 1 1 0,
      ac_fc3 = nn_Linear sd ''fc3'' (4 * 4 * 128) 1024,
      ac_dropout4 = nn_Dropout 0.7,
      ac_fc5 = nn_Linear sd ''fc5'' 1024 num_classes\<rparr>"

text \<open>\<open>Auxiliary_Classifier.forward\<close>, statement by statement.\<close>

definition Auxiliary_Classifier_forward ::
  "Auxiliary_Classifier \<Rightarrow> rng \<Rightarrow> tensor4 \<Rightarrow> error + (tensor2 \<times> rng)" where
  "Auxiliary_Classifier_forward self g x =
     ebind (avg_pool2d (ac_avgpool1 self) x) (\<lambda>x.
     ebind (conv2d (ac_conv2 self) x) (\<lambda>x.
     ebind (reshape_rows (relu4 x)) (\<lambda>r.
     ebind (linear_forward (ac_fc3 self) r) (\<lambda>x.
     case dropout (ac_dropout4 self) g (relu2 x) of (x, g') \<Rightarrow>
     ebind (linear_forward (ac_fc5 self) x) (\<lambda>scores.
     Inr (scores, g'))))))"

text \<open>
  \<open>train(mode)\<close> on the module sets the flag of its dropout layer; \<open>eval()\<close> is
  \<open>train(False)\<close>.
\<close>

definition Auxiliary_Classifier_train :: "bool \<Rightarrow> Auxiliary_Classifier \<Rightarrow> Auxiliary_Classifier" where
  "Auxiliary_Classifier_train mode self =
     self\<lparr>ac_dropout4 := (ac_dropout4 self)\<lparr>drop_training := mode\<rparr>\<rparr>"

definition Auxiliary_Classifier_eval :: "Auxiliary_Classifier \<Rightarrow> Auxiliary_Classifier" where
  "Auxiliary_Classifier_eval self = Auxiliary_Classifier_train False self"

section \<open>The network\<close>

text \<open>
  The table of block parameters is a dictionary keyed by the block's name; a lookup of
  a missing key raises \<open>KeyError\<close>.
\<close>

definition inception_params :: "(string \<times> block_params) list" where
  "inception_params =
     [(''inception3a'', (192, 64, 96, 128, 16, 32, 32)),
      (''inception3b'', (256, 128, 128, 192, 32, 96, 64)),
      (''inception4a'', (480, 192, 96, 208, 16, 48, 64)),
      (''inception4b'', (512, 160, 112, 224, 24, 64, 64)),
      (''inception4c'', (512, 128, 128, 256, 24, 64, 64)),
      (''inception4d'', (512, 112, 144, 288, 32, 64, 64)),
      (''inception4e'', (528, 256, 160, 320, 32, 128, 128)),
      (''inception5a'', (832, 256, 160, 320, 32, 128, 128)),
      (''inception5b'', (832, 384, 192, 384, 48, 128, 128))]"

definition getitem :: "(string \<times> block_params) list \<Rightarrow> string \<Rightarrow> error + block_params" where
  "getitem d k = (case map_of d k of None \<Rightarrow> Inl (KeyError k) | Some v \<Rightarrow> Inr v)"

record Inception_Net =
  net_inception_params :: "(string \<times> block_params) list"
  net_conv1 :: Conv2d
  net_maxpool1 :: MaxPool2d
  net_reduce2 :: Conv2d
  net_conv2 :: Conv2d
  net_maxpool2 :: MaxPool2d
  net_inception3a :: Inception_Block
  net_inception3b :: Inception_Block
  net_maxpool3 :: MaxPool2d
  net_inception4a :: Inception_Block
  net_inception4b :: Inception_Block
  net_inception4c :: Inception_Block
  net_inception4d :: Inception_Block
  net_inception4e :: Inception_Block
  net_maxpool4 :: MaxPool2d
  net_inception5a :: Inception_Block
  net_inception5b :: Inception_Block
  net_avgpool5 :: AvgPool2d
  net_dropout5 :: Dropout
  net_linear5 :: Linear
  net_aux_classifier1 :: Auxiliary_Classifier
  net_aux_classifier2 :: Auxiliary_Classifier

text \<open>
  \<open>Inception_Net.__init__\<close>. The parameters of a submodule are named with the
  submodule's attribute name as prefix.
\<close>

definition Inception_Net_init :: "state_dict \<Rightarrow> nat \<Rightarrow> error + Inception_Net" where
  "Inception_Net_init sd num_classes =
     ebind (getitem inception_params ''inception3a'') (\<lambda>p3a.
     ebind (getitem inception_params ''inception3b'') (\<lambda>p3b.
     ebind (getitem inception_params ''inception4a'') (\<lambda>p4a.
     ebind (getitem inception_params ''inception4b'') (\<lambda>p4b.
     ebind (getitem inception_params ''inception4c'') (\<lambda>p4c.
     ebind (getitem inception_params ''inception4d'') (\<lambda>p4d.
     ebind (getitem inception_params ''inception4e'') (\<lambda>p4e.
     ebind (getitem inception_params ''inception5a'') (\<lambda>p5a.
     ebind (getitem inception_params ''inception5b'') (\<lambda>p5b.
     Inr \<lparr>net_inception_params = inception_params,
          net_conv1 = nn_Conv2d sd ''conv1'' 3 64 7 2 3,
          net_maxpool1 = \<lparr>mp_kernel_size = 3, mp_stride = 2, mp_padding = 1\<rparr>,
          net_reduce2 = nn_Conv2d sd ''reduce2'' 64 64 1 1 0,
          net_conv2 = nn_Conv2d sd ''conv2'' 64 192 3 1 1,
          net_maxpool2 = \<lparr>mp_kernel_size = 3, mp_stride = 2, mp_padding = 1\<rparr>,
          net_inception3a = Inception_Block_init (sub_dict sd ''inception3a'') p3a,
          net_inception3b = Inception_Block_init (sub_dict sd ''inception3b'') p3b,
          net_maxpool3 = \<lparr>mp_kernel_size = 3, mp_stride = 2, mp_padding = 1\<rparr>,
          net_inception4a = Inception_Block_init (sub_dict sd ''inception4a'') p4a,
          net_inception4b = Inception_Block_init (sub_dict sd ''inception4b'') p4b,
          net_inception4c = Inception_Block_init (sub_dict sd ''inception4c'') p4c,
          net_inception4d = Inception_Block_init (sub_dict sd ''inception4d'') p4d,
          net_inception4e = Inception_Block_init (sub_dict sd ''inception4e'') p4e,
          net_maxpool4 = \<lparr>mp_kernel_size = 3, mp_stride = 2, mp_padding = 1\<rparr>,
          net_inception5a = Inception_Block_init (sub_dict sd ''inception5a'') p5a,
          net_inception5b = Inception_Block_init (sub_dict sd ''inception5b'') p5b,
          net_avgpool5 = \<lparr>ap_kernel_size = 7, ap_stride = 1\<rparr>,
          net_dropout5 = nn_Dropout 0.4,
          net_linear5 = nn_Linear sd ''linear5'' 1024 num_classes,
          net_aux_classifier1 = Auxiliary_Classifier_init (sub_dict sd ''aux_classifier1'') 512 num_classes,
          net_aux_classifier2 = Auxiliary_Classifier_init (sub_dict sd ''aux_classifier2'') 528 num_classes\<rparr>)))))))))"

text \<open>\<open>x.clone()\<close>: a new tensor with the same shape and entries.\<close>

definition clone :: "tensor4 \<Rightarrow> tensor4" where
  "clone x = \<lparr>dimN = dimN x, dimC = dimC x, dimH = dimH x, dimW = dimW x, elem4 = elem4 x\<rparr>"

text \<open>
  \<open>Inception_Net.forward\<close>, statement by statement. The result is the tuple
  \<open>(scores0, scores1, scores2)\<close>, with the generator as the three dropout layers
  left it.
\<close>

definition Inception_Net_forward ::
  "Inception_Net \<Rightarrow> rng \<Rightarrow> tensor4 \<Rightarrow> error + ((tensor2 \<times> tensor2 \<times> tensor2) \<times> rng)" where
  "Inception_Net_forward self g x =
     ebind (conv2d (net_conv1 self) x) (\<lambda>x.
     ebind (max_pool2d (net_maxpool1 self) (relu4 x)) (\<lambda>x.
     ebind (conv2d (net_reduce2 self) x) (\<lambda>x.
     ebind (conv2d (net_conv2 self) (relu4 x)) (\<lambda>x.
     ebind (max_pool2d (net_maxpool2 self) (relu4 x)) (\<lambda>x.
     ebind (Inception_Block_forward (net_inception3a self) x) (\<lambda>x.
     ebind (Inception_Block_forward (net_inception3b self) x) (\<lambda>x.
     ebind (max_pool2d (net_maxpool3 self) x) (\<lambda>x.
     ebind (Inception_Block_forward (net_inception4a self) x) (\<lambda>x.
     let aux0 = clone x in
     ebind (Inception_Block_forward (net_inception4b self) x) (\<lambda>x.
     ebind (Inception_Block_forward (net_inception4c self) x) (\<lambda>x.
     ebind (Inception_Block_forward (net_inception4d self) x) (\<lambda>x.
     let aux1 = clone x in
     ebind (Inception_Block_forward (net_inception4e self) x) (\<lambda>x.
     ebind (max_pool2d (net_maxpool4 self) x) (\<lambda>x.
     ebind (Inception_Block_forward (net_inception5a self) x) (\<lambda>x.
     ebind (Inception_Block_forward (net_inception5b self) x) (\<lambda>x.
     ebind (avg_pool2d (net_avgpool5 self) x) (\<lambda>x.
     ebind (reshape_rows x) (\<lambda>r.
     case dropout (net_dropout5 self) g r of (x, g1) \<Rightarrow>
     ebind (linear_forward (net_linear5 self) x) (\<lambda>scores2.
     ebind (Auxiliary_Classifier_forward (net_aux_classifier1 self) g1 aux0) (\<lambda>(scores0, g2).
     ebind (Auxiliary_Classifier_forward (net_aux_classifier2 self) g2 aux1) (\<lambda>(scores1, g3).
     Inr ((scores0, scores1, scores2), g3))))))))))))))))))))))"

text \<open>
  \<open>train(mode)\<close> on the network sets the flag of every dropout layer in it;
  \<open>eval()\<close> is \<open>train(False)\<close>.
\<close>

definition Inception_Net_train :: "bool \<Rightarrow> Inception_Net \<Rightarrow> Inception_Net" where
  "Inception_Net_train mode self =
     self\<lparr>net_dropout5 := (net_dropout5 self)\<lparr>drop_training := mode\<rparr>,
          net_aux_classifier1 := Auxiliary_Classifier_train mode (net_aux_classifier1 self),
          net_aux_classifier2 := Auxiliary_Classifier_train mode (net_aux_classifier2 self)\<rparr>"

definition Inception_Net_eval :: "Inception_Net \<Rightarrow> Inception_Net" where
  "Inception_Net_eval self = Inception_Net_train False self"

subsection \<open>The activations at the tap points\<close>

text \<open>
  The value that \<open>forward\<close> holds in \<open>x\<close> after block 4a and after block 4d, as
  functions of the input, and the rest of the body from there on: the statements up
  to block 4a, those from block 4b to block 4d, those from block 4e to the flattened
  features, and the three classifier heads.
\<close>

definition forward_to_4a :: "Inception_Net \<Rightarrow> tensor4 \<Rightarrow> error + tensor4" where
  "forward_to_4a self x =
     ebind (conv2d (net_conv1 self) x) (\<lambda>x.
     ebind (max_pool2d (net_maxpool1 self) (relu4 x)) (\<lambda>x.
     ebind (conv2d (net_reduce2 self) x) (\<lambda>x.
     ebind (conv2d (net_conv2 self) (relu4 x)) (\<lambda>x.
     ebind (max_pool2d (net_maxpool2 self) (relu4 x)) (\<lambda>x.
     ebind (Inception_Block_forward (net_inception3a self) x) (\<lambda>x.
     ebind (Inception_Block_forward (net_inception3b self) x) (\<lambda>x.
     ebind (max_pool2d (net_maxpool3 self) x) (\<lambda>x.
     Inception_Block_forward (net_inception4a self) x))))))))"

definition forward_4b_to_4d :: "Inception_Net \<Rightarrow> tensor4 \<Rightarrow> error + tensor4" where
  "forward_4b_to_4d self x =
     ebind (Inception_Block_forward (net_inception4b self) x) (\<lambda>x.
     ebind (Inception_Block_forward (net_inception4c self) x) (\<lambda>x.
     Inception_Block_forward (net_inception4d self) x))"

definition forward_4e_to_flat :: "Inception_Net \<Rightarrow> tensor4 \<Rightarrow> error + tensor2" where
  "forward_4e_to_flat self x =
     ebind (Inception_Block_forward (net_inception4e self) x) (\<lambda>x.
     ebind (max_pool2d (net_maxpool4 self) x) (\<lambda>x.
     ebind (Inception_Block_forward (net_inception5a self) x) (\<lambda>x.
     ebind (Inception_Block_forward (net_inception5b self) x) (\<lambda>x.
     ebind (avg_pool2d (net_avgpool5 self) x) (\<lambda>x.
     reshape_rows x)))))"

definition forward_heads ::
  "Inception_Net \<Rightarrow> rng \<Rightarrow> tensor4 \<Rightarrow> tensor4 \<Rightarrow> tensor2 \<Rightarrow> error + ((tensor2 \<times> tensor2 \<times> tensor2) \<times> rng)" where
  "forward_heads self g aux0 aux1 r =
     (case dropout (net_dropout5 self) g r of (x, g1) \<Rightarrow>
      ebind (linear_forward (net_linear5 self) x) (\<lambda>scores2.
      ebind (Auxiliary_Classifier_forward (net_aux_classifier1 self) g1 aux0) (\<lambda>(scores0, g2).
      ebind (Auxiliary_Classifier_forward (net_aux_classifier2 self) g2 aux1) (\<lambda>(scores1, g3).
      Inr ((scores0, scores1, scores2), g3)))))"

definition activation_4a :: "Inception_Net \<Rightarrow> tensor4 \<Rightarrow> error + tensor4" where
  "activation_4a self x = forward_to_4a self x"

definition activation_4d :: "Inception_Net \<Rightarrow> tensor4 \<Rightarrow> error + tensor4" where
  "activation_4d self x = ebind (forward_to_4a self x) (forward_4b_to_4d self)"

text \<open>The flattened features that the final classifier is given, as a function of the input.\<close>

definition flat_features :: "Inception_Net \<Rightarrow> tensor4 \<Rightarrow> error + tensor2" where
  "flat_features self x = ebind (activation_4d self x) (forward_4e_to_flat self)"

text \<open>The channels a block expects and the channels it produces, read from its layers.\<close>

definition block_in_channels :: "Inception_Block \<Rightarrow> nat" where
  "block_in_channels b = in_channels (ib_conv1 b)"

definition block_out_channels :: "Inception_Block \<Rightarrow> nat" where
  "block_out_channels b =
     out_channels (ib_conv1 b) + out_channels (ib_conv2 b) + out_channels (ib_conv3 b)
     + out_channels (ib_conv4 b)"

text \<open>
  The notebook's check of the output shapes: a network is constructed, applied to an
  input, and the shape of each of the three scores is printed. The cell uses 1000
  classes and \<open>torch.zeros((64, 3, 224, 224))\<close>.
\<close>

definition check_output_shape :: "state_dict \<Rightarrow> nat \<Rightarrow> rng \<Rightarrow> tensor4 \<Rightarrow> error + (nat \<times> nat) list" where
  "check_output_shape sd num_classes g x =
     ebind (Inception_Net_init sd num_classes) (\<lambda>model.
     ebind (Inception_Net_forward model g x) (\<lambda>((scores0, scores1, scores2), g').
     Inr [shape2 scores0, shape2 scores1, shape2 scores2]))"

section \<open>The forward pass on tensor objects\<close>

text \<open>
  A tensor of the library is an object: two names can be bound to the same tensor,
  and an operation performed in place changes it for both. In this reading of
  \<open>Inception_Net.forward\<close> a name holds a reference into a heap of tensors, and the
  state of a run is the heap together with the random generator. Calling a layer or
  a module reads its argument and returns a new object; so does \<open>clone\<close>.
  \<open>F.relu\<close> has an \<open>inplace\<close> flag, which the notebook leaves at its default
  \<open>False\<close>; with the flag set it overwrites its argument. Dropout in inference mode
  returns its argument itself.
\<close>

datatype obj = Feature tensor4 | Matrix tensor2

type_synonym world = "obj list \<times> rng"

type_synonym stage = "nat \<Rightarrow> world \<Rightarrow> error + (nat \<times> world)"

definition get4 :: "obj list \<Rightarrow> nat \<Rightarrow> error + tensor4" where
  "get4 h r =
     (if r < length h
      then (case h ! r of Feature t \<Rightarrow> Inr t | Matrix _ \<Rightarrow> Inl RankMismatch)
      else Inl InvalidReference)"

definition get2 :: "obj list \<Rightarrow> nat \<Rightarrow> error + tensor2" where
  "get2 h r =
     (if r < length h
      then (case h ! r of Matrix t \<Rightarrow> Inr t | Feature _ \<Rightarrow> Inl RankMismatch)
      else Inl InvalidReference)"

definition alloc :: "obj \<Rightarrow> world \<Rightarrow> nat \<times> world" where
  "alloc v w = (length (fst w), (fst w @ [v], snd w))"

definition call4 :: "(tensor4 \<Rightarrow> error + tensor4) \<Rightarrow> stage" where
  "call4 f r w = ebind (get4 (fst w) r) (\<lambda>t. ebind (f t) (\<lambda>y. Inr (alloc (Feature y) w)))"

definition call42 :: "(tensor4 \<Rightarrow> error + tensor2) \<Rightarrow> stage" where
  "call42 f r w = ebind (get4 (fst w) r) (\<lambda>t. ebind (f t) (\<lambda>y. Inr (alloc (Matrix y) w)))"

definition call2 :: "(tensor2 \<Rightarrow> error + tensor2) \<Rightarrow> stage" where
  "call2 f r w = ebind (get2 (fst w) r) (\<lambda>t. ebind (f t) (\<lambda>y. Inr (alloc (Matrix y) w)))"

definition F_relu :: "bool \<Rightarrow> stage" where
  "F_relu inplace r w =
     ebind (get4 (fst w) r) (\<lambda>t.
       if inplace then Inr (r, ((fst w)[r := Feature (relu4 t)], snd w))
       else Inr (alloc (Feature (relu4 t)) w))"

definition clone_ref :: stage where
  "clone_ref r w = ebind (get4 (fst w) r) (\<lambda>t. Inr (alloc (Feature (clone t)) w))"

definition dropout_ref :: "Dropout \<Rightarrow> stage" where
  "dropout_ref D r w =
     ebind (get2 (fst w) r) (\<lambda>t.
       if drop_training D
       then (case dropout D (snd w) t of (y, g') \<Rightarrow> Inr (alloc (Matrix y) (fst w, g')))
       else Inr (r, w))"

definition call_aux :: "Auxiliary_Classifier \<Rightarrow> stage" where
  "call_aux A r w =
     ebind (get4 (fst w) r) (\<lambda>t.
     ebind (Auxiliary_Classifier_forward A (snd w) t) (\<lambda>(scores, g').
     Inr (alloc (Matrix scores) (fst w, g'))))"

text \<open>Statements \<open>x = stage(x)\<close> one after the other.\<close>

fun pipeline :: "stage list \<Rightarrow> stage" where
  "pipeline [] r w = Inr (r, w)"
| "pipeline (s # ss) r w = ebind (s r w) (\<lambda>(r', w'). pipeline ss r' w')"

text \<open>The statements of \<open>forward\<close> up to block 4a, from block 4b to block 4d, and from
  block 4e to the last average pool.\<close>

definition stages_to_4a :: "Inception_Net \<Rightarrow> stage list" where
  "stages_to_4a self =
     [call4 (conv2d (net_conv1 self)), F_relu False,
      call4 (max_pool2d (net_maxpool1 self)),
      call4 (conv2d (net_reduce2 self)), F_relu False,
      call4 (conv2d (net_conv2 self)), F_relu False,
      call4 (max_pool2d (net_maxpool2 self)),
      call4 (Inception_Block_forward (net_inception3a self)),
      call4 (Inception_Block_forward (net_inception3b self)),
      call4 (max_pool2d (net_maxpool3 self)),
      call4 (Inception_Block_forward (net_inception4a self))]"

definition stages_4b_to_4d :: "Inception_Net \<Rightarrow> stage list" where
  "stages_4b_to_4d self =
     [call4 (Inception_Block_forward (net_inception4b self)),
      call4 (Inception_Block_forward (net_inception4c self)),
      call4 (Inception_Block_forward (net_inception4d self))]"

definition stages_4e_to_avgpool5 :: "Inception_Net \<Rightarrow> stage list" where
  "stages_4e_to_avgpool5 self =
     [call4 (Inception_Block_forward (net_inception4e self)),
      call4 (max_pool2d (net_maxpool4 self)),
      call4 (Inception_Block_forward (net_inception5a self)),
      call4 (Inception_Block_forward (net_inception5b self)),
      call4 (avg_pool2d (net_avgpool5 self))]"

text \<open>The statements of \<open>forward\<close> from the dropout before the final classifier on:
  the result is the three references \<open>(scores0, scores1, scores2)\<close> and the final
  state.\<close>

definition forward_heads_ref ::
  "Inception_Net \<Rightarrow> nat \<Rightarrow> nat \<Rightarrow> nat \<Rightarrow> world \<Rightarrow> error + ((nat \<times> nat \<times> nat) \<times> world)" where
  "forward_heads_ref self aux0 aux1 x w =
     ebind (dropout_ref (net_dropout5 self) x w) (\<lambda>(x, w).
     ebind (call2 (linear_forward (net_linear5 self)) x w) (\<lambda>(scores2, w).
     ebind (call_aux (net_aux_classifier1 self) aux0 w) (\<lambda>(scores0, w).
     ebind (call_aux (net_aux_classifier2 self) aux1 w) (\<lambda>(scores1, w).
     Inr ((scores0, scores1, scores2), w)))))"

text \<open>\<open>Inception_Net.forward\<close> on objects.\<close>

definition Inception_Net_forward_ref ::
  "Inception_Net \<Rightarrow> nat \<Rightarrow> world \<Rightarrow> error + ((nat \<times> nat \<times> nat) \<times> world)" where
  "Inception_Net_forward_ref self x w =
     ebind (pipeline (stages_to_4a self) x w) (\<lambda>(x, w).
     ebind (clone_ref x w) (\<lambda>(aux0, w).
     ebind (pipeline (stages_4b_to_4d self) x w) (\<lambda>(x, w).
     ebind (clone_ref x w) (\<lambda>(aux1, w).
     ebind (pipeline (stages_4e_to_avgpool5 self) x w) (\<lambda>(x, w).
     ebind (call42 reshape_rows x w) (\<lambda>(x, w).
     forward_heads_ref self aux0 aux1 x w))))))"

text \<open>
  A stage implements a function on tensors when, called on a reference to a feature
  map, it fails as the function does, or adds objects to the heap and returns a
  reference to the function's result; it changes no object and draws nothing.
\<close>

definition implements :: "stage \<Rightarrow> (tensor4 \<Rightarrow> error + tensor4) \<Rightarrow> bool" where
  "implements s f =
     (\<forall>h g r t. get4 h r = Inr t \<longrightarrow>
        (case f t of
           Inl e \<Rightarrow> s r (h, g) = Inl e
         | Inr y \<Rightarrow> (\<exists>r' h2. s r (h, g) = Inr (r', (h @ h2, g)) \<and> get4 (h @ h2) r' = Inr y)))"

text \<open>The functions on tensors one after the other.\<close>

fun pure_pipeline :: "(tensor4 \<Rightarrow> error + tensor4) list \<Rightarrow> tensor4 \<Rightarrow> error + tensor4" where
  "pure_pipeline [] t = Inr t"
| "pure_pipeline (f # fs) t = ebind (f t) (pure_pipeline fs)"

section \<open>The loss\<close>

text \<open>
  A scalar that the library returns: a number, or \<open>nan\<close>. Sums and products with
  \<open>nan\<close> are \<open>nan\<close>. The numbers are reals; rounding, overflow and infinities
  are not modelled.
\<close>

datatype scalar = Nan | Num real

definition scalar_add :: "scalar \<Rightarrow> scalar \<Rightarrow> scalar" where
  "scalar_add a b = (case a of Nan \<Rightarrow> Nan | Num u \<Rightarrow> (case b of Nan \<Rightarrow> Nan | Num v \<Rightarrow> Num (u + v)))"

definition scalar_mul :: "scalar \<Rightarrow> scalar \<Rightarrow> scalar" where
  "scalar_mul a b = (case a of Nan \<Rightarrow> Nan | Num u \<Rightarrow> (case b of Nan \<Rightarrow> Nan | Num v \<Rightarrow> Num (u * v)))"

text \<open>
  \<open>F.cross_entropy(scores, y)\<close> with class indices as targets and the default mean
  reduction: the log-softmax of the scores followed by the negative log-likelihood
  loss. The batch sizes must agree and every target must be a class index. The mean
  of an empty batch is the quotient of zero by zero, which is \<open>nan\<close>.
\<close>

definition log_softmax :: "tensor2 \<Rightarrow> tensor2" where
  "log_softmax s =
     s\<lparr>elem2 := (\<lambda>n k. elem2 s n k - ln (\<Sum>j\<leftarrow>[0..<dimF s]. exp (elem2 s n j)))\<rparr>"

definition nll_loss :: "tensor2 \<Rightarrow> nat list \<Rightarrow> error + scalar" where
  "nll_loss lp y =
     (if length y = dimB lp
      then if list_ex (\<lambda>t. dimF lp \<le> t) y then Inl TargetOutOfBounds
           else if dimB lp = 0 then Inr Nan
           else Inr (Num ((\<Sum>n\<leftarrow>[0..<dimB lp]. - elem2 lp n (y ! n)) / real (dimB lp)))
      else Inl (BatchMismatch (dimB lp) (length y)))"

definition cross_entropy :: "tensor2 \<Rightarrow> nat list \<Rightarrow> error + scalar" where
  "cross_entropy scores y = nll_loss (log_softmax scores) y"

text \<open>The loss cell of the notebook, from the three score tensors on.\<close>

definition total_loss_of_scores :: "tensor2 \<times> tensor2 \<times> tensor2 \<Rightarrow> nat list \<Rightarrow> error + scalar" where
  "total_loss_of_scores scores y =
     (case scores of (scores0, scores1, scores2) \<Rightarrow>
        ebind (cross_entropy scores0 y) (\<lambda>aux_loss1.
        ebind (cross_entropy scores1 y) (\<lambda>aux_loss2.
        ebind (cross_entropy scores2 y) (\<lambda>main_loss.
        Inr (scalar_add (scalar_add main_loss (scalar_mul (Num 0.3) aux_loss1))
               (scalar_mul (Num 0.3) aux_loss2))))))"

definition total_loss :: "Inception_Net \<Rightarrow> rng \<Rightarrow> tensor4 \<Rightarrow> nat list \<Rightarrow> error + scalar" where
  "total_loss model g x y =
     ebind (Inception_Net_forward model g x) (\<lambda>(scores, g'). total_loss_of_scores scores y)"

section \<open>The specification's descriptions\<close>

text \<open>
  The specification describes the block as four branches and a concatenation by
  channel ranges, the auxiliary classifier as six steps, and the loss by softmax
  probabilities. The definitions of this section follow its words; the theorems
  compare them with the code.
\<close>

definition spec_branch1 :: "state_dict \<Rightarrow> block_params \<Rightarrow> tensor4 \<Rightarrow> error + tensor4" where
  "spec_branch1 sd ps x =
     (case ps of (in_ch, out1, red2, out2, red3, out3, out4) \<Rightarrow>
        ebind (conv2d (nn_Conv2d sd ''conv1'' in_ch out1 1 1 0) x) (\<lambda>t.
        Inr (relu4 t)))"

definition spec_branch2 :: "state_dict \<Rightarrow> block_params \<Rightarrow> tensor4 \<Rightarrow> error + tensor4" where
  "spec_branch2 sd ps x =
     (case ps of (in_ch, out1, red2, out2, red3, out3, out4) \<Rightarrow>
        ebind (conv2d (nn_Conv2d sd ''reduce2'' in_ch red2 1 1 0) x) (\<lambda>t.
        ebind (conv2d (nn_Conv2d sd ''conv2'' red2 out2 3 1 1) (relu4 t)) (\<lambda>u.
        Inr (relu4 u))))"

definition spec_branch3 :: "state_dict \<Rightarrow> block_params \<Rightarrow> tensor4 \<Rightarrow> error + tensor4" where
  "spec_branch3 sd ps x =
     (case ps of (in_ch, out1, red2, out2, red3, out3, out4) \<Rightarrow>
        ebind (conv2d (nn_Conv2d sd ''reduce3'' in_ch red3 1 1 0) x) (\<lambda>t.
        ebind (conv2d (nn_Conv2d sd ''conv3'' red3 out3 5 1 2) (relu4 t)) (\<lambda>u.
        Inr (relu4 u))))"

definition spec_branch4 :: "state_dict \<Rightarrow> block_params \<Rightarrow> tensor4 \<Rightarrow> error + tensor4" where
  "spec_branch4 sd ps x =
     (case ps of (in_ch, out1, red2, out2, red3, out3, out4) \<Rightarrow>
        ebind (max_pool2d \<lparr>mp_kernel_size = 3, mp_stride = 1, mp_padding = 1\<rparr> x) (\<lambda>t.
        ebind (conv2d (nn_Conv2d sd ''conv4'' in_ch out4 1 1 0) t) (\<lambda>u.
        Inr (relu4 u))))"

definition spec_aux_classifier ::
  "state_dict \<Rightarrow> nat \<Rightarrow> nat \<Rightarrow> bool \<Rightarrow> rng \<Rightarrow> tensor4 \<Rightarrow> error + (tensor2 \<times> rng)" where
  "spec_aux_classifier sd inputChannels numClasses training g x =
     ebind (avg_pool2d \<lparr>ap_kernel_size = 5, ap_stride = 3\<rparr> x) (\<lambda>pooled.
     ebind (conv2d (nn_Conv2d sd ''conv2'' inputChannels 128 1 1 0) pooled) (\<lambda>conv.
     ebind (reshape_rows (relu4 conv)) (\<lambda>flat.
     ebind (linear_forward (nn_Linear sd ''fc3'' 2048 1024) flat) (\<lambda>hidden.
     case dropout \<lparr>drop_p = 0.7, drop_training = training\<rparr> g (relu2 hidden) of
       (dropped, g') \<Rightarrow>
     ebind (linear_forward (nn_Linear sd ''fc5'' 1024 numClasses) dropped) (\<lambda>logits.
     Inr (logits, g'))))))"

definition softmax_prob :: "tensor2 \<Rightarrow> nat \<Rightarrow> nat \<Rightarrow> real" where
  "softmax_prob s n k = exp (elem2 s n k) / (\<Sum>j\<leftarrow>[0..<dimF s]. exp (elem2 s n j))"

text \<open>
  The standard cross-entropy: the mean over the rows of the negative logarithm of
  the softmax probability of the row's label. There is no mean of no rows.
\<close>

definition spec_cross_entropy :: "tensor2 \<Rightarrow> nat list \<Rightarrow> real option" where
  "spec_cross_entropy s y =
     (if dimB s = 0 then None
      else Some ((\<Sum>n\<leftarrow>[0..<dimB s]. - ln (softmax_prob s n (y ! n))) / real (dimB s)))"

text \<open>
  The values that \<open>forward\<close> holds in \<open>x\<close> one after the other, from the stem
  convolution to block 5b: \<open>xs ! 0\<close> is the output of \<open>conv1\<close>, \<open>xs ! 1\<close> of
  \<open>maxpool1\<close>, \<open>xs ! 2\<close> of \<open>reduce2\<close>, \<open>xs ! 3\<close> of \<open>conv2\<close>, \<open>xs ! 4\<close> of
  \<open>maxpool2\<close>, \<open>xs ! 5\<close> and \<open>xs ! 6\<close> of blocks 3a and 3b, \<open>xs ! 7\<close> of
  \<open>maxpool3\<close>, \<open>xs ! 8\<close> to \<open>xs ! 12\<close> of blocks 4a to 4e, \<open>xs ! 13\<close> of
  \<open>maxpool4\<close>, \<open>xs ! 14\<close> and \<open>xs ! 15\<close> of blocks 5a and 5b.
\<close>

definition forward_states :: "Inception_Net \<Rightarrow> tensor4 \<Rightarrow> tensor4 list \<Rightarrow> bool" where
  "forward_states self x xs =
     (length xs = 16
      \<and> conv2d (net_conv1 self) x = Inr (xs ! 0)
      \<and> max_pool2d (net_maxpool1 self) (relu4 (xs ! 0)) = Inr (xs ! 1)
      \<and> conv2d (net_reduce2 self) (xs ! 1) = Inr (xs ! 2)
      \<and> conv2d (net_conv2 self) (relu4 (xs ! 2)) = Inr (xs ! 3)
      \<and> max_pool2d (net_maxpool2 self) (relu4 (xs ! 3)) = Inr (xs ! 4)
      \<and> Inception_Block_forward (net_inception3a self) (xs ! 4) = Inr (xs ! 5)
      \<and> Inception_Block_forward (net_inception3b self) (xs ! 5) = Inr (xs ! 6)
      \<and> max_pool2d (net_maxpool3 self) (xs ! 6) = Inr (xs ! 7)
      \<and> Inception_Block_forward (net_inception4a self) (xs ! 7) = Inr (xs ! 8)
      \<and> Inception_Block_forward (net_inception4b self) (xs ! 8) = Inr (xs ! 9)
      \<and> Inception_Block_forward (net_inception4c self) (xs ! 9) = Inr (xs ! 10)
      \<and> Inception_Block_forward (net_inception4d self) (xs ! 10) = Inr (xs ! 11)
      \<and> Inception_Block_forward (net_inception4e self) (xs ! 11) = Inr (xs ! 12)
      \<and> max_pool2d (net_maxpool4 self) (xs ! 12) = Inr (xs ! 13)
      \<and> Inception_Block_forward (net_inception5a self) (xs ! 13) = Inr (xs ! 14)
      \<and> Inception_Block_forward (net_inception5b self) (xs ! 14) = Inr (xs ! 15))"

text \<open>Halving with rounding up: the extent left by a stride-2 layer of the network.\<close>

definition half_up :: "nat \<Rightarrow> nat" where
  "half_up h = (h - 1) div 2 + 1"

text \<open>
  The extent of the plane at the taps after blocks 4a and 4d, behind four stride-2
  layers, and at the last average pool, behind five.
\<close>

definition tap_extent :: "nat \<Rightarrow> nat" where
  "tap_extent h = half_up (half_up (half_up (half_up h)))"

definition final_extent :: "nat \<Rightarrow> nat" where
  "final_extent h = half_up (tap_extent h)"

text \<open>The extent that the auxiliary classifier's average pool leaves of an extent of at least 5.\<close>

definition aux_pooled :: "nat \<Rightarrow> nat" where
  "aux_pooled h = (h - 5) div 3 + 1"

text \<open>
  The shapes of the sixteen values of \<open>forward_states\<close> for an input of shape
  (N, 3, H, W): the channels are those of the layers, and each of the five stride-2
  layers halves the plane.
\<close>

definition trunk_shapes :: "nat \<Rightarrow> nat \<Rightarrow> nat \<Rightarrow> (nat \<times> nat \<times> nat \<times> nat) list" where
  "trunk_shapes N H W =
     (let h1 = half_up H; w1 = half_up W; h2 = half_up h1; w2 = half_up w1;
          h3 = half_up h2; w3 = half_up w2; h4 = half_up h3; w4 = half_up w3;
          h5 = half_up h4; w5 = half_up w4
      in [(N, 64, h1, w1), (N, 64, h2, w2), (N, 64, h2, w2), (N, 192, h2, w2), (N, 192, h3, w3),
          (N, 256, h3, w3), (N, 480, h3, w3), (N, 480, h4, w4),
          (N, 512, h4, w4), (N, 512, h4, w4), (N, 512, h4, w4), (N, 528, h4, w4), (N, 832, h4, w4),
          (N, 832, h5, w5), (N, 832, h5, w5), (N, 1024, h5, w5)])"

section \<open>Sequencing\<close>

lemma ebind_Inr [simp]: "ebind (Inr v) f = f v"
  by (simp add: ebind_def)

lemma ebind_Inl [simp]: "ebind (Inl e) f = Inl e"
  by (simp add: ebind_def)

lemma ebind_assoc: "ebind (ebind m f) h = ebind m (\<lambda>v. ebind (f v) h)"
  by (cases m) simp_all

subsection \<open>Shapes of the layers' results\<close>

lemma nn_Conv2d_fields [simp]:
  "in_channels (nn_Conv2d sd name cin cout k s p) = cin"
  "out_channels (nn_Conv2d sd name cin cout k s p) = cout"
  "kernel_size (nn_Conv2d sd name cin cout k s p) = k"
  "stride (nn_Conv2d sd name cin cout k s p) = s"
  "padding (nn_Conv2d sd name cin cout k s p) = p"
  by (simp_all add: nn_Conv2d_def)

lemma nn_Linear_fields [simp]:
  "in_features (nn_Linear sd name fin fout) = fin"
  "out_features (nn_Linear sd name fin fout) = fout"
  by (simp_all add: nn_Linear_def)

lemma relu4_dims [simp]:
  "dimN (relu4 x) = dimN x" "dimC (relu4 x) = dimC x" "dimH (relu4 x) = dimH x" "dimW (relu4 x) = dimW x"
  by (simp_all add: relu4_def)

lemma relu2_dims [simp]: "dimB (relu2 x) = dimB x" "dimF (relu2 x) = dimF x"
  by (simp_all add: relu2_def)

lemma clone_dims [simp]:
  "dimN (clone x) = dimN x" "dimC (clone x) = dimC x" "dimH (clone x) = dimH x" "dimW (clone x) = dimW x"
  "elem4 (clone x) = elem4 x"
  by (simp_all add: clone_def)

lemma cat_pair_dims [simp]:
  "dimN (cat_pair t u) = dimN t" "dimC (cat_pair t u) = dimC t + dimC u"
  "dimH (cat_pair t u) = dimH t" "dimW (cat_pair t u) = dimW t"
  by (simp_all add: cat_pair_def)

lemma half_up_pos [simp]: "0 < half_up h"
  by (simp add: half_up_def)

lemma aux_pooled_pos [simp]: "0 < aux_pooled h"
  by (simp add: aux_pooled_def)

lemma out_size_stride1: "k \<le> h + 2 * p \<Longrightarrow> out_size h k (Suc 0) p = h + 2 * p + 1 - k"
  by (simp add: out_size_def)

lemma out_size_half_up:
  "0 < h \<Longrightarrow> out_size h 3 2 (Suc 0) = half_up h" "0 < h \<Longrightarrow> out_size h 7 2 3 = half_up h"
  by (simp_all add: out_size_def half_up_def)

lemma conv2d_ok:
  assumes "0 < stride L" "0 < out_channels L" "dimC x = in_channels L" "0 < in_channels L"
    "kernel_size L \<le> dimH x + 2 * padding L" "kernel_size L \<le> dimW x + 2 * padding L"
  shows "\<exists>y. conv2d L x = Inr y \<and> dimN y = dimN x \<and> dimC y = out_channels L
     \<and> dimH y = out_size (dimH x) (kernel_size L) (stride L) (padding L)
     \<and> dimW y = out_size (dimW x) (kernel_size L) (stride L) (padding L)
     \<and> elem4 y = conv2d_elem L x"
  using assms by (simp add: conv2d_def)

text \<open>A convolution that returns on an input with channels.\<close>

lemma conv2d_Inr_channels:
  assumes "conv2d L x = Inr y" and "0 < dimC x"
  shows "dimC y = out_channels L" and "0 < out_channels L" and "dimC x = in_channels L"
  using assms by (auto simp: conv2d_def split: if_splits)

lemma conv2d_same:
  assumes "k = 2 * p + 1" "0 < cout" "dimC x = cin" "0 < cin" "0 < dimH x" "0 < dimW x"
  shows "\<exists>y. conv2d (nn_Conv2d sd name cin cout k 1 p) x = Inr y \<and> dimN y = dimN x \<and> dimC y = cout
     \<and> dimH y = dimH x \<and> dimW y = dimW x
     \<and> elem4 y = conv2d_elem (nn_Conv2d sd name cin cout k 1 p) x"
proof -
  let ?L = "nn_Conv2d sd name cin cout k 1 p"
  have fits: "kernel_size ?L \<le> dimH x + 2 * padding ?L" "kernel_size ?L \<le> dimW x + 2 * padding ?L"
    using assms by simp_all
  from conv2d_ok [of ?L x] assms fits
  obtain y where y: "conv2d ?L x = Inr y" "dimN y = dimN x" "dimC y = cout"
      "dimH y = out_size (dimH x) k 1 p" "dimW y = out_size (dimW x) k 1 p"
      "elem4 y = conv2d_elem ?L x"
    by auto
  have "out_size (dimH x) k 1 p = dimH x" "out_size (dimW x) k 1 p = dimW x"
    using assms by (simp_all add: out_size_stride1)
  with y show ?thesis by simp
qed

lemma conv2d_stem:
  assumes "dimC x = 3" "0 < dimH x" "0 < dimW x"
  shows "\<exists>y. conv2d (nn_Conv2d sd name 3 64 7 2 3) x = Inr y \<and> dimN y = dimN x \<and> dimC y = 64
     \<and> dimH y = half_up (dimH x) \<and> dimW y = half_up (dimW x)"
  using assms conv2d_ok [of "nn_Conv2d sd name 3 64 7 2 3" x]
  by (auto simp: out_size_half_up)

lemma max_pool2d_ok:
  assumes "0 < mp_stride P" "2 * mp_padding P \<le> mp_kernel_size P" "0 < dimC x" "0 < dimH x" "0 < dimW x"
    "mp_kernel_size P \<le> dimH x + 2 * mp_padding P" "mp_kernel_size P \<le> dimW x + 2 * mp_padding P"
  shows "\<exists>y. max_pool2d P x = Inr y \<and> dimN y = dimN x \<and> dimC y = dimC x
     \<and> dimH y = out_size (dimH x) (mp_kernel_size P) (mp_stride P) (mp_padding P)
     \<and> dimW y = out_size (dimW x) (mp_kernel_size P) (mp_stride P) (mp_padding P)
     \<and> elem4 y = max_pool2d_elem P x"
  using assms by (simp add: max_pool2d_def)

lemma max_pool2d_Inr_channels:
  assumes "max_pool2d P x = Inr y"
  shows "0 < dimC x" and "dimC y = dimC x"
  using assms by (auto simp: max_pool2d_def split: if_splits)

lemma max_pool2d_same:
  assumes "0 < dimC x" "0 < dimH x" "0 < dimW x"
  shows "\<exists>y. max_pool2d \<lparr>mp_kernel_size = 3, mp_stride = 1, mp_padding = 1\<rparr> x = Inr y
     \<and> dimN y = dimN x \<and> dimC y = dimC x \<and> dimH y = dimH x \<and> dimW y = dimW x
     \<and> elem4 y = max_pool2d_elem \<lparr>mp_kernel_size = 3, mp_stride = 1, mp_padding = 1\<rparr> x"
  using assms max_pool2d_ok [of "\<lparr>mp_kernel_size = 3, mp_stride = 1, mp_padding = 1\<rparr>" x]
  by (auto simp: out_size_stride1)

lemma max_pool2d_half:
  assumes "0 < dimC x" "0 < dimH x" "0 < dimW x"
  shows "\<exists>y. max_pool2d \<lparr>mp_kernel_size = 3, mp_stride = 2, mp_padding = 1\<rparr> x = Inr y
     \<and> dimN y = dimN x \<and> dimC y = dimC x \<and> dimH y = half_up (dimH x) \<and> dimW y = half_up (dimW x)"
  using assms max_pool2d_ok [of "\<lparr>mp_kernel_size = 3, mp_stride = 2, mp_padding = 1\<rparr>" x]
  by (auto simp: out_size_half_up)

lemma avg_pool2d_ok:
  assumes "0 < ap_stride P" "0 < dimC x" "0 < ap_kernel_size P"
    "ap_kernel_size P \<le> dimH x" "ap_kernel_size P \<le> dimW x"
  shows "\<exists>y. avg_pool2d P x = Inr y \<and> dimN y = dimN x \<and> dimC y = dimC x
     \<and> dimH y = (dimH x - ap_kernel_size P) div ap_stride P + 1
     \<and> dimW y = (dimW x - ap_kernel_size P) div ap_stride P + 1
     \<and> elem4 y = avg_pool2d_elem P x"
  using assms by (auto simp add: avg_pool2d_def out_size_def)

lemma avg_pool2d_small:
  assumes "dimH x < ap_kernel_size P \<or> dimW x < ap_kernel_size P"
  shows "isl (avg_pool2d P x)"
  using assms by (auto simp add: avg_pool2d_def)

lemma reshape_rows_ok:
  assumes "0 < dimN x"
  shows "\<exists>r. reshape_rows x = Inr r \<and> dimB r = dimN x \<and> dimF r = dimC x * dimH x * dimW x"
  using assms by (simp add: reshape_rows_def)

lemma linear_ok:
  assumes "dimF x = in_features L"
  shows "\<exists>y. linear_forward L x = Inr y \<and> dimB y = dimB x \<and> dimF y = out_features L \<and> elem2 y = linear_elem L x"
  using assms by (simp add: linear_forward_def)

lemma linear_mismatch:
  assumes "dimF x \<noteq> in_features L"
  shows "linear_forward L x = Inl (MatMulMismatch (dimF x) (in_features L))"
  using assms by (simp add: linear_forward_def)

lemma dropout_dims:
  "dimB (fst (dropout D g x)) = dimB x" "dimF (fst (dropout D g x)) = dimF x"
  by (simp_all add: dropout_def)

lemma dropout_eval: "\<not> drop_training D \<Longrightarrow> dropout D g x = (x, g)"
  by (simp add: dropout_def)

lemma cat1_four:
  assumes "dimN b = dimN a" "dimH b = dimH a" "dimW b = dimW a"
    "dimN c = dimN a" "dimH c = dimH a" "dimW c = dimW a"
    "dimN d = dimN a" "dimH d = dimH a" "dimW d = dimW a"
  shows "cat1 [a, b, c, d] = Inr (cat_pair (cat_pair (cat_pair a b) c) d)"
  using assms by (simp add: cat_pair_def)

subsection \<open>The Inception block\<close>

lemma Inception_Block_init_fields [simp]:
  "ib_conv1 (Inception_Block_init sd (in_ch, out1, red2, out2, red3, out3, out4)) = nn_Conv2d sd ''conv1'' in_ch out1 1 1 0"
  "ib_reduce2 (Inception_Block_init sd (in_ch, out1, red2, out2, red3, out3, out4)) = nn_Conv2d sd ''reduce2'' in_ch red2 1 1 0"
  "ib_conv2 (Inception_Block_init sd (in_ch, out1, red2, out2, red3, out3, out4)) = nn_Conv2d sd ''conv2'' red2 out2 3 1 1"
  "ib_reduce3 (Inception_Block_init sd (in_ch, out1, red2, out2, red3, out3, out4)) = nn_Conv2d sd ''reduce3'' in_ch red3 1 1 0"
  "ib_conv3 (Inception_Block_init sd (in_ch, out1, red2, out2, red3, out3, out4)) = nn_Conv2d sd ''conv3'' red3 out3 5 1 2"
  "ib_maxpool4 (Inception_Block_init sd (in_ch, out1, red2, out2, red3, out3, out4)) = \<lparr>mp_kernel_size = 3, mp_stride = 1, mp_padding = 1\<rparr>"
  "ib_conv4 (Inception_Block_init sd (in_ch, out1, red2, out2, red3, out3, out4)) = nn_Conv2d sd ''conv4'' in_ch out4 1 1 0"
  by (simp_all add: Inception_Block_init_def)

text \<open>
  With positive channel counts and a non-empty plane every layer of the block
  accepts its input, and the block returns the concatenation of the four rectified
  branch outputs.
\<close>

lemma Inception_Block_forward_cat:
  assumes pos: "0 < in_ch" "0 < out1" "0 < red2" "0 < out2" "0 < red3" "0 < out3" "0 < out4"
    and x: "dimC x = in_ch" "0 < dimH x" "0 < dimW x"
  shows "\<exists>a b c d. spec_branch1 sd (in_ch, out1, red2, out2, red3, out3, out4) x = Inr a
     \<and> spec_branch2 sd (in_ch, out1, red2, out2, red3, out3, out4) x = Inr b
     \<and> spec_branch3 sd (in_ch, out1, red2, out2, red3, out3, out4) x = Inr c
     \<and> spec_branch4 sd (in_ch, out1, red2, out2, red3, out3, out4) x = Inr d
     \<and> shape4 a = (dimN x, out1, dimH x, dimW x) \<and> shape4 b = (dimN x, out2, dimH x, dimW x)
     \<and> shape4 c = (dimN x, out3, dimH x, dimW x) \<and> shape4 d = (dimN x, out4, dimH x, dimW x)
     \<and> Inception_Block_forward (Inception_Block_init sd (in_ch, out1, red2, out2, red3, out3, out4)) x
         = Inr (cat_pair (cat_pair (cat_pair a b) c) d)"
proof -
  let ?B = "Inception_Block_init sd (in_ch, out1, red2, out2, red3, out3, out4)"
  obtain c1 where c1: "conv2d (ib_conv1 ?B) x = Inr c1" "dimN c1 = dimN x" "dimC c1 = out1"
      "dimH c1 = dimH x" "dimW c1 = dimW x"
    using conv2d_same [of 1 0 out1 x in_ch sd "''conv1''"] pos x by auto
  obtain r2 where r2: "conv2d (ib_reduce2 ?B) x = Inr r2" "dimN r2 = dimN x" "dimC r2 = red2"
      "dimH r2 = dimH x" "dimW r2 = dimW x"
    using conv2d_same [of 1 0 red2 x in_ch sd "''reduce2''"] pos x by auto
  obtain c2 where c2: "conv2d (ib_conv2 ?B) (relu4 r2) = Inr c2" "dimN c2 = dimN x" "dimC c2 = out2"
      "dimH c2 = dimH x" "dimW c2 = dimW x"
    using conv2d_same [of 3 1 out2 "relu4 r2" red2 sd "''conv2''"] pos x r2 by auto
  obtain r3 where r3: "conv2d (ib_reduce3 ?B) x = Inr r3" "dimN r3 = dimN x" "dimC r3 = red3"
      "dimH r3 = dimH x" "dimW r3 = dimW x"
    using conv2d_same [of 1 0 red3 x in_ch sd "''reduce3''"] pos x by auto
  obtain c3 where c3: "conv2d (ib_conv3 ?B) (relu4 r3) = Inr c3" "dimN c3 = dimN x" "dimC c3 = out3"
      "dimH c3 = dimH x" "dimW c3 = dimW x"
    using conv2d_same [of 5 2 out3 "relu4 r3" red3 sd "''conv3''"] pos x r3 by auto
  obtain m4 where m4: "max_pool2d (ib_maxpool4 ?B) x = Inr m4" "dimN m4 = dimN x" "dimC m4 = in_ch"
      "dimH m4 = dimH x" "dimW m4 = dimW x"
    using max_pool2d_same [of x] pos x by auto
  obtain c4 where c4: "conv2d (ib_conv4 ?B) m4 = Inr c4" "dimN c4 = dimN x" "dimC c4 = out4"
      "dimH c4 = dimH x" "dimW c4 = dimW x"
    using conv2d_same [of 1 0 out4 m4 in_ch sd "''conv4''"] pos x m4 by auto
  have "Inception_Block_forward ?B x = cat1 [relu4 c1, relu4 c2, relu4 c3, relu4 c4]"
    unfolding Inception_Block_forward_def
    by (simp only: c1 r2 c2 r3 c3 m4 c4 ebind_Inr)
  also have "\<dots> = Inr (cat_pair (cat_pair (cat_pair (relu4 c1) (relu4 c2)) (relu4 c3)) (relu4 c4))"
    by (rule cat1_four) (simp_all add: c1 c2 c3 c4)
  finally have fwd: "Inception_Block_forward ?B x
      = Inr (cat_pair (cat_pair (cat_pair (relu4 c1) (relu4 c2)) (relu4 c3)) (relu4 c4))" .
  have b1: "spec_branch1 sd (in_ch, out1, red2, out2, red3, out3, out4) x = Inr (relu4 c1)"
    using c1 by (simp add: spec_branch1_def)
  have b2: "spec_branch2 sd (in_ch, out1, red2, out2, red3, out3, out4) x = Inr (relu4 c2)"
    using r2 c2 by (simp add: spec_branch2_def)
  have b3: "spec_branch3 sd (in_ch, out1, red2, out2, red3, out3, out4) x = Inr (relu4 c3)"
    using r3 c3 by (simp add: spec_branch3_def)
  have b4: "spec_branch4 sd (in_ch, out1, red2, out2, red3, out3, out4) x = Inr (relu4 c4)"
    using m4 c4 by (simp add: spec_branch4_def)
  show ?thesis
    using fwd b1 b2 b3 b4 by (simp add: shape4_def c1 c2 c3 c4)
qed

lemma Inception_Block_forward_ok:
  assumes "0 < in_ch" "0 < out1" "0 < red2" "0 < out2" "0 < red3" "0 < out3" "0 < out4"
    and "dimC x = in_ch" "0 < dimH x" "0 < dimW x"
  shows "\<exists>y. Inception_Block_forward (Inception_Block_init sd (in_ch, out1, red2, out2, red3, out3, out4)) x = Inr y
     \<and> dimN y = dimN x \<and> dimC y = out1 + out2 + out3 + out4 \<and> dimH y = dimH x \<and> dimW y = dimW x"
proof -
  from Inception_Block_forward_cat [OF assms, of sd]
  obtain a b c d where
    "shape4 a = (dimN x, out1, dimH x, dimW x)" "shape4 b = (dimN x, out2, dimH x, dimW x)"
    "shape4 c = (dimN x, out3, dimH x, dimW x)" "shape4 d = (dimN x, out4, dimH x, dimW x)"
    "Inception_Block_forward (Inception_Block_init sd (in_ch, out1, red2, out2, red3, out3, out4)) x
       = Inr (cat_pair (cat_pair (cat_pair a b) c) d)"
    by blast
  then show ?thesis
    by (simp add: shape4_def)
qed

text \<open>The layout of a concatenation of four tensors, by channel ranges.\<close>

lemma cat_pair_layout:
  "k < dimC a \<Longrightarrow> elem4 (cat_pair (cat_pair (cat_pair a b) c) d) n k i j = elem4 a n k i j"
  "k < dimC b \<Longrightarrow> elem4 (cat_pair (cat_pair (cat_pair a b) c) d) n (dimC a + k) i j = elem4 b n k i j"
  "k < dimC c \<Longrightarrow> elem4 (cat_pair (cat_pair (cat_pair a b) c) d) n (dimC a + dimC b + k) i j = elem4 c n k i j"
  "elem4 (cat_pair (cat_pair (cat_pair a b) c) d) n (dimC a + dimC b + dimC c + k) i j = elem4 d n k i j"
  by (simp_all add: cat_pair_def)

text \<open>
  Whenever the block returns, each branch has returned, and the result is their
  concatenation: an error of a branch is an error of the block.
\<close>

lemma Inception_Block_forward_Inr_cat:
  assumes "Inception_Block_forward (Inception_Block_init sd (in_ch, out1, red2, out2, red3, out3, out4)) x = Inr y"
  shows "\<exists>a b c d. spec_branch1 sd (in_ch, out1, red2, out2, red3, out3, out4) x = Inr a
     \<and> spec_branch2 sd (in_ch, out1, red2, out2, red3, out3, out4) x = Inr b
     \<and> spec_branch3 sd (in_ch, out1, red2, out2, red3, out3, out4) x = Inr c
     \<and> spec_branch4 sd (in_ch, out1, red2, out2, red3, out3, out4) x = Inr d
     \<and> dimC a = out1 \<and> dimC b = out2 \<and> dimC c = out3 \<and> dimC d = out4
     \<and> y = cat_pair (cat_pair (cat_pair a b) c) d"
proof -
  let ?B = "Inception_Block_init sd (in_ch, out1, red2, out2, red3, out3, out4)"
  from assms obtain c1 where c1: "conv2d (ib_conv1 ?B) x = Inr c1"
    by (cases "conv2d (ib_conv1 ?B) x") (simp_all add: Inception_Block_forward_def)
  from assms c1 obtain r2 where r2: "conv2d (ib_reduce2 ?B) x = Inr r2"
    by (cases "conv2d (ib_reduce2 ?B) x") (simp_all add: Inception_Block_forward_def)
  from assms c1 r2 obtain c2 where c2: "conv2d (ib_conv2 ?B) (relu4 r2) = Inr c2"
    by (cases "conv2d (ib_conv2 ?B) (relu4 r2)") (simp_all add: Inception_Block_forward_def)
  from assms c1 r2 c2 obtain r3 where r3: "conv2d (ib_reduce3 ?B) x = Inr r3"
    by (cases "conv2d (ib_reduce3 ?B) x") (simp_all add: Inception_Block_forward_def)
  from assms c1 r2 c2 r3 obtain c3 where c3: "conv2d (ib_conv3 ?B) (relu4 r3) = Inr c3"
    by (cases "conv2d (ib_conv3 ?B) (relu4 r3)") (simp_all add: Inception_Block_forward_def)
  from assms c1 r2 c2 r3 c3 obtain m4 where m4: "max_pool2d (ib_maxpool4 ?B) x = Inr m4"
    by (cases "max_pool2d (ib_maxpool4 ?B) x") (simp_all add: Inception_Block_forward_def)
  from assms c1 r2 c2 r3 c3 m4 obtain c4 where c4: "conv2d (ib_conv4 ?B) m4 = Inr c4"
    by (cases "conv2d (ib_conv4 ?B) m4") (simp_all add: Inception_Block_forward_def)
  have xpos: "0 < dimC x" and mpos: "0 < dimC m4"
    using max_pool2d_Inr_channels [OF m4] by simp_all
  have rpos: "0 < dimC (relu4 r2)" "0 < dimC (relu4 r3)"
    using conv2d_Inr_channels [OF r2 xpos] conv2d_Inr_channels [OF r3 xpos] by simp_all
  have chan: "dimC c1 = out1" "dimC c2 = out2" "dimC c3 = out3" "dimC c4 = out4"
    using conv2d_Inr_channels(1) [OF c1 xpos] conv2d_Inr_channels(1) [OF c2 rpos(1)]
      conv2d_Inr_channels(1) [OF c3 rpos(2)] conv2d_Inr_channels(1) [OF c4 mpos]
    by simp_all
  from assms c1 r2 c2 r3 c3 m4 c4
  have cat: "cat1 [relu4 c1, relu4 c2, relu4 c3, relu4 c4] = Inr y"
    by (simp add: Inception_Block_forward_def)
  then have "y = cat_pair (cat_pair (cat_pair (relu4 c1) (relu4 c2)) (relu4 c3)) (relu4 c4)"
    by (simp split: if_splits)
  moreover have "spec_branch1 sd (in_ch, out1, red2, out2, red3, out3, out4) x = Inr (relu4 c1)"
    using c1 by (simp add: spec_branch1_def)
  moreover have "spec_branch2 sd (in_ch, out1, red2, out2, red3, out3, out4) x = Inr (relu4 c2)"
    using r2 c2 by (simp add: spec_branch2_def)
  moreover have "spec_branch3 sd (in_ch, out1, red2, out2, red3, out3, out4) x = Inr (relu4 c3)"
    using r3 c3 by (simp add: spec_branch3_def)
  moreover have "spec_branch4 sd (in_ch, out1, red2, out2, red3, out3, out4) x = Inr (relu4 c4)"
    using m4 c4 by (simp add: spec_branch4_def)
  ultimately show ?thesis
    using chan by simp
qed

subsection \<open>The constructed network\<close>

lemma getitem_inception_params:
  "getitem inception_params ''inception3a'' = Inr (192, 64, 96, 128, 16, 32, 32)"
  "getitem inception_params ''inception3b'' = Inr (256, 128, 128, 192, 32, 96, 64)"
  "getitem inception_params ''inception4a'' = Inr (480, 192, 96, 208, 16, 48, 64)"
  "getitem inception_params ''inception4b'' = Inr (512, 160, 112, 224, 24, 64, 64)"
  "getitem inception_params ''inception4c'' = Inr (512, 128, 128, 256, 24, 64, 64)"
  "getitem inception_params ''inception4d'' = Inr (512, 112, 144, 288, 32, 64, 64)"
  "getitem inception_params ''inception4e'' = Inr (528, 256, 160, 320, 32, 128, 128)"
  "getitem inception_params ''inception5a'' = Inr (832, 256, 160, 320, 32, 128, 128)"
  "getitem inception_params ''inception5b'' = Inr (832, 384, 192, 384, 48, 128, 128)"
  by (simp_all add: getitem_def inception_params_def)

lemma Inception_Net_init_fields:
  assumes "Inception_Net_init sd num_classes = Inr net0"
    and "net = Inception_Net_train mode net0"
  shows "net_conv1 net = nn_Conv2d sd ''conv1'' 3 64 7 2 3"
    "net_maxpool1 net = \<lparr>mp_kernel_size = 3, mp_stride = 2, mp_padding = 1\<rparr>"
    "net_reduce2 net = nn_Conv2d sd ''reduce2'' 64 64 1 1 0"
    "net_conv2 net = nn_Conv2d sd ''conv2'' 64 192 3 1 1"
    "net_maxpool2 net = \<lparr>mp_kernel_size = 3, mp_stride = 2, mp_padding = 1\<rparr>"
    "net_inception3a net = Inception_Block_init (sub_dict sd ''inception3a'') (192, 64, 96, 128, 16, 32, 32)"
    "net_inception3b net = Inception_Block_init (sub_dict sd ''inception3b'') (256, 128, 128, 192, 32, 96, 64)"
    "net_maxpool3 net = \<lparr>mp_kernel_size = 3, mp_stride = 2, mp_padding = 1\<rparr>"
    "net_inception4a net = Inception_Block_init (sub_dict sd ''inception4a'') (480, 192, 96, 208, 16, 48, 64)"
    "net_inception4b net = Inception_Block_init (sub_dict sd ''inception4b'') (512, 160, 112, 224, 24, 64, 64)"
    "net_inception4c net = Inception_Block_init (sub_dict sd ''inception4c'') (512, 128, 128, 256, 24, 64, 64)"
    "net_inception4d net = Inception_Block_init (sub_dict sd ''inception4d'') (512, 112, 144, 288, 32, 64, 64)"
    "net_inception4e net = Inception_Block_init (sub_dict sd ''inception4e'') (528, 256, 160, 320, 32, 128, 128)"
    "net_maxpool4 net = \<lparr>mp_kernel_size = 3, mp_stride = 2, mp_padding = 1\<rparr>"
    "net_inception5a net = Inception_Block_init (sub_dict sd ''inception5a'') (832, 256, 160, 320, 32, 128, 128)"
    "net_inception5b net = Inception_Block_init (sub_dict sd ''inception5b'') (832, 384, 192, 384, 48, 128, 128)"
    "net_avgpool5 net = \<lparr>ap_kernel_size = 7, ap_stride = 1\<rparr>"
    "net_dropout5 net = \<lparr>drop_p = 0.4, drop_training = mode\<rparr>"
    "net_linear5 net = nn_Linear sd ''linear5'' 1024 num_classes"
    "net_aux_classifier1 net =
       Auxiliary_Classifier_train mode (Auxiliary_Classifier_init (sub_dict sd ''aux_classifier1'') 512 num_classes)"
    "net_aux_classifier2 net =
       Auxiliary_Classifier_train mode (Auxiliary_Classifier_init (sub_dict sd ''aux_classifier2'') 528 num_classes)"
    "net_inception_params net = inception_params"
  using assms
  by (auto simp add: Inception_Net_init_def getitem_inception_params Inception_Net_train_def
      nn_Dropout_def)

text \<open>A constructed network is in training mode.\<close>

lemma Inception_Net_train_True:
  assumes "Inception_Net_init sd num_classes = Inr net0"
  shows "Inception_Net_train True net0 = net0"
  using assms
  by (auto simp add: Inception_Net_init_def getitem_inception_params Inception_Net_train_def
      Auxiliary_Classifier_train_def Auxiliary_Classifier_init_def nn_Dropout_def)

lemma Inception_Net_init_total: "\<exists>net. Inception_Net_init sd num_classes = Inr net"
  by (simp add: Inception_Net_init_def getitem_inception_params)

subsection \<open>The trunk of the network\<close>

text \<open>
  The trunk of the network accepts every input with three channels and a non-empty
  plane; the five stride-2 layers halve the plane, rounding up.
\<close>

lemma forward_states_exist:
  assumes init: "Inception_Net_init sd num_classes = Inr net0"
    and net: "net = Inception_Net_train mode net0"
    and x: "dimC x = 3" "0 < dimH x" "0 < dimW x"
  shows "\<exists>xs. forward_states net x xs
     \<and> map shape4 xs = trunk_shapes (dimN x) (dimH x) (dimW x)"
proof -
  note f = Inception_Net_init_fields [OF init net]
  define N where "N = dimN x"
  define h1 where "h1 = half_up (dimH x)"
  define w1 where "w1 = half_up (dimW x)"
  define h2 where "h2 = half_up h1"
  define w2 where "w2 = half_up w1"
  define h3 where "h3 = half_up h2"
  define w3 where "w3 = half_up w2"
  define h4 where "h4 = half_up h3"
  define w4 where "w4 = half_up w3"
  define h5 where "h5 = half_up h4"
  define w5 where "w5 = half_up w4"
  have pos: "0 < h1" "0 < w1" "0 < h2" "0 < w2" "0 < h3" "0 < w3" "0 < h4" "0 < w4" "0 < h5" "0 < w5"
    by (simp_all add: h1_def w1_def h2_def w2_def h3_def w3_def h4_def w4_def h5_def w5_def)
  obtain x1 where x1: "conv2d (net_conv1 net) x = Inr x1"
      "dimN x1 = N" "dimC x1 = 64" "dimH x1 = h1" "dimW x1 = w1"
    using conv2d_stem [OF x, of sd "''conv1''"] by (auto simp: f N_def h1_def w1_def)
  obtain x2 where x2: "max_pool2d (net_maxpool1 net) (relu4 x1) = Inr x2"
      "dimN x2 = N" "dimC x2 = 64" "dimH x2 = h2" "dimW x2 = w2"
    using max_pool2d_half [of "relu4 x1"] x1 pos by (auto simp: f h2_def w2_def)
  obtain x3 where x3: "conv2d (net_reduce2 net) x2 = Inr x3"
      "dimN x3 = N" "dimC x3 = 64" "dimH x3 = h2" "dimW x3 = w2"
    using conv2d_same [of 1 0 64 x2 64 sd "''reduce2''"] x2 pos by (auto simp: f)
  obtain x4 where x4: "conv2d (net_conv2 net) (relu4 x3) = Inr x4"
      "dimN x4 = N" "dimC x4 = 192" "dimH x4 = h2" "dimW x4 = w2"
    using conv2d_same [of 3 1 192 "relu4 x3" 64 sd "''conv2''"] x3 pos by (auto simp: f)
  obtain x5 where x5: "max_pool2d (net_maxpool2 net) (relu4 x4) = Inr x5"
      "dimN x5 = N" "dimC x5 = 192" "dimH x5 = h3" "dimW x5 = w3"
    using max_pool2d_half [of "relu4 x4"] x4 pos by (auto simp: f h3_def w3_def)
  obtain x6 where x6: "Inception_Block_forward (net_inception3a net) x5 = Inr x6"
      "dimN x6 = N" "dimC x6 = 256" "dimH x6 = h3" "dimW x6 = w3"
    using Inception_Block_forward_ok [of 192 64 96 128 16 32 32 x5 "sub_dict sd ''inception3a''"] x5 pos
    by (auto simp: f)
  obtain x7 where x7: "Inception_Block_forward (net_inception3b net) x6 = Inr x7"
      "dimN x7 = N" "dimC x7 = 480" "dimH x7 = h3" "dimW x7 = w3"
    using Inception_Block_forward_ok [of 256 128 128 192 32 96 64 x6 "sub_dict sd ''inception3b''"] x6 pos
    by (auto simp: f)
  obtain x8 where x8: "max_pool2d (net_maxpool3 net) x7 = Inr x8"
      "dimN x8 = N" "dimC x8 = 480" "dimH x8 = h4" "dimW x8 = w4"
    using max_pool2d_half [of x7] x7 pos by (auto simp: f h4_def w4_def)
  obtain x9 where x9: "Inception_Block_forward (net_inception4a net) x8 = Inr x9"
      "dimN x9 = N" "dimC x9 = 512" "dimH x9 = h4" "dimW x9 = w4"
    using Inception_Block_forward_ok [of 480 192 96 208 16 48 64 x8 "sub_dict sd ''inception4a''"] x8 pos
    by (auto simp: f)
  obtain x10 where x10: "Inception_Block_forward (net_inception4b net) x9 = Inr x10"
      "dimN x10 = N" "dimC x10 = 512" "dimH x10 = h4" "dimW x10 = w4"
    using Inception_Block_forward_ok [of 512 160 112 224 24 64 64 x9 "sub_dict sd ''inception4b''"] x9 pos
    by (auto simp: f)
  obtain x11 where x11: "Inception_Block_forward (net_inception4c net) x10 = Inr x11"
      "dimN x11 = N" "dimC x11 = 512" "dimH x11 = h4" "dimW x11 = w4"
    using Inception_Block_forward_ok [of 512 128 128 256 24 64 64 x10 "sub_dict sd ''inception4c''"] x10 pos
    by (auto simp: f)
  obtain x12 where x12: "Inception_Block_forward (net_inception4d net) x11 = Inr x12"
      "dimN x12 = N" "dimC x12 = 528" "dimH x12 = h4" "dimW x12 = w4"
    using Inception_Block_forward_ok [of 512 112 144 288 32 64 64 x11 "sub_dict sd ''inception4d''"] x11 pos
    by (auto simp: f)
  obtain x13 where x13: "Inception_Block_forward (net_inception4e net) x12 = Inr x13"
      "dimN x13 = N" "dimC x13 = 832" "dimH x13 = h4" "dimW x13 = w4"
    using Inception_Block_forward_ok [of 528 256 160 320 32 128 128 x12 "sub_dict sd ''inception4e''"] x12 pos
    by (auto simp: f)
  obtain x14 where x14: "max_pool2d (net_maxpool4 net) x13 = Inr x14"
      "dimN x14 = N" "dimC x14 = 832" "dimH x14 = h5" "dimW x14 = w5"
    using max_pool2d_half [of x13] x13 pos by (auto simp: f h5_def w5_def)
  obtain x15 where x15: "Inception_Block_forward (net_inception5a net) x14 = Inr x15"
      "dimN x15 = N" "dimC x15 = 832" "dimH x15 = h5" "dimW x15 = w5"
    using Inception_Block_forward_ok [of 832 256 160 320 32 128 128 x14 "sub_dict sd ''inception5a''"] x14 pos
    by (auto simp: f)
  obtain x16 where x16: "Inception_Block_forward (net_inception5b net) x15 = Inr x16"
      "dimN x16 = N" "dimC x16 = 1024" "dimH x16 = h5" "dimW x16 = w5"
    using Inception_Block_forward_ok [of 832 384 192 384 48 128 128 x15 "sub_dict sd ''inception5b''"] x15 pos
    by (auto simp: f)
  let ?xs = "[x1, x2, x3, x4, x5, x6, x7, x8, x9, x10, x11, x12, x13, x14, x15, x16]"
  have "forward_states net x ?xs"
    unfolding forward_states_def
    by (simp add: x1(1) x2(1) x3(1) x4(1) x5(1) x6(1) x7(1) x8(1) x9(1) x10(1) x11(1) x12(1)
        x13(1) x14(1) x15(1) x16(1))
  moreover have "map shape4 ?xs = trunk_shapes (dimN x) (dimH x) (dimW x)"
    unfolding trunk_shapes_def Let_def
    by (simp add: shape4_def x1 x2 x3 x4 x5 x6 x7 x8 x9 x10 x11 x12 x13 x14 x15 x16)
      (simp add: N_def h1_def w1_def h2_def w2_def h3_def w3_def h4_def w4_def h5_def w5_def)
  ultimately show ?thesis
    by (intro exI [of _ ?xs] conjI)
qed

lemma map_eq_nth: "map f xs = ys \<Longrightarrow> i < length ys \<Longrightarrow> f (xs ! i) = ys ! i"
  by (metis length_map nth_map)

lemma trunk_shapes_nth:
  "trunk_shapes N H W ! 8 = (N, 512, tap_extent H, tap_extent W)"
  "trunk_shapes N H W ! 11 = (N, 528, tap_extent H, tap_extent W)"
  "trunk_shapes N H W ! 15 = (N, 1024, final_extent H, final_extent W)"
  "length (trunk_shapes N H W) = 16"
  by (simp_all add: trunk_shapes_def Let_def tap_extent_def final_extent_def)

lemma forward_decomp:
  "Inception_Net_forward net g x =
     ebind (forward_to_4a net x) (\<lambda>a.
     ebind (forward_4b_to_4d net a) (\<lambda>d.
     ebind (forward_4e_to_flat net d) (\<lambda>r.
     forward_heads net g (clone a) (clone d) r)))"
  by (simp add: Inception_Net_forward_def forward_to_4a_def forward_4b_to_4d_def
      forward_4e_to_flat_def forward_heads_def ebind_assoc Let_def)

lemma forward_states_nth:
  assumes "forward_states net x xs"
  shows "forward_to_4a net x = Inr (xs ! 8)"
    and "forward_4b_to_4d net (xs ! 8) = Inr (xs ! 11)"
    and "forward_4e_to_flat net (xs ! 11) = ebind (avg_pool2d (net_avgpool5 net) (xs ! 15)) reshape_rows"
  using assms
  by (simp_all add: forward_states_def forward_to_4a_def forward_4b_to_4d_def forward_4e_to_flat_def)

lemma forward_from_states:
  assumes "forward_states net x xs"
  shows "Inception_Net_forward net g x =
     ebind (avg_pool2d (net_avgpool5 net) (xs ! 15)) (\<lambda>p.
     ebind (reshape_rows p) (\<lambda>r.
     forward_heads net g (clone (xs ! 8)) (clone (xs ! 11)) r))"
  by (simp add: forward_decomp forward_states_nth [OF assms] ebind_assoc)

subsection \<open>The auxiliary classifier\<close>

lemma Auxiliary_Classifier_fields:
  assumes "self = Auxiliary_Classifier_train mode (Auxiliary_Classifier_init sd in_ch num_classes)"
  shows "ac_avgpool1 self = \<lparr>ap_kernel_size = 5, ap_stride = 3\<rparr>"
    "ac_conv2 self = nn_Conv2d sd ''conv2'' in_ch 128 1 1 0"
    "ac_fc3 self = nn_Linear sd ''fc3'' 2048 1024"
    "ac_dropout4 self = \<lparr>drop_p = 0.7, drop_training = mode\<rparr>"
    "ac_fc5 self = nn_Linear sd ''fc5'' 1024 num_classes"
  using assms
  by (simp_all add: Auxiliary_Classifier_train_def Auxiliary_Classifier_init_def nn_Dropout_def)

lemma Auxiliary_Classifier_train_True:
  "Auxiliary_Classifier_train True (Auxiliary_Classifier_init sd in_ch num_classes)
     = Auxiliary_Classifier_init sd in_ch num_classes"
  by (simp add: Auxiliary_Classifier_train_def Auxiliary_Classifier_init_def nn_Dropout_def)

text \<open>
  The first three statements of the classifier on an input with the expected
  channels, at least one batch element and a plane of at least 5 x 5: the pooled
  plane has \<open>(H - 5) div 3 + 1\<close> rows and \<open>(W - 5) div 3 + 1\<close> columns, and the
  flattened row has 128 entries for each of its positions.
\<close>

lemma Auxiliary_Classifier_forward_flat:
  assumes self: "self = Auxiliary_Classifier_train mode (Auxiliary_Classifier_init sd in_ch num_classes)"
    and x: "dimC x = in_ch" "0 < in_ch" "0 < dimN x" "5 \<le> dimH x" "5 \<le> dimW x"
  shows "\<exists>p c r. avg_pool2d (ac_avgpool1 self) x = Inr p
     \<and> shape4 p = (dimN x, in_ch, aux_pooled (dimH x), aux_pooled (dimW x))
     \<and> conv2d (ac_conv2 self) p = Inr c
     \<and> shape4 c = (dimN x, 128, aux_pooled (dimH x), aux_pooled (dimW x))
     \<and> reshape_rows (relu4 c) = Inr r
     \<and> shape2 r = (dimN x, 128 * aux_pooled (dimH x) * aux_pooled (dimW x))
     \<and> Auxiliary_Classifier_forward self g x =
         ebind (linear_forward (ac_fc3 self) r) (\<lambda>h.
         case dropout (ac_dropout4 self) g (relu2 h) of (d, g') \<Rightarrow>
         ebind (linear_forward (ac_fc5 self) d) (\<lambda>scores. Inr (scores, g')))"
proof -
  note f = Auxiliary_Classifier_fields [OF self]
  obtain p where p: "avg_pool2d (ac_avgpool1 self) x = Inr p" "dimN p = dimN x" "dimC p = in_ch"
      "dimH p = aux_pooled (dimH x)" "dimW p = aux_pooled (dimW x)"
    using avg_pool2d_ok [of "\<lparr>ap_kernel_size = 5, ap_stride = 3\<rparr>" x] x
    by (auto simp: f aux_pooled_def)
  obtain c where c: "conv2d (ac_conv2 self) p = Inr c" "dimN c = dimN x" "dimC c = 128"
      "dimH c = dimH p" "dimW c = dimW p"
    using conv2d_same [of 1 0 128 p in_ch sd "''conv2''"] p x by (auto simp: f)
  obtain r where r: "reshape_rows (relu4 c) = Inr r" "dimB r = dimN x"
      "dimF r = 128 * dimH p * dimW p"
    using reshape_rows_ok [of "relu4 c"] c x by auto
  have "Auxiliary_Classifier_forward self g x =
         ebind (linear_forward (ac_fc3 self) r) (\<lambda>h.
         case dropout (ac_dropout4 self) g (relu2 h) of (d, g') \<Rightarrow>
         ebind (linear_forward (ac_fc5 self) d) (\<lambda>scores. Inr (scores, g')))"
    by (simp add: Auxiliary_Classifier_forward_def p(1) c(1) r(1))
  then show ?thesis
    using p c r by (simp add: shape4_def shape2_def)
qed

text \<open>The last three statements, on a row of the width the first linear layer expects.\<close>

lemma Auxiliary_Classifier_tail_ok:
  assumes self: "self = Auxiliary_Classifier_train mode (Auxiliary_Classifier_init sd in_ch num_classes)"
    and r: "dimF r = 2048"
  shows "\<exists>h d scores g'. linear_forward (ac_fc3 self) r = Inr h \<and> shape2 h = (dimB r, 1024)
     \<and> dropout (ac_dropout4 self) g (relu2 h) = (d, g') \<and> shape2 d = (dimB r, 1024)
     \<and> linear_forward (ac_fc5 self) d = Inr scores \<and> shape2 scores = (dimB r, num_classes)
     \<and> ebind (linear_forward (ac_fc3 self) r) (\<lambda>h.
         case dropout (ac_dropout4 self) g (relu2 h) of (d, g') \<Rightarrow>
         ebind (linear_forward (ac_fc5 self) d) (\<lambda>scores. Inr (scores, g'))) = Inr (scores, g')"
proof -
  note f = Auxiliary_Classifier_fields [OF self]
  obtain h where h: "linear_forward (ac_fc3 self) r = Inr h" "dimB h = dimB r" "dimF h = 1024"
    using linear_ok [of r "nn_Linear sd ''fc3'' 2048 1024"] r by (auto simp: f)
  obtain d g' where d: "dropout (ac_dropout4 self) g (relu2 h) = (d, g')"
    by (cases "dropout (ac_dropout4 self) g (relu2 h)")
  have dd: "dimB d = dimB r" "dimF d = 1024"
    using dropout_dims [of "ac_dropout4 self" g "relu2 h"] d h by simp_all
  obtain s where s: "linear_forward (ac_fc5 self) d = Inr s" "dimB s = dimB r" "dimF s = num_classes"
    using linear_ok [of d "nn_Linear sd ''fc5'' 1024 num_classes"] dd by (auto simp: f)
  show ?thesis
    using h d dd s by (simp add: shape2_def)
qed

lemma Auxiliary_Classifier_forward_ok:
  assumes self: "self = Auxiliary_Classifier_train mode (Auxiliary_Classifier_init sd in_ch num_classes)"
    and x: "dimC x = in_ch" "0 < in_ch" "0 < dimN x" "5 \<le> dimH x" "5 \<le> dimW x"
    and sixteen: "aux_pooled (dimH x) * aux_pooled (dimW x) = 16"
  shows "\<exists>scores g'. Auxiliary_Classifier_forward self g x = Inr (scores, g')
     \<and> shape2 scores = (dimN x, num_classes)"
proof -
  from Auxiliary_Classifier_forward_flat [OF self x, of g]
  obtain r where r: "shape2 r = (dimN x, 128 * aux_pooled (dimH x) * aux_pooled (dimW x))"
    and fwd: "Auxiliary_Classifier_forward self g x =
         ebind (linear_forward (ac_fc3 self) r) (\<lambda>h.
         case dropout (ac_dropout4 self) g (relu2 h) of (d, g') \<Rightarrow>
         ebind (linear_forward (ac_fc5 self) d) (\<lambda>scores. Inr (scores, g')))"
    by blast
  have "128 * aux_pooled (dimH x) * aux_pooled (dimW x)
      = 128 * (aux_pooled (dimH x) * aux_pooled (dimW x))"
    by (simp only: mult.assoc)
  with r sixteen have w: "dimF r = 2048" "dimB r = dimN x"
    by (simp_all add: shape2_def)
  from Auxiliary_Classifier_tail_ok [OF self w(1), of g] fwd w(2)
  show ?thesis
    by auto
qed

lemma Auxiliary_Classifier_forward_mismatch:
  assumes self: "self = Auxiliary_Classifier_train mode (Auxiliary_Classifier_init sd in_ch num_classes)"
    and x: "dimC x = in_ch" "0 < in_ch" "0 < dimN x" "5 \<le> dimH x" "5 \<le> dimW x"
    and other: "aux_pooled (dimH x) * aux_pooled (dimW x) \<noteq> 16"
  shows "Auxiliary_Classifier_forward self g x =
     Inl (MatMulMismatch (128 * aux_pooled (dimH x) * aux_pooled (dimW x)) 2048)"
proof -
  note f = Auxiliary_Classifier_fields [OF self]
  from Auxiliary_Classifier_forward_flat [OF self x, of g]
  obtain r where r: "shape2 r = (dimN x, 128 * aux_pooled (dimH x) * aux_pooled (dimW x))"
    and fwd: "Auxiliary_Classifier_forward self g x =
         ebind (linear_forward (ac_fc3 self) r) (\<lambda>h.
         case dropout (ac_dropout4 self) g (relu2 h) of (d, g') \<Rightarrow>
         ebind (linear_forward (ac_fc5 self) d) (\<lambda>scores. Inr (scores, g')))"
    by blast
  have "128 * aux_pooled (dimH x) * aux_pooled (dimW x)
      = 128 * (aux_pooled (dimH x) * aux_pooled (dimW x))"
    by (simp only: mult.assoc)
  with r other have w: "dimF r \<noteq> 2048"
    "dimF r = 128 * aux_pooled (dimH x) * aux_pooled (dimW x)"
    by (simp_all add: shape2_def)
  from linear_mismatch [of r "ac_fc3 self"] w
  have "linear_forward (ac_fc3 self) r
      = Inl (MatMulMismatch (128 * aux_pooled (dimH x) * aux_pooled (dimW x)) 2048)"
    by (simp add: f)
  with fwd show ?thesis
    by simp
qed

subsection \<open>The heads of the network\<close>

text \<open>
  The flattened features have 1024 entries for each position of the pooled plane;
  the final classifier accepts them when the pooled plane is a single position.
\<close>

lemma forward_heads_main_ok:
  assumes init: "Inception_Net_init sd num_classes = Inr net0"
    and net: "net = Inception_Net_train mode net0"
    and r: "dimF r = 1024"
  shows "\<exists>f g1 scores2. dropout (net_dropout5 net) g r = (f, g1)
     \<and> linear_forward (net_linear5 net) f = Inr scores2
     \<and> shape2 scores2 = (dimB r, num_classes)
     \<and> forward_heads net g aux0 aux1 r =
         ebind (Auxiliary_Classifier_forward (net_aux_classifier1 net) g1 aux0) (\<lambda>(scores0, g2).
         ebind (Auxiliary_Classifier_forward (net_aux_classifier2 net) g2 aux1) (\<lambda>(scores1, g3).
         Inr ((scores0, scores1, scores2), g3)))"
proof -
  note f = Inception_Net_init_fields [OF init net]
  obtain d g1 where d: "dropout (net_dropout5 net) g r = (d, g1)"
    by (cases "dropout (net_dropout5 net) g r")
  have dd: "dimB d = dimB r" "dimF d = 1024"
    using dropout_dims [of "net_dropout5 net" g r] d r by simp_all
  obtain s where s: "linear_forward (net_linear5 net) d = Inr s" "dimB s = dimB r" "dimF s = num_classes"
    using linear_ok [of d "nn_Linear sd ''linear5'' 1024 num_classes"] dd by (auto simp: f)
  show ?thesis
    using d s by (simp add: forward_heads_def shape2_def)
qed

lemma forward_heads_main_mismatch:
  assumes init: "Inception_Net_init sd num_classes = Inr net0"
    and net: "net = Inception_Net_train mode net0"
    and r: "dimF r \<noteq> 1024"
  shows "forward_heads net g aux0 aux1 r = Inl (MatMulMismatch (dimF r) 1024)"
proof -
  note f = Inception_Net_init_fields [OF init net]
  obtain d g1 where d: "dropout (net_dropout5 net) g r = (d, g1)"
    by (cases "dropout (net_dropout5 net) g r")
  have dd: "dimF d = dimF r"
    using dropout_dims [of "net_dropout5 net" g r] d by simp
  from linear_mismatch [of d "net_linear5 net"] dd r
  have "linear_forward (net_linear5 net) d = Inl (MatMulMismatch (dimF r) 1024)"
    by (simp add: f)
  then show ?thesis
    using d by (simp add: forward_heads_def)
qed

text \<open>
  The whole forward pass on an input whose plane is halved to 14 x 14 at the taps:
  every intermediate value exists, the taps are reduced to 4 x 4 by the auxiliary
  average pool, and the three scores have one row per batch element.
\<close>

lemma forward_ok:
  assumes init: "Inception_Net_init sd num_classes = Inr net0"
    and net: "net = Inception_Net_train mode net0"
    and x: "dimC x = 3" "0 < dimN x" "0 < dimH x" "0 < dimW x"
    and taps: "tap_extent (dimH x) = 14" "tap_extent (dimW x) = 14"
  shows "\<exists>xs p r f g1 scores0 g2 scores1 g3 scores2.
       forward_states net x xs
     \<and> shape4 (xs ! 8) = (dimN x, 512, 14, 14) \<and> shape4 (xs ! 11) = (dimN x, 528, 14, 14)
     \<and> shape4 (xs ! 15) = (dimN x, 1024, 7, 7)
     \<and> avg_pool2d (net_avgpool5 net) (xs ! 15) = Inr p \<and> shape4 p = (dimN x, 1024, 1, 1)
     \<and> reshape_rows p = Inr r \<and> shape2 r = (dimN x, 1024)
     \<and> dropout (net_dropout5 net) g r = (f, g1)
     \<and> linear_forward (net_linear5 net) f = Inr scores2
     \<and> Auxiliary_Classifier_forward (net_aux_classifier1 net) g1 (clone (xs ! 8)) = Inr (scores0, g2)
     \<and> Auxiliary_Classifier_forward (net_aux_classifier2 net) g2 (clone (xs ! 11)) = Inr (scores1, g3)
     \<and> shape2 scores0 = (dimN x, num_classes) \<and> shape2 scores1 = (dimN x, num_classes)
     \<and> shape2 scores2 = (dimN x, num_classes)
     \<and> Inception_Net_forward net g x = Inr ((scores0, scores1, scores2), g3)"
proof -
  note f = Inception_Net_init_fields [OF init net]
  from forward_states_exist [OF init net x(1,3,4)]
  obtain xs where xs: "forward_states net x xs"
    and m: "map shape4 xs = trunk_shapes (dimN x) (dimH x) (dimW x)"
    by blast
  have sh: "shape4 (xs ! 8) = (dimN x, 512, 14, 14)" "shape4 (xs ! 11) = (dimN x, 528, 14, 14)"
      "shape4 (xs ! 15) = (dimN x, 1024, half_up 14, half_up 14)"
    using map_eq_nth [OF m, of 8] map_eq_nth [OF m, of 11] map_eq_nth [OF m, of 15] taps
    by (simp_all add: trunk_shapes_nth final_extent_def)
  have h7: "half_up 14 = 7"
    by (simp add: half_up_def)
  have d15: "dimN (xs ! 15) = dimN x" "dimC (xs ! 15) = 1024" "dimH (xs ! 15) = 7" "dimW (xs ! 15) = 7"
    using sh(3) h7 by (simp_all add: shape4_def)
  obtain p where p: "avg_pool2d (net_avgpool5 net) (xs ! 15) = Inr p"
      "dimN p = dimN x" "dimC p = 1024" "dimH p = 1" "dimW p = 1"
    using avg_pool2d_ok [of "\<lparr>ap_kernel_size = 7, ap_stride = 1\<rparr>" "xs ! 15"] d15 by (auto simp: f)
  obtain r where r: "reshape_rows p = Inr r" "dimB r = dimN x" "dimF r = 1024"
    using reshape_rows_ok [of p] p x by auto
  have d8: "dimN (clone (xs ! 8)) = dimN x" "dimC (clone (xs ! 8)) = 512"
      "dimH (clone (xs ! 8)) = 14" "dimW (clone (xs ! 8)) = 14"
    using sh(1) by (simp_all add: shape4_def)
  have d11: "dimN (clone (xs ! 11)) = dimN x" "dimC (clone (xs ! 11)) = 528"
      "dimH (clone (xs ! 11)) = 14" "dimW (clone (xs ! 11)) = 14"
    using sh(2) by (simp_all add: shape4_def)
  from forward_heads_main_ok [OF init net r(3), of g "clone (xs ! 8)" "clone (xs ! 11)"]
  obtain d g1 s2 where m: "dropout (net_dropout5 net) g r = (d, g1)"
      "linear_forward (net_linear5 net) d = Inr s2" "shape2 s2 = (dimN x, num_classes)"
    and heads: "forward_heads net g (clone (xs ! 8)) (clone (xs ! 11)) r =
         ebind (Auxiliary_Classifier_forward (net_aux_classifier1 net) g1 (clone (xs ! 8))) (\<lambda>(scores0, g2).
         ebind (Auxiliary_Classifier_forward (net_aux_classifier2 net) g2 (clone (xs ! 11))) (\<lambda>(scores1, g3).
         Inr ((scores0, scores1, s2), g3)))"
    using r(2) by auto
  obtain s0 g2 where a1: "Auxiliary_Classifier_forward (net_aux_classifier1 net) g1 (clone (xs ! 8)) = Inr (s0, g2)"
      "shape2 s0 = (dimN x, num_classes)"
    using Auxiliary_Classifier_forward_ok [OF f(20), of "clone (xs ! 8)" g1] d8 x by (auto simp: aux_pooled_def)
  obtain s1 g3 where a2: "Auxiliary_Classifier_forward (net_aux_classifier2 net) g2 (clone (xs ! 11)) = Inr (s1, g3)"
      "shape2 s1 = (dimN x, num_classes)"
    using Auxiliary_Classifier_forward_ok [OF f(21), of "clone (xs ! 11)" g2] d11 x by (auto simp: aux_pooled_def)
  have "Inception_Net_forward net g x = Inr ((s0, s1, s2), g3)"
    by (simp add: forward_from_states [OF xs] p(1) r(1) heads a1(1) a2(1))
  moreover have "shape4 p = (dimN x, 1024, 1, 1)" "shape2 r = (dimN x, 1024)"
    using p r by (simp_all add: shape4_def shape2_def)
  moreover have "shape4 (xs ! 15) = (dimN x, 1024, 7, 7)"
    using sh(3) h7 by simp
  ultimately show ?thesis
    using xs sh(1,2) p(1) r(1) m a1 a2 by blast
qed

lemma activations_from_states:
  assumes "forward_states net x xs"
  shows "activation_4a net x = Inr (xs ! 8)" "activation_4d net x = Inr (xs ! 11)"
    "flat_features net x = ebind (avg_pool2d (net_avgpool5 net) (xs ! 15)) reshape_rows"
  by (simp_all add: activation_4a_def activation_4d_def flat_features_def forward_states_nth [OF assms])

subsection \<open>Where the forward pass fails\<close>

lemma forward_no_plane:
  assumes init: "Inception_Net_init sd num_classes = Inr net0"
    and net: "net = Inception_Net_train mode net0"
    and x: "dimC x = 3" "dimH x = 0 \<or> dimW x = 0"
  shows "Inception_Net_forward net g x = Inl KernelTooLarge"
proof -
  have "conv2d (net_conv1 net) x = Inl KernelTooLarge"
    using x by (auto simp: Inception_Net_init_fields(1) [OF init net] conv2d_def)
  then show ?thesis
    by (simp add: Inception_Net_forward_def)
qed

lemma forward_final_states:
  assumes init: "Inception_Net_init sd num_classes = Inr net0"
    and net: "net = Inception_Net_train mode net0"
    and x: "dimC x = 3" "0 < dimH x" "0 < dimW x"
  shows "\<exists>xs. forward_states net x xs
     \<and> shape4 (xs ! 8) = (dimN x, 512, tap_extent (dimH x), tap_extent (dimW x))
     \<and> shape4 (xs ! 11) = (dimN x, 528, tap_extent (dimH x), tap_extent (dimW x))
     \<and> shape4 (xs ! 15) = (dimN x, 1024, final_extent (dimH x), final_extent (dimW x))"
proof -
  from forward_states_exist [OF init net x]
  obtain xs where xs: "forward_states net x xs"
    and m: "map shape4 xs = trunk_shapes (dimN x) (dimH x) (dimW x)"
    by blast
  show ?thesis
    using xs map_eq_nth [OF m, of 8] map_eq_nth [OF m, of 11] map_eq_nth [OF m, of 15]
    by (auto simp: trunk_shapes_nth)
qed

lemma forward_pool_too_small:
  assumes init: "Inception_Net_init sd num_classes = Inr net0"
    and net: "net = Inception_Net_train mode net0"
    and x: "dimC x = 3" "0 < dimH x" "0 < dimW x"
    and small: "final_extent (dimH x) < 7 \<or> final_extent (dimW x) < 7"
  shows "Inception_Net_forward net g x = Inl OutputTooSmall"
proof -
  from forward_final_states [OF init net x]
  obtain xs where xs: "forward_states net x xs"
    and sh: "shape4 (xs ! 15) = (dimN x, 1024, final_extent (dimH x), final_extent (dimW x))"
    by blast
  have "0 < final_extent (dimH x)" "0 < final_extent (dimW x)"
    by (simp_all add: final_extent_def)
  with sh small have "avg_pool2d (net_avgpool5 net) (xs ! 15) = Inl OutputTooSmall"
    by (auto simp: Inception_Net_init_fields(17) [OF init net] avg_pool2d_def shape4_def)
  then show ?thesis
    by (simp add: forward_from_states [OF xs])
qed

lemma forward_pooled:
  assumes init: "Inception_Net_init sd num_classes = Inr net0"
    and net: "net = Inception_Net_train mode net0"
    and x: "dimC x = 3" "0 < dimH x" "0 < dimW x"
    and big: "7 \<le> final_extent (dimH x)" "7 \<le> final_extent (dimW x)"
  shows "\<exists>xs p. forward_states net x xs
     \<and> shape4 (xs ! 8) = (dimN x, 512, tap_extent (dimH x), tap_extent (dimW x))
     \<and> shape4 (xs ! 11) = (dimN x, 528, tap_extent (dimH x), tap_extent (dimW x))
     \<and> avg_pool2d (net_avgpool5 net) (xs ! 15) = Inr p
     \<and> shape4 p = (dimN x, 1024, final_extent (dimH x) - 6, final_extent (dimW x) - 6)
     \<and> Inception_Net_forward net g x =
         ebind (reshape_rows p) (\<lambda>r. forward_heads net g (clone (xs ! 8)) (clone (xs ! 11)) r)"
proof -
  from forward_final_states [OF init net x]
  obtain xs where xs: "forward_states net x xs"
    and sh: "shape4 (xs ! 8) = (dimN x, 512, tap_extent (dimH x), tap_extent (dimW x))"
      "shape4 (xs ! 11) = (dimN x, 528, tap_extent (dimH x), tap_extent (dimW x))"
      "shape4 (xs ! 15) = (dimN x, 1024, final_extent (dimH x), final_extent (dimW x))"
    by blast
  obtain p where p: "avg_pool2d (net_avgpool5 net) (xs ! 15) = Inr p"
      "dimN p = dimN x" "dimC p = 1024"
      "dimH p = final_extent (dimH x) - 6" "dimW p = final_extent (dimW x) - 6"
    using avg_pool2d_ok [of "\<lparr>ap_kernel_size = 7, ap_stride = 1\<rparr>" "xs ! 15"] sh(3) big
    by (auto simp: Inception_Net_init_fields(17) [OF init net] shape4_def)
  have "Inception_Net_forward net g x =
         ebind (reshape_rows p) (\<lambda>r. forward_heads net g (clone (xs ! 8)) (clone (xs ! 11)) r)"
    by (simp add: forward_from_states [OF xs] p(1))
  then show ?thesis
    using xs sh(1,2) p by (auto simp: shape4_def)
qed

lemma forward_empty_batch:
  assumes init: "Inception_Net_init sd num_classes = Inr net0"
    and net: "net = Inception_Net_train mode net0"
    and x: "dimC x = 3" "0 < dimH x" "0 < dimW x" "dimN x = 0"
    and big: "7 \<le> final_extent (dimH x)" "7 \<le> final_extent (dimW x)"
  shows "Inception_Net_forward net g x = Inl AmbiguousReshape"
proof -
  from forward_pooled [OF init net x(1-3) big, of g]
  obtain xs p where p: "shape4 p = (dimN x, 1024, final_extent (dimH x) - 6, final_extent (dimW x) - 6)"
    and fwd: "Inception_Net_forward net g x =
         ebind (reshape_rows p) (\<lambda>r. forward_heads net g (clone (xs ! 8)) (clone (xs ! 11)) r)"
    by blast
  have "reshape_rows p = Inl AmbiguousReshape"
    using p x(4) by (simp add: reshape_rows_def shape4_def)
  with fwd show ?thesis
    by simp
qed

lemma forward_flat_mismatch:
  assumes init: "Inception_Net_init sd num_classes = Inr net0"
    and net: "net = Inception_Net_train mode net0"
    and x: "dimC x = 3" "0 < dimH x" "0 < dimW x" "0 < dimN x"
    and big: "7 \<le> final_extent (dimH x)" "7 \<le> final_extent (dimW x)"
    and other: "final_extent (dimH x) \<noteq> 7 \<or> final_extent (dimW x) \<noteq> 7"
  shows "Inception_Net_forward net g x =
     Inl (MatMulMismatch (1024 * (final_extent (dimH x) - 6) * (final_extent (dimW x) - 6)) 1024)"
proof -
  from forward_pooled [OF init net x(1-3) big, of g]
  obtain xs p where p: "shape4 p = (dimN x, 1024, final_extent (dimH x) - 6, final_extent (dimW x) - 6)"
    and fwd: "Inception_Net_forward net g x =
         ebind (reshape_rows p) (\<lambda>r. forward_heads net g (clone (xs ! 8)) (clone (xs ! 11)) r)"
    by blast
  obtain r where r: "reshape_rows p = Inr r"
      "dimF r = 1024 * (final_extent (dimH x) - 6) * (final_extent (dimW x) - 6)"
    using reshape_rows_ok [of p] p x(4) by (auto simp: shape4_def)
  have "(final_extent (dimH x) - 6) * (final_extent (dimW x) - 6) \<noteq> 1"
    using big other by auto
  then have "1024 * ((final_extent (dimH x) - 6) * (final_extent (dimW x) - 6)) \<noteq> 1024"
    by simp
  then have "dimF r \<noteq> 1024"
    by (simp add: r(2) mult.assoc)
  from forward_heads_main_mismatch [OF init net this] fwd r
  show ?thesis
    by simp
qed

lemma forward_aux_mismatch:
  assumes init: "Inception_Net_init sd num_classes = Inr net0"
    and net: "net = Inception_Net_train mode net0"
    and x: "dimC x = 3" "0 < dimH x" "0 < dimW x" "0 < dimN x"
    and seven: "final_extent (dimH x) = 7" "final_extent (dimW x) = 7"
    and other: "tap_extent (dimH x) \<noteq> 14 \<or> tap_extent (dimW x) \<noteq> 14"
  shows "Inception_Net_forward net g x =
     Inl (MatMulMismatch (128 * aux_pooled (tap_extent (dimH x)) * aux_pooled (tap_extent (dimW x))) 2048)"
proof -
  note f = Inception_Net_init_fields [OF init net]
  from forward_pooled [OF init net x(1-3), of g] seven
  obtain xs p where sh: "shape4 (xs ! 8) = (dimN x, 512, tap_extent (dimH x), tap_extent (dimW x))"
    and p: "shape4 p = (dimN x, 1024, 1, 1)"
    and fwd: "Inception_Net_forward net g x =
         ebind (reshape_rows p) (\<lambda>r. forward_heads net g (clone (xs ! 8)) (clone (xs ! 11)) r)"
    by auto
  obtain r where r: "reshape_rows p = Inr r" "dimF r = 1024"
    using reshape_rows_ok [of p] p x(4) by (auto simp: shape4_def)
  from forward_heads_main_ok [OF init net r(2), of g "clone (xs ! 8)" "clone (xs ! 11)"]
  obtain g1 s2 where heads: "forward_heads net g (clone (xs ! 8)) (clone (xs ! 11)) r =
         ebind (Auxiliary_Classifier_forward (net_aux_classifier1 net) g1 (clone (xs ! 8))) (\<lambda>(scores0, g2).
         ebind (Auxiliary_Classifier_forward (net_aux_classifier2 net) g2 (clone (xs ! 11))) (\<lambda>(scores1, g3).
         Inr ((scores0, scores1, s2), g3)))"
    by blast
  have range: "13 \<le> tap_extent (dimH x)" "tap_extent (dimH x) \<le> 14"
      "13 \<le> tap_extent (dimW x)" "tap_extent (dimW x) \<le> 14"
    using seven by (simp_all add: final_extent_def half_up_def)
  then have hw: "tap_extent (dimH x) = 13 \<or> tap_extent (dimH x) = 14"
      "tap_extent (dimW x) = 13 \<or> tap_extent (dimW x) = 14"
    by arith+
  have ap: "aux_pooled 13 = 3" "aux_pooled 14 = 4"
    by (simp_all add: aux_pooled_def)
  have "aux_pooled (tap_extent (dimH x)) * aux_pooled (tap_extent (dimW x)) \<noteq> 16"
    using hw other by (elim disjE) (simp_all add: ap)
  from Auxiliary_Classifier_forward_mismatch [OF f(20), of "clone (xs ! 8)" g1] sh x(4) range this
  have "Auxiliary_Classifier_forward (net_aux_classifier1 net) g1 (clone (xs ! 8)) =
     Inl (MatMulMismatch (128 * aux_pooled (tap_extent (dimH x)) * aux_pooled (tap_extent (dimW x))) 2048)"
    by (simp add: shape4_def)
  then show ?thesis
    by (simp add: fwd r(1) heads)
qed

subsection \<open>Extents\<close>

lemma half_up_le: "0 < n \<Longrightarrow> half_up h \<le> n \<longleftrightarrow> h \<le> 2 * n"
  by (simp add: half_up_def) arith

lemma half_up_ge: "1 < n \<Longrightarrow> n \<le> half_up h \<longleftrightarrow> 2 * n - 1 \<le> h"
  by (simp add: half_up_def) arith

lemma tap_extent_le_14: "tap_extent h \<le> 14 \<longleftrightarrow> h \<le> 224"
  by (simp add: tap_extent_def half_up_le)

lemma tap_extent_ge_14: "14 \<le> tap_extent h \<longleftrightarrow> 209 \<le> h"
  by (simp add: tap_extent_def half_up_ge)

lemma tap_extent_eq_14: "tap_extent h = 14 \<longleftrightarrow> 209 \<le> h \<and> h \<le> 224"
  using tap_extent_le_14 [of h] tap_extent_ge_14 [of h] by auto

lemma final_extent_ge_7: "7 \<le> final_extent h \<longleftrightarrow> 193 \<le> h"
  by (simp add: final_extent_def tap_extent_def half_up_ge)

lemma final_extent_le_7: "final_extent h \<le> 7 \<longleftrightarrow> h \<le> 224"
  by (simp add: final_extent_def tap_extent_def half_up_le)

lemma final_extent_14: "tap_extent h = 14 \<Longrightarrow> final_extent h = 7"
  by (simp add: final_extent_def half_up_def)

lemma check_output_shape_Inr:
  assumes "Inception_Net_init sd num_classes = Inr net0"
    and "Inception_Net_forward net0 g x = Inr ((s0, s1, s2), g')"
  shows "check_output_shape sd num_classes g x = Inr [shape2 s0, shape2 s1, shape2 s2]"
  using assms by (simp add: check_output_shape_def)

lemma check_output_shape_Inl:
  assumes "Inception_Net_init sd num_classes = Inr net0"
    and "Inception_Net_forward net0 g x = Inl e"
  shows "check_output_shape sd num_classes g x = Inl e"
  using assms by (simp add: check_output_shape_def)

subsection \<open>The inputs on which the forward pass returns\<close>

lemma trunk_shapes_224:
  "trunk_shapes N 224 224 =
     [(N, 64, 112, 112), (N, 64, 56, 56), (N, 64, 56, 56), (N, 192, 56, 56), (N, 192, 28, 28),
      (N, 256, 28, 28), (N, 480, 28, 28), (N, 480, 14, 14),
      (N, 512, 14, 14), (N, 512, 14, 14), (N, 512, 14, 14), (N, 528, 14, 14), (N, 832, 14, 14),
      (N, 832, 7, 7), (N, 832, 7, 7), (N, 1024, 7, 7)]"
  by (simp add: trunk_shapes_def Let_def half_up_def)

lemma forward_returns_iff:
  assumes init: "Inception_Net_init sd num_classes = Inr net0"
    and net: "net = Inception_Net_train mode net0"
    and x: "dimC x = 3" "0 < dimN x"
  shows "(\<exists>res. Inception_Net_forward net g x = Inr res)
     \<longleftrightarrow> tap_extent (dimH x) = 14 \<and> tap_extent (dimW x) = 14"
proof
  assume ret: "\<exists>res. Inception_Net_forward net g x = Inr res"
  show "tap_extent (dimH x) = 14 \<and> tap_extent (dimW x) = 14"
  proof (rule ccontr)
    assume other: "\<not> (tap_extent (dimH x) = 14 \<and> tap_extent (dimW x) = 14)"
    have "\<exists>e. Inception_Net_forward net g x = Inl e"
    proof (cases "dimH x = 0 \<or> dimW x = 0")
      case True
      from forward_no_plane [OF init net x(1) True] show ?thesis by blast
    next
      case False
      then have pos: "0 < dimH x" "0 < dimW x" by simp_all
      show ?thesis
      proof (cases "final_extent (dimH x) < 7 \<or> final_extent (dimW x) < 7")
        case True
        from forward_pool_too_small [OF init net x(1) pos True] show ?thesis by blast
      next
        case False
        then have big: "7 \<le> final_extent (dimH x)" "7 \<le> final_extent (dimW x)" by simp_all
        show ?thesis
        proof (cases "final_extent (dimH x) \<noteq> 7 \<or> final_extent (dimW x) \<noteq> 7")
          case True
          from forward_flat_mismatch [OF init net x(1) pos x(2) big True] show ?thesis by blast
        next
          case False
          then have seven: "final_extent (dimH x) = 7" "final_extent (dimW x) = 7" by simp_all
          from other have "tap_extent (dimH x) \<noteq> 14 \<or> tap_extent (dimW x) \<noteq> 14" by simp
          from forward_aux_mismatch [OF init net x(1) pos x(2) seven this] show ?thesis by blast
        qed
      qed
    qed
    with ret show False by auto
  qed
next
  assume taps: "tap_extent (dimH x) = 14 \<and> tap_extent (dimW x) = 14"
  then have "0 < dimH x" "0 < dimW x"
    by (simp_all add: tap_extent_eq_14)
  from forward_ok [OF init net x(1,2) this, of g] taps
  show "\<exists>res. Inception_Net_forward net g x = Inr res"
    by auto
qed

lemma forward_trace_224:
  assumes init: "Inception_Net_init sd num_classes = Inr net0"
    and net: "net = Inception_Net_train mode net0"
    and x: "dimC x = 3" "0 < dimN x" "dimH x = 224" "dimW x = 224"
  shows "\<exists>xs p r q0 q1. forward_states net x xs
     \<and> map shape4 xs = trunk_shapes (dimN x) 224 224
     \<and> avg_pool2d (net_avgpool5 net) (xs ! 15) = Inr p \<and> shape4 p = (dimN x, 1024, 1, 1)
     \<and> reshape_rows p = Inr r \<and> shape2 r = (dimN x, 1024)
     \<and> avg_pool2d (ac_avgpool1 (net_aux_classifier1 net)) (clone (xs ! 8)) = Inr q0
     \<and> shape4 q0 = (dimN x, 512, 4, 4)
     \<and> avg_pool2d (ac_avgpool1 (net_aux_classifier2 net)) (clone (xs ! 11)) = Inr q1
     \<and> shape4 q1 = (dimN x, 528, 4, 4)"
proof -
  note f = Inception_Net_init_fields [OF init net]
  from forward_states_exist [OF init net x(1)] x(3,4)
  obtain xs where xs: "forward_states net x xs"
    and m: "map shape4 xs = trunk_shapes (dimN x) 224 224"
    by auto
  have sh: "shape4 (xs ! 8) = (dimN x, 512, 14, 14)" "shape4 (xs ! 11) = (dimN x, 528, 14, 14)"
      "shape4 (xs ! 15) = (dimN x, 1024, 7, 7)"
    using map_eq_nth [OF m, of 8] map_eq_nth [OF m, of 11] map_eq_nth [OF m, of 15]
    by (simp_all add: trunk_shapes_224)
  obtain p where p: "avg_pool2d (net_avgpool5 net) (xs ! 15) = Inr p" "shape4 p = (dimN x, 1024, 1, 1)"
    using avg_pool2d_ok [of "\<lparr>ap_kernel_size = 7, ap_stride = 1\<rparr>" "xs ! 15"] sh(3)
    by (auto simp: f shape4_def)
  obtain r where r: "reshape_rows p = Inr r" "shape2 r = (dimN x, 1024)"
    using reshape_rows_ok [of p] p(2) x(2) by (auto simp: shape4_def shape2_def)
  obtain q0 where q0: "avg_pool2d (ac_avgpool1 (net_aux_classifier1 net)) (clone (xs ! 8)) = Inr q0"
      "shape4 q0 = (dimN x, 512, 4, 4)"
    using avg_pool2d_ok [of "\<lparr>ap_kernel_size = 5, ap_stride = 3\<rparr>" "clone (xs ! 8)"] sh(1)
    by (auto simp: f Auxiliary_Classifier_fields [OF refl] shape4_def)
  obtain q1 where q1: "avg_pool2d (ac_avgpool1 (net_aux_classifier2 net)) (clone (xs ! 11)) = Inr q1"
      "shape4 q1 = (dimN x, 528, 4, 4)"
    using avg_pool2d_ok [of "\<lparr>ap_kernel_size = 5, ap_stride = 3\<rparr>" "clone (xs ! 11)"] sh(2)
    by (auto simp: f Auxiliary_Classifier_fields [OF refl] shape4_def)
  show ?thesis
    using xs m p r q0 q1 by blast
qed

subsection \<open>The auxiliary classifier and the specification's steps\<close>

lemma Auxiliary_Classifier_forward_small:
  assumes self: "self = Auxiliary_Classifier_train mode (Auxiliary_Classifier_init sd in_ch num_classes)"
    and small: "dimH x < 5 \<or> dimW x < 5"
  shows "\<exists>e. Auxiliary_Classifier_forward self g x = Inl e"
proof -
  have "\<exists>e. avg_pool2d (ac_avgpool1 self) x = Inl e"
    using small by (auto simp: Auxiliary_Classifier_fields(1) [OF self] avg_pool2d_def)
  then show ?thesis
    by (auto simp: Auxiliary_Classifier_forward_def)
qed

lemma spec_aux_classifier_eq:
  assumes self: "self = Auxiliary_Classifier_train mode (Auxiliary_Classifier_init sd in_ch num_classes)"
  shows "Auxiliary_Classifier_forward self g x = spec_aux_classifier sd in_ch num_classes mode g x"
  by (simp add: Auxiliary_Classifier_forward_def spec_aux_classifier_def
      Auxiliary_Classifier_fields [OF self])

subsection \<open>Inference mode\<close>

lemma map_sum_ebind: "map_sum id h (ebind m f) = ebind m (\<lambda>v. map_sum id h (f v))"
  by (cases m) simp_all

text \<open>
  With the dropout flag cleared, the classifier draws nothing: it returns the
  generator it was given, and its scores do not depend on it.
\<close>

lemma Auxiliary_Classifier_forward_eval:
  assumes "\<not> drop_training (ac_dropout4 self)"
  shows "Auxiliary_Classifier_forward self g x =
     map_sum id (\<lambda>(scores, _). (scores, g)) (Auxiliary_Classifier_forward self g' x)"
proof -
  have d: "\<And>g t. dropout (ac_dropout4 self) g t = (t, g)"
    using assms by (simp add: dropout_eval)
  show ?thesis
    unfolding Auxiliary_Classifier_forward_def
    by (simp add: d map_sum_ebind)
qed

lemma forward_heads_eval:
  assumes "\<not> drop_training (net_dropout5 net)"
    and "\<not> drop_training (ac_dropout4 (net_aux_classifier1 net))"
    and "\<not> drop_training (ac_dropout4 (net_aux_classifier2 net))"
  shows "forward_heads net g a d r =
     map_sum id (\<lambda>(scores, _). (scores, g)) (forward_heads net g' a d r)"
proof -
  have d5: "\<And>g. dropout (net_dropout5 net) g r = (r, g)"
    using assms(1) by (simp add: dropout_eval)
  show ?thesis
  proof (cases "linear_forward (net_linear5 net) r")
    case (Inl e)
    then show ?thesis
      by (simp add: forward_heads_def d5)
  next
    case s2: (Inr s2)
    show ?thesis
    proof (cases "Auxiliary_Classifier_forward (net_aux_classifier1 net) g' a")
      case (Inl e)
      with Auxiliary_Classifier_forward_eval [OF assms(2), of g a g'] s2 show ?thesis
        by (simp add: forward_heads_def d5)
    next
      case (Inr p0)
      obtain s0 g2 where p0: "p0 = (s0, g2)"
        by (cases p0)
      from Auxiliary_Classifier_forward_eval [OF assms(2), of g a g'] Inr p0
      have a1: "Auxiliary_Classifier_forward (net_aux_classifier1 net) g a = Inr (s0, g)"
          "Auxiliary_Classifier_forward (net_aux_classifier1 net) g' a = Inr (s0, g2)"
        by simp_all
      show ?thesis
      proof (cases "Auxiliary_Classifier_forward (net_aux_classifier2 net) g2 d")
        case (Inl e)
        with Auxiliary_Classifier_forward_eval [OF assms(3), of g d g2] s2 a1 show ?thesis
          by (simp add: forward_heads_def d5)
      next
        case (Inr p1)
        obtain s1 g3 where p1: "p1 = (s1, g3)"
          by (cases p1)
        from Auxiliary_Classifier_forward_eval [OF assms(3), of g d g2] Inr p1
        have a2: "Auxiliary_Classifier_forward (net_aux_classifier2 net) g d = Inr (s1, g)"
            "Auxiliary_Classifier_forward (net_aux_classifier2 net) g2 d = Inr (s1, g3)"
          by simp_all
        show ?thesis
          by (simp add: forward_heads_def d5 s2 a1 a2)
      qed
    qed
  qed
qed

lemma Inception_Net_forward_eval:
  assumes "\<not> drop_training (net_dropout5 net)"
    and "\<not> drop_training (ac_dropout4 (net_aux_classifier1 net))"
    and "\<not> drop_training (ac_dropout4 (net_aux_classifier2 net))"
  shows "Inception_Net_forward net g x =
     map_sum id (\<lambda>(scores, _). (scores, g)) (Inception_Net_forward net g' x)"
proof -
  have h: "\<And>a d. forward_heads net g a d =
      (\<lambda>r. map_sum id (\<lambda>(scores, _). (scores, g)) (forward_heads net g' a d r))"
    by (rule ext) (rule forward_heads_eval [OF assms])
  show ?thesis
    unfolding forward_decomp map_sum_ebind
    by (simp only: h)
qed

lemma Inception_Net_eval_flags:
  "\<not> drop_training (net_dropout5 (Inception_Net_eval net0))"
  "\<not> drop_training (ac_dropout4 (net_aux_classifier1 (Inception_Net_eval net0)))"
  "\<not> drop_training (ac_dropout4 (net_aux_classifier2 (Inception_Net_eval net0)))"
  by (simp_all add: Inception_Net_eval_def Inception_Net_train_def Auxiliary_Classifier_train_def)

subsection \<open>Cross-entropy\<close>

lemma sum_list_exp_pos:
  "0 < C \<Longrightarrow> 0 < (\<Sum>j\<leftarrow>[0..<C]. exp (f j :: real))"
proof (induction C)
  case 0
  then show ?case by simp
next
  case (Suc C)
  have "0 \<le> (\<Sum>j\<leftarrow>[0..<C]. exp (f j))"
    by (rule sum_list_nonneg) auto
  moreover have "0 < exp (f C)"
    by simp
  ultimately have "0 < (\<Sum>j\<leftarrow>[0..<C]. exp (f j)) + exp (f C)"
    by (rule add_nonneg_pos)
  then show ?case
    by simp
qed

lemma log_softmax_dims [simp]: "dimB (log_softmax s) = dimB s" "dimF (log_softmax s) = dimF s"
  by (simp_all add: log_softmax_def)

lemma log_softmax_prob:
  assumes "0 < dimF s"
  shows "elem2 (log_softmax s) n k = ln (softmax_prob s n k)"
proof -
  have "0 < (\<Sum>j\<leftarrow>[0..<dimF s]. exp (elem2 s n j))"
    by (rule sum_list_exp_pos [OF assms])
  then show ?thesis
    by (simp add: log_softmax_def softmax_prob_def ln_div)
qed

text \<open>
  With one target per row, each a class index, and at least one row, the library's
  cross-entropy is the mean over the batch of the negative logarithm of the softmax
  probability of the target class. Without rows it is \<open>nan\<close>.
\<close>

lemma cross_entropy_spec:
  assumes "length y = dimB s" and "\<forall>t\<in>set y. t < dimF s" and "0 < dimB s"
  shows "\<exists>v. spec_cross_entropy s y = Some v \<and> cross_entropy s y = Inr (Num v)"
proof -
  have no_bad: "\<not> list_ex (\<lambda>t. dimF s \<le> t) y"
    using assms(2) by (auto simp: list_ex_iff)
  have "map (\<lambda>n. - elem2 (log_softmax s) n (y ! n)) [0..<dimB s]
      = map (\<lambda>n. - ln (softmax_prob s n (y ! n))) [0..<dimB s]"
  proof (rule map_cong [OF refl])
    fix n assume "n \<in> set [0..<dimB s]"
    then have "n < length y"
      using assms(1) by simp
    then have "y ! n < dimF s"
      using assms(2) by simp
    then have "0 < dimF s"
      by simp
    from log_softmax_prob [OF this]
    show "- elem2 (log_softmax s) n (y ! n) = - ln (softmax_prob s n (y ! n))"
      by simp
  qed
  then have "(\<Sum>n\<leftarrow>[0..<dimB s]. - elem2 (log_softmax s) n (y ! n))
      = (\<Sum>n\<leftarrow>[0..<dimB s]. - ln (softmax_prob s n (y ! n)))"
    by (rule arg_cong [where f = sum_list])
  then show ?thesis
    using assms(1,3) no_bad
    by (simp add: cross_entropy_def nll_loss_def spec_cross_entropy_def)
qed

lemma cross_entropy_empty:
  assumes "dimB s = 0"
  shows "cross_entropy s [] = Inr Nan" and "spec_cross_entropy s [] = None"
  using assms by (simp_all add: cross_entropy_def nll_loss_def spec_cross_entropy_def)

subsection \<open>Channel counts\<close>

lemma block_channels [simp]:
  "block_in_channels (Inception_Block_init sd (in_ch, out1, red2, out2, red3, out3, out4)) = in_ch"
  "block_out_channels (Inception_Block_init sd (in_ch, out1, red2, out2, red3, out3, out4))
     = out1 + out2 + out3 + out4"
  by (simp_all add: block_in_channels_def block_out_channels_def)

text \<open>
  A block does not look at its parameters before it is called. Called on an input
  with other channels than its first convolution expects, it fails at that
  convolution.
\<close>

lemma Inception_Block_forward_channel_mismatch:
  assumes "0 < out1" and "dimC x \<noteq> in_ch"
  shows "Inception_Block_forward (Inception_Block_init sd (in_ch, out1, red2, out2, red3, out3, out4)) x
     = Inl (ChannelMismatch in_ch (dimC x))"
proof -
  have "conv2d (nn_Conv2d sd ''conv1'' in_ch out1 1 1 0) x = Inl (ChannelMismatch in_ch (dimC x))"
    using assms by (simp add: conv2d_def)
  then show ?thesis
    by (simp add: Inception_Block_forward_def)
qed

text \<open>
  A block that returns has seven positive channel counts, and its input has the
  channels of its first parameter: a block with a zero among its parameters fails on
  every input.
\<close>

lemma Inception_Block_forward_Inr_positive:
  assumes "Inception_Block_forward (Inception_Block_init sd (in_ch, out1, red2, out2, red3, out3, out4)) x = Inr y"
  shows "0 < in_ch \<and> 0 < out1 \<and> 0 < red2 \<and> 0 < out2 \<and> 0 < red3 \<and> 0 < out3 \<and> 0 < out4
     \<and> dimC x = in_ch"
proof -
  let ?B = "Inception_Block_init sd (in_ch, out1, red2, out2, red3, out3, out4)"
  from assms obtain c1 where c1: "conv2d (ib_conv1 ?B) x = Inr c1"
    by (cases "conv2d (ib_conv1 ?B) x") (simp_all add: Inception_Block_forward_def)
  from assms c1 obtain r2 where r2: "conv2d (ib_reduce2 ?B) x = Inr r2"
    by (cases "conv2d (ib_reduce2 ?B) x") (simp_all add: Inception_Block_forward_def)
  from assms c1 r2 obtain c2 where c2: "conv2d (ib_conv2 ?B) (relu4 r2) = Inr c2"
    by (cases "conv2d (ib_conv2 ?B) (relu4 r2)") (simp_all add: Inception_Block_forward_def)
  from assms c1 r2 c2 obtain r3 where r3: "conv2d (ib_reduce3 ?B) x = Inr r3"
    by (cases "conv2d (ib_reduce3 ?B) x") (simp_all add: Inception_Block_forward_def)
  from assms c1 r2 c2 r3 obtain c3 where c3: "conv2d (ib_conv3 ?B) (relu4 r3) = Inr c3"
    by (cases "conv2d (ib_conv3 ?B) (relu4 r3)") (simp_all add: Inception_Block_forward_def)
  from assms c1 r2 c2 r3 c3 obtain m4 where m4: "max_pool2d (ib_maxpool4 ?B) x = Inr m4"
    by (cases "max_pool2d (ib_maxpool4 ?B) x") (simp_all add: Inception_Block_forward_def)
  from assms c1 r2 c2 r3 c3 m4 obtain c4 where c4: "conv2d (ib_conv4 ?B) m4 = Inr c4"
    by (cases "conv2d (ib_conv4 ?B) m4") (simp_all add: Inception_Block_forward_def)
  have xpos: "0 < dimC x" and mpos: "0 < dimC m4"
    using max_pool2d_Inr_channels [OF m4] by simp_all
  have rpos: "0 < dimC (relu4 r2)" "0 < dimC (relu4 r3)"
    using conv2d_Inr_channels [OF r2 xpos] conv2d_Inr_channels [OF r3 xpos] by simp_all
  have "dimC x = in_ch" "0 < out1"
    using conv2d_Inr_channels(2,3) [OF c1 xpos] by simp_all
  moreover have "0 < red2" "0 < red3"
    using conv2d_Inr_channels(2) [OF r2 xpos] conv2d_Inr_channels(2) [OF r3 xpos] by simp_all
  moreover have "0 < out2" "0 < out3" "0 < out4"
    using conv2d_Inr_channels(2) [OF c2 rpos(1)] conv2d_Inr_channels(2) [OF c3 rpos(2)]
      conv2d_Inr_channels(2) [OF c4 mpos] by simp_all
  ultimately show ?thesis
    using xpos by simp
qed

lemma Inception_Block_forward_zero_count:
  assumes "in_ch = 0 \<or> out1 = 0 \<or> red2 = 0 \<or> out2 = 0 \<or> red3 = 0 \<or> out3 = 0 \<or> out4 = 0"
  shows "\<exists>e. Inception_Block_forward (Inception_Block_init sd (in_ch, out1, red2, out2, red3, out3, out4)) x = Inl e"
proof (cases "Inception_Block_forward (Inception_Block_init sd (in_ch, out1, red2, out2, red3, out3, out4)) x")
  case (Inl e)
  then show ?thesis
    by simp
next
  case (Inr y)
  from Inception_Block_forward_Inr_positive [OF Inr] assms show ?thesis
    by simp
qed

subsection \<open>Stages and the functions they implement\<close>

lemma get4_extend: "get4 h r = Inr t \<Longrightarrow> get4 (h @ h2) r = Inr t"
  by (auto simp: get4_def nth_append split: if_splits)

lemma get2_extend: "get2 h r = Inr t \<Longrightarrow> get2 (h @ h2) r = Inr t"
  by (auto simp: get2_def nth_append split: if_splits)

lemma get4_present: "get4 h r = Inr t \<Longrightarrow> r < length h"
  by (auto simp: get4_def split: if_splits)

lemma get4_new [simp]: "get4 (h @ [Feature y]) (length h) = Inr y"
  by (simp add: get4_def)

lemma get2_new [simp]: "get2 (h @ [Matrix y]) (length h) = Inr y"
  by (simp add: get2_def)

lemma implements_call4: "implements (call4 f) f"
  unfolding implements_def
proof (intro allI impI)
  fix h g r t assume "get4 h r = Inr t"
  then show "case f t of Inl e \<Rightarrow> call4 f r (h, g) = Inl e
     | Inr y \<Rightarrow> \<exists>r' h2. call4 f r (h, g) = Inr (r', h @ h2, g) \<and> get4 (h @ h2) r' = Inr y"
    by (cases "f t") (auto simp: call4_def alloc_def)
qed

lemma implements_relu: "implements (F_relu False) (\<lambda>t. Inr (relu4 t))"
  unfolding implements_def
  by (auto simp: F_relu_def alloc_def)

lemma implements_Inl:
  assumes "implements s f" and "get4 h r = Inr t" and "f t = Inl e"
  shows "s r (h, g) = Inl e"
proof -
  from assms(1,2) have "case f t of Inl e \<Rightarrow> s r (h, g) = Inl e
     | Inr y \<Rightarrow> \<exists>r' h2. s r (h, g) = Inr (r', h @ h2, g) \<and> get4 (h @ h2) r' = Inr y"
    unfolding implements_def by blast
  with assms(3) show ?thesis
    by simp
qed

lemma implements_Inr:
  assumes "implements s f" and "get4 h r = Inr t" and "f t = Inr y"
  shows "\<exists>r' h2. s r (h, g) = Inr (r', h @ h2, g) \<and> get4 (h @ h2) r' = Inr y"
proof -
  from assms(1,2) have "case f t of Inl e \<Rightarrow> s r (h, g) = Inl e
     | Inr y \<Rightarrow> \<exists>r' h2. s r (h, g) = Inr (r', h @ h2, g) \<and> get4 (h @ h2) r' = Inr y"
    unfolding implements_def by blast
  with assms(3) show ?thesis
    by simp
qed

lemma implements_Nil: "implements (pipeline []) (pure_pipeline [])"
  unfolding implements_def
proof (intro allI impI)
  fix h g r t assume "get4 h r = Inr t"
  then have "pipeline [] r (h, g) = Inr (r, h @ [], g) \<and> get4 (h @ []) r = Inr t"
    by simp
  then show "case pure_pipeline [] t of Inl e \<Rightarrow> pipeline [] r (h, g) = Inl e
     | Inr y \<Rightarrow> \<exists>r' h2. pipeline [] r (h, g) = Inr (r', h @ h2, g) \<and> get4 (h @ h2) r' = Inr y"
    by (simp del: append_Nil2)
qed

lemma implements_Cons:
  assumes s: "implements s f" and ss: "implements (pipeline ss) (pure_pipeline fs)"
  shows "implements (pipeline (s # ss)) (pure_pipeline (f # fs))"
  unfolding implements_def
proof (intro allI impI)
  fix h g r t assume get: "get4 h r = Inr t"
  show "case pure_pipeline (f # fs) t of Inl e \<Rightarrow> pipeline (s # ss) r (h, g) = Inl e
     | Inr y \<Rightarrow> \<exists>r' h2. pipeline (s # ss) r (h, g) = Inr (r', h @ h2, g) \<and> get4 (h @ h2) r' = Inr y"
  proof (cases "f t")
    case (Inl e)
    with s get have "s r (h, g) = Inl e"
      by (intro implements_Inl)
    with Inl show ?thesis
      by simp
  next
    case (Inr u)
    from implements_Inr [OF s get Inr, of g]
    obtain r1 h1 where s1: "s r (h, g) = Inr (r1, h @ h1, g)"
      and g1: "get4 (h @ h1) r1 = Inr u"
      by blast
    show ?thesis
    proof (cases "pure_pipeline fs u")
      case (Inl e)
      with ss g1 have "pipeline ss r1 (h @ h1, g) = Inl e"
        by (intro implements_Inl)
      with Inl Inr s1 show ?thesis
        by simp
    next
      case y: (Inr y)
      from implements_Inr [OF ss g1 y, of g]
      obtain r2 h2 where s2: "pipeline ss r1 (h @ h1, g) = Inr (r2, (h @ h1) @ h2, g)"
        and g2: "get4 ((h @ h1) @ h2) r2 = Inr y"
        by blast
      have "pipeline (s # ss) r (h, g) = Inr (r2, h @ (h1 @ h2), g) \<and> get4 (h @ (h1 @ h2)) r2 = Inr y"
        using s1 s2 g2 by simp
      then show ?thesis
        using Inr y by auto
    qed
  qed
qed

lemma implements_pipeline:
  assumes "list_all2 implements ss fs"
  shows "implements (pipeline ss) (pure_pipeline fs)"
  using assms
  by (induction ss fs rule: list_all2_induct) (simp_all only: implements_Nil implements_Cons)

subsection \<open>The segments of the forward pass as pipelines\<close>

lemma ebind_return [simp]: "ebind m Inr = m"
  by (cases m) simp_all

lemma pure_pipeline_fun:
  "pure_pipeline [] = Inr"
  "pure_pipeline (f # fs) = (\<lambda>t. ebind (f t) (pure_pipeline fs))"
  by (rule ext, simp)+

lemma forward_to_4a_pipeline:
  "forward_to_4a net =
     pure_pipeline
       [conv2d (net_conv1 net), \<lambda>t. Inr (relu4 t),
        max_pool2d (net_maxpool1 net),
        conv2d (net_reduce2 net), \<lambda>t. Inr (relu4 t),
        conv2d (net_conv2 net), \<lambda>t. Inr (relu4 t),
        max_pool2d (net_maxpool2 net),
        Inception_Block_forward (net_inception3a net),
        Inception_Block_forward (net_inception3b net),
        max_pool2d (net_maxpool3 net),
        Inception_Block_forward (net_inception4a net)]"
  by (rule ext) (simp add: forward_to_4a_def ebind_assoc pure_pipeline_fun)

lemma forward_4b_to_4d_pipeline:
  "forward_4b_to_4d net =
     pure_pipeline
       [Inception_Block_forward (net_inception4b net),
        Inception_Block_forward (net_inception4c net),
        Inception_Block_forward (net_inception4d net)]"
  by (rule ext) (simp add: forward_4b_to_4d_def ebind_assoc pure_pipeline_fun)

lemma forward_4e_to_flat_pipeline:
  "forward_4e_to_flat net d =
     ebind (pure_pipeline
       [Inception_Block_forward (net_inception4e net),
        max_pool2d (net_maxpool4 net),
        Inception_Block_forward (net_inception5a net),
        Inception_Block_forward (net_inception5b net),
        avg_pool2d (net_avgpool5 net)] d) reshape_rows"
  by (simp add: forward_4e_to_flat_def ebind_assoc pure_pipeline_fun)

lemma implements_to_4a: "implements (pipeline (stages_to_4a net)) (forward_to_4a net)"
  unfolding forward_to_4a_pipeline stages_to_4a_def
  by (intro implements_pipeline) (simp add: implements_call4 implements_relu)

lemma implements_4b_to_4d: "implements (pipeline (stages_4b_to_4d net)) (forward_4b_to_4d net)"
  unfolding forward_4b_to_4d_pipeline stages_4b_to_4d_def
  by (intro implements_pipeline) (simp add: implements_call4)

lemma implements_4e_to_avgpool5:
  "implements (pipeline (stages_4e_to_avgpool5 net))
     (pure_pipeline
       [Inception_Block_forward (net_inception4e net),
        max_pool2d (net_maxpool4 net),
        Inception_Block_forward (net_inception5a net),
        Inception_Block_forward (net_inception5b net),
        avg_pool2d (net_avgpool5 net)])"
  unfolding stages_4e_to_avgpool5_def
  by (intro implements_pipeline) (simp add: implements_call4)

subsection \<open>The other statements\<close>

lemma clone_ref_step:
  "get4 h r = Inr t \<Longrightarrow> clone_ref r (h, g) = Inr (length h, (h @ [Feature (clone t)], g))"
  by (simp add: clone_ref_def alloc_def)

lemma get4_less: "get4 h r = Inr t \<Longrightarrow> r < length h"
  by (auto simp: get4_def split: if_splits)

lemma call42_step:
  "get4 h r = Inr t \<Longrightarrow>
   call42 f r (h, g) =
     (case f t of Inl e \<Rightarrow> Inl e | Inr y \<Rightarrow> Inr (length h, (h @ [Matrix y], g)))"
  by (simp add: call42_def alloc_def split: sum.splits)

lemma call2_step:
  "get2 h r = Inr t \<Longrightarrow>
   call2 f r (h, g) =
     (case f t of Inl e \<Rightarrow> Inl e | Inr y \<Rightarrow> Inr (length h, (h @ [Matrix y], g)))"
  by (simp add: call2_def alloc_def split: sum.splits)

lemma call_aux_step:
  "get4 h r = Inr t \<Longrightarrow>
   call_aux A r (h, g) =
     (case Auxiliary_Classifier_forward A g t of
        Inl e \<Rightarrow> Inl e
      | Inr (s, g') \<Rightarrow> Inr (length h, (h @ [Matrix s], g')))"
  by (simp add: call_aux_def alloc_def split: sum.splits prod.splits)

lemma dropout_ref_step:
  assumes "get2 h r = Inr t" and "dropout D g t = (y, g')"
  shows "\<exists>r' h2. dropout_ref D r (h, g) = Inr (r', (h @ h2, g')) \<and> get2 (h @ h2) r' = Inr y"
proof (cases "drop_training D")
  case True
  then have "dropout_ref D r (h, g) = Inr (length h, (h @ [Matrix y], g'))"
    using assms by (simp add: dropout_ref_def alloc_def)
  then show ?thesis
    by (intro exI [of _ "length h"] exI [of _ "[Matrix y]"]) simp
next
  case False
  then have "dropout D g t = (t, g)"
    by (simp add: dropout_def)
  with assms have yg: "y = t" "g' = g"
    by simp_all
  from False have "dropout_ref D r (h, g) = Inr (r, (h @ [], g))"
    using assms by (simp add: dropout_ref_def)
  then show ?thesis
    using assms(1) unfolding yg by (intro exI [of _ r] exI [of _ "[]"]) simp
qed

lemma Auxiliary_Classifier_forward_channels:
  assumes "Auxiliary_Classifier_forward A g t = Inr res"
  shows "dimC t = in_channels (ac_conv2 A)"
proof -
  obtain p where p: "avg_pool2d (ac_avgpool1 A) t = Inr p"
    using assms by (cases "avg_pool2d (ac_avgpool1 A) t") (simp_all add: Auxiliary_Classifier_forward_def)
  obtain c where c: "conv2d (ac_conv2 A) p = Inr c"
    using assms p by (cases "conv2d (ac_conv2 A) p") (simp_all add: Auxiliary_Classifier_forward_def)
  from p have "dimC p = dimC t"
    by (auto simp: avg_pool2d_def split: if_splits)
  moreover from c have "dimC p = in_channels (ac_conv2 A)"
    by (auto simp: conv2d_def split: if_splits)
  ultimately show ?thesis
    by simp
qed

lemma forward_heads_Inr:
  assumes "forward_heads net g t0 t1 r = Inr ((s0, s1, s2), g')"
  shows "\<exists>f g1 g2. dropout (net_dropout5 net) g r = (f, g1)
     \<and> linear_forward (net_linear5 net) f = Inr s2
     \<and> Auxiliary_Classifier_forward (net_aux_classifier1 net) g1 t0 = Inr (s0, g2)
     \<and> Auxiliary_Classifier_forward (net_aux_classifier2 net) g2 t1 = Inr (s1, g')"
proof -
  obtain f g1 where d: "dropout (net_dropout5 net) g r = (f, g1)"
    by (cases "dropout (net_dropout5 net) g r")
  obtain u2 where l: "linear_forward (net_linear5 net) f = Inr u2"
    using assms d by (cases "linear_forward (net_linear5 net) f") (simp_all add: forward_heads_def)
  obtain u0 g2 where a0: "Auxiliary_Classifier_forward (net_aux_classifier1 net) g1 t0 = Inr (u0, g2)"
    using assms d l
    by (cases "Auxiliary_Classifier_forward (net_aux_classifier1 net) g1 t0")
      (auto simp add: forward_heads_def)
  obtain u1 g3 where a1: "Auxiliary_Classifier_forward (net_aux_classifier2 net) g2 t1 = Inr (u1, g3)"
    using assms d l a0
    by (cases "Auxiliary_Classifier_forward (net_aux_classifier2 net) g2 t1")
      (auto simp add: forward_heads_def)
  from assms d l a0 a1 have "u0 = s0" "u1 = s1" "u2 = s2" "g3 = g'"
    by (simp_all add: forward_heads_def)
  with d l a0 a1 show ?thesis
    by (intro exI [of _ f] exI [of _ g1] exI [of _ g2]) simp
qed

lemma forward_heads_ref_refines:
  assumes x: "get2 h x = Inr r" and a0: "get4 h aux0 = Inr t0" and a1: "get4 h aux1 = Inr t1"
  shows "case forward_heads net g t0 t1 r of
           Inl e \<Rightarrow> forward_heads_ref net aux0 aux1 x (h, g) = Inl e
         | Inr (scores, g') \<Rightarrow>
             (\<exists>r0 r1 r2 h2.
                forward_heads_ref net aux0 aux1 x (h, g) = Inr ((r0, r1, r2), (h @ h2, g'))
              \<and> get2 (h @ h2) r0 = Inr (fst scores)
              \<and> get2 (h @ h2) r1 = Inr (fst (snd scores))
              \<and> get2 (h @ h2) r2 = Inr (snd (snd scores)))"
proof -
  obtain f g1 where d: "dropout (net_dropout5 net) g r = (f, g1)"
    by (cases "dropout (net_dropout5 net) g r")
  obtain rf hf where st1: "dropout_ref (net_dropout5 net) x (h, g) = Inr (rf, (h @ hf, g1))"
      and rf0: "get2 (h @ hf) rf = Inr f"
    using dropout_ref_step [OF x d] by blast
  define h1 where "h1 = h @ hf"
  have st1: "dropout_ref (net_dropout5 net) x (h, g) = Inr (rf, (h1, g1))"
    and rf: "get2 h1 rf = Inr f"
    using st1 rf0 by (simp_all add: h1_def)
  have b0: "get4 h1 aux0 = Inr t0" and b1: "get4 h1 aux1 = Inr t1"
    using a0 a1 by (simp_all add: get4_extend h1_def)
  show ?thesis
  proof (cases "linear_forward (net_linear5 net) f")
    case (Inl e)
    then show ?thesis
      using d st1 by (simp add: forward_heads_def forward_heads_ref_def call2_step [OF rf])
  next
    case s2: (Inr s2)
    define h2 where "h2 = h1 @ [Matrix s2]"
    have st2: "call2 (linear_forward (net_linear5 net)) rf (h1, g1) = Inr (length h1, (h2, g1))"
      using s2 by (simp add: call2_step [OF rf] h2_def)
    have c0: "get4 h2 aux0 = Inr t0" and c1: "get4 h2 aux1 = Inr t1"
      unfolding h2_def by (rule get4_extend [OF b0], rule get4_extend [OF b1])
    show ?thesis
    proof (cases "Auxiliary_Classifier_forward (net_aux_classifier1 net) g1 t0")
      case (Inl e)
      then show ?thesis
        using d st1 s2 st2
        by (simp add: forward_heads_def forward_heads_ref_def call_aux_step [OF c0])
    next
      case (Inr p0)
      obtain s0 g2 where s0: "Auxiliary_Classifier_forward (net_aux_classifier1 net) g1 t0 = Inr (s0, g2)"
        using Inr by (cases p0) simp
      define h3 where "h3 = h2 @ [Matrix s0]"
      have st3: "call_aux (net_aux_classifier1 net) aux0 (h2, g1) = Inr (length h2, (h3, g2))"
        using s0 by (simp add: call_aux_step [OF c0] h3_def)
      have e1: "get4 h3 aux1 = Inr t1"
        unfolding h3_def using c1 by (rule get4_extend)
      show ?thesis
      proof (cases "Auxiliary_Classifier_forward (net_aux_classifier2 net) g2 t1")
        case (Inl e)
        then show ?thesis
          using d st1 s2 st2 s0 st3
          by (simp add: forward_heads_def forward_heads_ref_def call_aux_step [OF e1])
      next
        case (Inr p1)
        obtain s1 g3 where s1: "Auxiliary_Classifier_forward (net_aux_classifier2 net) g2 t1 = Inr (s1, g3)"
          using Inr by (cases p1) simp
        define h4 where "h4 = h3 @ [Matrix s1]"
        have st4: "call_aux (net_aux_classifier2 net) aux1 (h3, g2) = Inr (length h3, (h4, g3))"
          using s1 by (simp add: call_aux_step [OF e1] h4_def)
        have pure: "forward_heads net g t0 t1 r = Inr ((s0, s1, s2), g3)"
          using d s2 s0 s1 by (simp add: forward_heads_def)
        have run: "forward_heads_ref net aux0 aux1 x (h, g) = Inr ((length h2, length h3, length h1), (h4, g3))"
          using st1 st2 st3 st4 by (simp add: forward_heads_ref_def)
        have h4: "h4 = h @ (hf @ [Matrix s2, Matrix s0, Matrix s1])"
          by (simp add: h4_def h3_def h2_def h1_def)
        have "get2 h4 (length h2) = Inr s0" "get2 h4 (length h3) = Inr s1" "get2 h4 (length h1) = Inr s2"
          by (simp_all add: get2_def nth_append h4_def h3_def h2_def)
        with run show ?thesis
          unfolding pure h4 by (simp del: append_assoc)
      qed
    qed
  qed
qed

subsection \<open>The forward pass on objects\<close>

lemma Inception_Net_forward_ref_refines:
  assumes x: "get4 h xr = Inr x"
  shows "case Inception_Net_forward net g x of
           Inl e \<Rightarrow> Inception_Net_forward_ref net xr (h, g) = Inl e
         | Inr (scores, g') \<Rightarrow>
             (\<exists>a d r ra ha rd hd h3 r0 r1 r2.
                forward_to_4a net x = Inr a \<and> forward_4b_to_4d net a = Inr d
              \<and> forward_4e_to_flat net d = Inr r
              \<and> forward_heads net g (clone a) (clone d) r = Inr (scores, g')
              \<and> pipeline (stages_to_4a net) xr (h, g) = Inr (ra, (ha, g))
              \<and> prefix h ha \<and> get4 ha ra = Inr a
              \<and> pipeline (stages_4b_to_4d net) ra (ha @ [Feature (clone a)], g) = Inr (rd, (hd, g))
              \<and> prefix (ha @ [Feature (clone a)]) hd \<and> get4 hd rd = Inr d
              \<and> Inception_Net_forward_ref net xr (h, g) =
                  Inr ((r0, r1, r2), ((hd @ [Feature (clone d)]) @ h3, g'))
              \<and> get2 ((hd @ [Feature (clone d)]) @ h3) r0 = Inr (fst scores)
              \<and> get2 ((hd @ [Feature (clone d)]) @ h3) r1 = Inr (fst (snd scores))
              \<and> get2 ((hd @ [Feature (clone d)]) @ h3) r2 = Inr (snd (snd scores)))"
proof (cases "forward_to_4a net x")
  case (Inl e)
  have "pipeline (stages_to_4a net) xr (h, g) = Inl e"
    using implements_Inl [OF implements_to_4a x Inl] .
  then show ?thesis
    using Inl by (simp add: forward_decomp Inception_Net_forward_ref_def)
next
  case a: (Inr a)
  obtain ra h1 where st1: "pipeline (stages_to_4a net) xr (h, g) = Inr (ra, (h @ h1, g))"
      and ra0: "get4 (h @ h1) ra = Inr a"
    using implements_Inr [OF implements_to_4a x a] by blast
  define ha where "ha = h @ h1"
  define hA where "hA = ha @ [Feature (clone a)]"
  have st1: "pipeline (stages_to_4a net) xr (h, g) = Inr (ra, (ha, g))"
    and ra: "get4 ha ra = Inr a" and pa: "prefix h ha"
    using st1 ra0 by (simp_all add: ha_def)
  have cl1: "clone_ref ra (ha, g) = Inr (length ha, (hA, g))"
    unfolding hA_def using ra by (rule clone_ref_step)
  have ra': "get4 hA ra = Inr a"
    unfolding hA_def using ra by (rule get4_extend)
  have aux0: "get4 hA (length ha) = Inr (clone a)"
    by (simp add: hA_def)
  show ?thesis
  proof (cases "forward_4b_to_4d net a")
    case (Inl e)
    have "pipeline (stages_4b_to_4d net) ra (hA, g) = Inl e"
      using implements_Inl [OF implements_4b_to_4d ra' Inl] .
    then show ?thesis
      using a Inl st1 cl1 by (simp add: forward_decomp Inception_Net_forward_ref_def)
  next
    case d: (Inr d)
    obtain rd h2 where st2: "pipeline (stages_4b_to_4d net) ra (hA, g) = Inr (rd, (hA @ h2, g))"
        and rd0: "get4 (hA @ h2) rd = Inr d"
      using implements_Inr [OF implements_4b_to_4d ra' d] by blast
    define hd where "hd = hA @ h2"
    define hD where "hD = hd @ [Feature (clone d)]"
    have st2: "pipeline (stages_4b_to_4d net) ra (hA, g) = Inr (rd, (hd, g))"
      and rd: "get4 hd rd = Inr d" and pd: "prefix hA hd"
      using st2 rd0 by (simp_all add: hd_def)
    have cl2: "clone_ref rd (hd, g) = Inr (length hd, (hD, g))"
      unfolding hD_def using rd by (rule clone_ref_step)
    have rd': "get4 hD rd = Inr d"
      unfolding hD_def using rd by (rule get4_extend)
    have aux1: "get4 hD (length hd) = Inr (clone d)"
      by (simp add: hD_def)
    have aux0': "get4 hD (length ha) = Inr (clone a)"
      unfolding hD_def hd_def by (intro get4_extend aux0)
    let ?tail = "pure_pipeline
       [Inception_Block_forward (net_inception4e net),
        max_pool2d (net_maxpool4 net),
        Inception_Block_forward (net_inception5a net),
        Inception_Block_forward (net_inception5b net),
        avg_pool2d (net_avgpool5 net)]"
    show ?thesis
    proof (cases "?tail d")
      case (Inl e)
      have "pipeline (stages_4e_to_avgpool5 net) rd (hD, g) = Inl e"
        using implements_Inl [OF implements_4e_to_avgpool5 rd' Inl] .
      moreover have "forward_4e_to_flat net d = Inl e"
        using Inl by (simp add: forward_4e_to_flat_pipeline)
      ultimately show ?thesis
        using a d st1 cl1 st2 cl2 by (simp add: forward_decomp Inception_Net_forward_ref_def)
    next
      case p: (Inr p)
      obtain rp h3 where st3: "pipeline (stages_4e_to_avgpool5 net) rd (hD, g) = Inr (rp, (hD @ h3, g))"
          and rp0: "get4 (hD @ h3) rp = Inr p"
        using implements_Inr [OF implements_4e_to_avgpool5 rd' p] by blast
      define hp where "hp = hD @ h3"
      have st3: "pipeline (stages_4e_to_avgpool5 net) rd (hD, g) = Inr (rp, (hp, g))"
        and rp: "get4 hp rp = Inr p"
        using st3 rp0 by (simp_all add: hp_def)
      have flat: "forward_4e_to_flat net d = reshape_rows p"
        using p by (simp add: forward_4e_to_flat_pipeline)
      show ?thesis
      proof (cases "reshape_rows p")
        case (Inl e)
        then have "call42 reshape_rows rp (hp, g) = Inl e"
          by (simp add: call42_step [OF rp])
        then show ?thesis
          using a d flat Inl st1 cl1 st2 cl2 st3
          by (simp add: forward_decomp Inception_Net_forward_ref_def)
      next
        case r: (Inr r)
        define hr where "hr = hp @ [Matrix r]"
        have st4: "call42 reshape_rows rp (hp, g) = Inr (length hp, (hr, g))"
          using r by (simp add: call42_step [OF rp] hr_def)
        have rr: "get2 hr (length hp) = Inr r"
          by (simp add: hr_def)
        have hr: "hr = hD @ (h3 @ [Matrix r])"
          by (simp add: hr_def hp_def)
        have t0: "get4 hr (length ha) = Inr (clone a)" and t1: "get4 hr (length hd) = Inr (clone d)"
          unfolding hr by (rule get4_extend [OF aux0'], rule get4_extend [OF aux1])
        have run: "Inception_Net_forward_ref net xr (h, g) =
            forward_heads_ref net (length ha) (length hd) (length hp) (hr, g)"
          using st1 cl1 st2 cl2 st3 st4 by (simp add: Inception_Net_forward_ref_def)
        have pure: "Inception_Net_forward net g x = forward_heads net g (clone a) (clone d) r"
          using a d flat r by (simp add: forward_decomp)
        note heads = forward_heads_ref_refines [OF rr t0 t1, of net g]
        show ?thesis
        proof (cases "forward_heads net g (clone a) (clone d) r")
          case (Inl e)
          then show ?thesis
            using heads by (simp add: run pure)
        next
          case (Inr res)
          obtain scores g' where res: "res = (scores, g')"
            by (cases res)
          from heads obtain r0 r1 r2 h4 where
            fin: "forward_heads_ref net (length ha) (length hd) (length hp) (hr, g) =
                Inr ((r0, r1, r2), (hr @ h4, g'))"
            and sc: "get2 (hr @ h4) r0 = Inr (fst scores)" "get2 (hr @ h4) r1 = Inr (fst (snd scores))"
              "get2 (hr @ h4) r2 = Inr (snd (snd scores))"
            unfolding Inr res by auto
          have hh: "hr @ h4 = (hd @ [Feature (clone d)]) @ (h3 @ [Matrix r] @ h4)"
            by (simp add: hr hD_def)
          have "\<exists>a d r ra ha rd hd h3 r0 r1 r2.
                forward_to_4a net x = Inr a \<and> forward_4b_to_4d net a = Inr d
              \<and> forward_4e_to_flat net d = Inr r
              \<and> forward_heads net g (clone a) (clone d) r = Inr (scores, g')
              \<and> pipeline (stages_to_4a net) xr (h, g) = Inr (ra, (ha, g))
              \<and> prefix h ha \<and> get4 ha ra = Inr a
              \<and> pipeline (stages_4b_to_4d net) ra (ha @ [Feature (clone a)], g) = Inr (rd, (hd, g))
              \<and> prefix (ha @ [Feature (clone a)]) hd \<and> get4 hd rd = Inr d
              \<and> Inception_Net_forward_ref net xr (h, g) =
                  Inr ((r0, r1, r2), ((hd @ [Feature (clone d)]) @ h3, g'))
              \<and> get2 ((hd @ [Feature (clone d)]) @ h3) r0 = Inr (fst scores)
              \<and> get2 ((hd @ [Feature (clone d)]) @ h3) r1 = Inr (fst (snd scores))
              \<and> get2 ((hd @ [Feature (clone d)]) @ h3) r2 = Inr (snd (snd scores))"
            apply (rule exI [of _ a], rule exI [of _ d], rule exI [of _ r], rule exI [of _ ra],
                rule exI [of _ ha], rule exI [of _ rd], rule exI [of _ hd],
                rule exI [of _ "h3 @ [Matrix r] @ h4"],
                rule exI [of _ r0], rule exI [of _ r1], rule exI [of _ r2])
            unfolding hh [symmetric] hA_def [symmetric]
            using a d flat r Inr res st1 pa ra st2 pd rd run fin sc
            by simp
          then show ?thesis
            unfolding pure Inr res by simp
        qed
      qed
    qed
  qed
qed

lemma Inception_Net_forward_ref_returns:
  assumes "get4 h xr = Inr x" and "Inception_Net_forward net g x = Inr (scores, g')"
  shows "\<exists>r0 r1 r2 h'. Inception_Net_forward_ref net xr (h, g) = Inr ((r0, r1, r2), (h', g'))"
  using Inception_Net_forward_ref_refines [OF assms(1), of net g] unfolding assms(2)
  by simp blast

lemma clone_ident: "clone x = x"
  by (simp add: clone_def)

lemma get4_prefix: "get4 h r = Inr t \<Longrightarrow> prefix h h' \<Longrightarrow> get4 h' r = Inr t"
  by (auto simp: prefix_def get4_extend)

text \<open>
  Claim C2, as the code has it. For every tuple of positive channel counts and every
  input of shape (N, in_channels, H, W) with H and W at least 1, the forward operation
  of the block returns a tensor of shape (N, out1 + out2 + out3 + out4, H, W); for
  the parameters of block 3a and an input of shape (64, 192, 32, 32) this is
  (64, 256, 32, 32), the shape the notebook prints. The batch may be empty.
\<close>

theorem Inception_Block_forward_shape:
  assumes "0 < in_ch" "0 < out1" "0 < red2" "0 < out2" "0 < red3" "0 < out3" "0 < out4"
    and "shape4 x = (N, in_ch, H, W)" "0 < H" "0 < W"
  shows "\<exists>y. Inception_Block_forward
            (Inception_Block_init sd (in_ch, out1, red2, out2, red3, out3, out4)) x = Inr y
     \<and> shape4 y = (N, out1 + out2 + out3 + out4, H, W)"
proof -
  have x: "dimC x = in_ch" "0 < dimH x" "0 < dimW x" "dimN x = N" "dimH x = H" "dimW x = W"
    using assms by (simp_all add: shape4_def)
  from Inception_Block_forward_ok [OF assms(1-7) x(1-3), of sd] x(4-6)
  show ?thesis
    by (auto simp: shape4_def)
qed

theorem Inception_Block_forward_shape_witness:
  "\<exists>y. Inception_Block_forward
          (Inception_Block_init (const_dict 0) (192, 64, 96, 128, 16, 32, 32))
          (zeros 64 192 32 32) = Inr y
     \<and> shape4 y = (64, 256, 32, 32)"
  using Inception_Block_forward_shape
    [of 192 64 96 128 16 32 32 "zeros 64 192 32 32" 64 32 32 "const_dict 0"]
  by (simp add: zeros_def shape4_def)

text \<open>
  Claim C2, as the specification states it, fails for an input without rows: the
  first convolution of the block rejects a plane of height 0, since its kernel does
  not fit.
\<close>

theorem Inception_Block_forward_empty_plane:
  "Inception_Block_forward
     (Inception_Block_init (const_dict 0) (192, 64, 96, 128, 16, 32, 32))
     (zeros 64 192 0 32) = Inl KernelTooLarge"
  by (simp add: Inception_Block_forward_def conv2d_def zeros_def)

text \<open>
  Claim C3. Whenever the forward operation of the block returns, the four branches
  of the specification have each returned on the same input: the 1x1 convolution with
  rectification; the 1x1 reduction, rectification, 3x3 convolution with padding 1 and
  rectification; the 1x1 reduction, rectification, 5x5 convolution with padding 2
  and rectification; the 3x3 max-pool with stride 1 and padding 1, 1x1 convolution
  and rectification. The result has out1 + out2 + out3 + out4 channels: the first
  out1 are those of branch 1, the next out2 those of branch 2, the next out3 those of
  branch 3 and the last out4 those of branch 4.
\<close>

theorem Inception_Block_forward_branches:
  assumes "Inception_Block_forward
             (Inception_Block_init sd (in_ch, out1, red2, out2, red3, out3, out4)) x = Inr y"
  shows "\<exists>a b c d. spec_branch1 sd (in_ch, out1, red2, out2, red3, out3, out4) x = Inr a
     \<and> spec_branch2 sd (in_ch, out1, red2, out2, red3, out3, out4) x = Inr b
     \<and> spec_branch3 sd (in_ch, out1, red2, out2, red3, out3, out4) x = Inr c
     \<and> spec_branch4 sd (in_ch, out1, red2, out2, red3, out3, out4) x = Inr d
     \<and> dimC a = out1 \<and> dimC b = out2 \<and> dimC c = out3 \<and> dimC d = out4
     \<and> dimC y = out1 + out2 + out3 + out4
     \<and> (\<forall>n k i j. k < out1 \<longrightarrow> elem4 y n k i j = elem4 a n k i j)
     \<and> (\<forall>n k i j. k < out2 \<longrightarrow> elem4 y n (out1 + k) i j = elem4 b n k i j)
     \<and> (\<forall>n k i j. k < out3 \<longrightarrow> elem4 y n (out1 + out2 + k) i j = elem4 c n k i j)
     \<and> (\<forall>n k i j. k < out4 \<longrightarrow> elem4 y n (out1 + out2 + out3 + k) i j = elem4 d n k i j)"
proof -
  from Inception_Block_forward_Inr_cat [OF assms]
  obtain a b c d where br:
    "spec_branch1 sd (in_ch, out1, red2, out2, red3, out3, out4) x = Inr a"
    "spec_branch2 sd (in_ch, out1, red2, out2, red3, out3, out4) x = Inr b"
    "spec_branch3 sd (in_ch, out1, red2, out2, red3, out3, out4) x = Inr c"
    "spec_branch4 sd (in_ch, out1, red2, out2, red3, out3, out4) x = Inr d"
    and ch: "dimC a = out1" "dimC b = out2" "dimC c = out3" "dimC d = out4"
    and y: "y = cat_pair (cat_pair (cat_pair a b) c) d"
    by blast
  have "dimC y = out1 + out2 + out3 + out4"
    using y ch by simp
  moreover have "\<forall>n k i j. k < out1 \<longrightarrow> elem4 y n k i j = elem4 a n k i j"
    using cat_pair_layout(1) [of _ a b c d] y ch by simp
  moreover have "\<forall>n k i j. k < out2 \<longrightarrow> elem4 y n (out1 + k) i j = elem4 b n k i j"
    using cat_pair_layout(2) [of _ b a c d] y ch by simp
  moreover have "\<forall>n k i j. k < out3 \<longrightarrow> elem4 y n (out1 + out2 + k) i j = elem4 c n k i j"
    using cat_pair_layout(3) [of _ c a b d] y ch by simp
  moreover have "\<forall>n k i j. k < out4 \<longrightarrow> elem4 y n (out1 + out2 + out3 + k) i j = elem4 d n k i j"
    using cat_pair_layout(4) [of a b c d] y ch by simp
  ultimately show ?thesis
    using br ch by blast
qed

theorem Inception_Block_forward_branches_witness:
  "\<exists>y a b c d.
     Inception_Block_forward
       (Inception_Block_init (const_dict 0) (192, 64, 96, 128, 16, 32, 32))
       (zeros 64 192 32 32) = Inr y
     \<and> spec_branch1 (const_dict 0) (192, 64, 96, 128, 16, 32, 32) (zeros 64 192 32 32) = Inr a
     \<and> spec_branch2 (const_dict 0) (192, 64, 96, 128, 16, 32, 32) (zeros 64 192 32 32) = Inr b
     \<and> spec_branch3 (const_dict 0) (192, 64, 96, 128, 16, 32, 32) (zeros 64 192 32 32) = Inr c
     \<and> spec_branch4 (const_dict 0) (192, 64, 96, 128, 16, 32, 32) (zeros 64 192 32 32) = Inr d
     \<and> dimC y = 256
     \<and> elem4 y 0 0 0 0 = elem4 a 0 0 0 0
     \<and> elem4 y 0 64 0 0 = elem4 b 0 0 0 0
     \<and> elem4 y 0 192 0 0 = elem4 c 0 0 0 0
     \<and> elem4 y 0 224 0 0 = elem4 d 0 0 0 0"
proof -
  let ?ps = "(192, 64, 96, 128, 16, 32, 32) :: block_params"
  let ?x = "zeros 64 192 32 32"
  obtain y where y: "Inception_Block_forward (Inception_Block_init (const_dict 0) ?ps) ?x = Inr y"
    using Inception_Block_forward_ok [of 192 64 96 128 16 32 32 ?x "const_dict 0"]
    by (auto simp: zeros_def)
  from Inception_Block_forward_branches [OF y]
  obtain a b c d where br:
    "spec_branch1 (const_dict 0) ?ps ?x = Inr a" "spec_branch2 (const_dict 0) ?ps ?x = Inr b"
    "spec_branch3 (const_dict 0) ?ps ?x = Inr c" "spec_branch4 (const_dict 0) ?ps ?x = Inr d"
    "dimC y = 64 + 128 + 32 + 32"
    and l1: "\<forall>n k i j. k < 64 \<longrightarrow> elem4 y n k i j = elem4 a n k i j"
    and l2: "\<forall>n k i j. k < 128 \<longrightarrow> elem4 y n (64 + k) i j = elem4 b n k i j"
    and l3: "\<forall>n k i j. k < 32 \<longrightarrow> elem4 y n (64 + 128 + k) i j = elem4 c n k i j"
    and l4: "\<forall>n k i j. k < 32 \<longrightarrow> elem4 y n (64 + 128 + 32 + k) i j = elem4 d n k i j"
    by blast
  have "elem4 y 0 0 0 0 = elem4 a 0 0 0 0"
    using l1 by simp
  moreover have "elem4 y 0 64 0 0 = elem4 b 0 0 0 0"
    using l2 [rule_format, of 0 0 0 0] by simp
  moreover have "elem4 y 0 192 0 0 = elem4 c 0 0 0 0"
    using l3 [rule_format, of 0 0 0 0] by simp
  moreover have "elem4 y 0 224 0 0 = elem4 d 0 0 0 0"
    using l4 [rule_format, of 0 0 0 0] by simp
  ultimately show ?thesis
    using y br by auto
qed

text \<open>
  Claim C1, as the code has it. For every number of classes and every batch of at
  least one image, in training and in inference mode, the forward operation of the
  network on an input of shape (N, 3, 224, 224) returns the triple
  \<open>(scores0, scores1, scores2)\<close>: \<open>scores0\<close> is the output of the first auxiliary
  classifier on a copy of the activation after block 4a, \<open>scores1\<close> that of the
  second auxiliary classifier on a copy of the activation after block 4d, and
  \<open>scores2\<close> that of the final linear layer on the flattened features after
  dropout; each has shape (N, num_classes).
\<close>

theorem Inception_Net_forward_scores:
  assumes "Inception_Net_init sd num_classes = Inr net0"
    and "net = Inception_Net_train mode net0"
    and "shape4 x = (N, 3, 224, 224)" and "0 < N"
  shows "\<exists>a d r f g1 scores0 g2 scores1 g3 scores2.
       activation_4a net x = Inr a \<and> activation_4d net x = Inr d \<and> flat_features net x = Inr r
     \<and> dropout (net_dropout5 net) g r = (f, g1)
     \<and> linear_forward (net_linear5 net) f = Inr scores2
     \<and> Auxiliary_Classifier_forward (net_aux_classifier1 net) g1 (clone a) = Inr (scores0, g2)
     \<and> Auxiliary_Classifier_forward (net_aux_classifier2 net) g2 (clone d) = Inr (scores1, g3)
     \<and> Inception_Net_forward net g x = Inr ((scores0, scores1, scores2), g3)
     \<and> shape2 scores0 = (N, num_classes) \<and> shape2 scores1 = (N, num_classes)
     \<and> shape2 scores2 = (N, num_classes)"
proof -
  have x: "dimC x = 3" "0 < dimN x" "0 < dimH x" "0 < dimW x" "dimN x = N"
    and taps: "tap_extent (dimH x) = 14" "tap_extent (dimW x) = 14"
    using assms(3,4) by (simp_all add: shape4_def tap_extent_eq_14)
  from forward_ok [OF assms(1,2) x(1-4) taps, of g]
  obtain xs p r f g1 s0 g2 s1 g3 s2 where
    xs: "forward_states net x xs"
    and pr: "avg_pool2d (net_avgpool5 net) (xs ! 15) = Inr p" "reshape_rows p = Inr r"
    and heads: "dropout (net_dropout5 net) g r = (f, g1)"
      "linear_forward (net_linear5 net) f = Inr s2"
      "Auxiliary_Classifier_forward (net_aux_classifier1 net) g1 (clone (xs ! 8)) = Inr (s0, g2)"
      "Auxiliary_Classifier_forward (net_aux_classifier2 net) g2 (clone (xs ! 11)) = Inr (s1, g3)"
    and sh: "shape2 s0 = (dimN x, num_classes)" "shape2 s1 = (dimN x, num_classes)"
      "shape2 s2 = (dimN x, num_classes)"
    and fwd: "Inception_Net_forward net g x = Inr ((s0, s1, s2), g3)"
    by blast
  have "flat_features net x = Inr r"
    by (simp add: activations_from_states(3) [OF xs] pr)
  with activations_from_states(1,2) [OF xs] heads sh fwd x(5)
  show ?thesis
    by auto
qed

theorem Inception_Net_forward_scores_witness:
  "\<exists>net scores0 scores1 scores2 g'.
       Inception_Net_init (const_dict 0) 1000 = Inr net
     \<and> Inception_Net_forward net (const_rng 0) (zeros 64 3 224 224) = Inr ((scores0, scores1, scores2), g')
     \<and> shape2 scores0 = (64, 1000) \<and> shape2 scores1 = (64, 1000) \<and> shape2 scores2 = (64, 1000)"
proof -
  obtain net where net: "Inception_Net_init (const_dict 0) 1000 = Inr net"
    using Inception_Net_init_total by blast
  have shape: "shape4 (zeros 64 3 224 224) = (64, 3, 224, 224)"
    by (simp add: zeros_def shape4_def)
  from Inception_Net_forward_scores
    [OF net Inception_Net_train_True [OF net, symmetric] shape, of "const_rng 0"]
  show ?thesis
    using net by auto
qed

text \<open>
  Claim C1, as the specification states it, fails for the empty batch: the trunk
  accepts an input of shape (0, 3, 224, 224), and the flattening before the final
  classifier raises, since the width of a row of a tensor without entries cannot be
  inferred.
\<close>

theorem Inception_Net_forward_empty_batch:
  "check_output_shape (const_dict 0) 1000 (const_rng 0) (zeros 0 3 224 224) = Inl AmbiguousReshape"
proof -
  obtain net where net: "Inception_Net_init (const_dict 0) 1000 = Inr net"
    using Inception_Net_init_total by blast
  have "Inception_Net_forward net (const_rng 0) (zeros 0 3 224 224) = Inl AmbiguousReshape"
    by (rule forward_empty_batch [OF net Inception_Net_train_True [OF net, symmetric]])
      (simp_all add: zeros_def final_extent_ge_7)
  with net show ?thesis
    by (rule check_output_shape_Inl)
qed

text \<open>
  Claim C10, as the code has it. On an input of shape (N, 3, 224, 224) with at least
  one image the plane is 112 x 112 after the stem convolution, 56 x 56 after
  \<open>maxpool1\<close>, 28 x 28 after \<open>maxpool2\<close>, 14 x 14 after \<open>maxpool3\<close> and at
  the taps after blocks 4a and 4d, 7 x 7 after \<open>maxpool4\<close> and 1 x 1 after the last
  average pool; the flattened row has 1024 entries; the average pool of each auxiliary
  classifier reduces its tap to 4 x 4; and the forward pass returns, so that no
  linear layer rejects its input. Other spatial sizes are not all rejected: on an
  input with three channels and at least one image the forward pass returns exactly
  when the height and the width both lie between 209 and 224. When both are at least
  193 and one of them exceeds 224, the flattened row is wider than 1024 and the final
  linear layer raises.
\<close>

theorem Inception_Net_forward_extents:
  assumes "Inception_Net_init sd num_classes = Inr net0"
    and "net = Inception_Net_train mode net0"
    and "dimC x = 3" and "0 < dimN x"
  shows "(dimH x = 224 \<and> dimW x = 224 \<longrightarrow>
          (\<exists>xs p r q0 q1. forward_states net x xs
             \<and> map shape4 xs =
                 [(dimN x, 64, 112, 112), (dimN x, 64, 56, 56), (dimN x, 64, 56, 56),
                  (dimN x, 192, 56, 56), (dimN x, 192, 28, 28), (dimN x, 256, 28, 28),
                  (dimN x, 480, 28, 28), (dimN x, 480, 14, 14), (dimN x, 512, 14, 14),
                  (dimN x, 512, 14, 14), (dimN x, 512, 14, 14), (dimN x, 528, 14, 14),
                  (dimN x, 832, 14, 14), (dimN x, 832, 7, 7), (dimN x, 832, 7, 7),
                  (dimN x, 1024, 7, 7)]
             \<and> avg_pool2d (net_avgpool5 net) (xs ! 15) = Inr p \<and> shape4 p = (dimN x, 1024, 1, 1)
             \<and> reshape_rows p = Inr r \<and> shape2 r = (dimN x, 1024)
             \<and> avg_pool2d (ac_avgpool1 (net_aux_classifier1 net)) (clone (xs ! 8)) = Inr q0
             \<and> shape4 q0 = (dimN x, 512, 4, 4)
             \<and> avg_pool2d (ac_avgpool1 (net_aux_classifier2 net)) (clone (xs ! 11)) = Inr q1
             \<and> shape4 q1 = (dimN x, 528, 4, 4)))
     \<and> ((\<exists>res. Inception_Net_forward net g x = Inr res)
          \<longleftrightarrow> 209 \<le> dimH x \<and> dimH x \<le> 224 \<and> 209 \<le> dimW x \<and> dimW x \<le> 224)
     \<and> (193 \<le> dimH x \<and> 193 \<le> dimW x \<and> (224 < dimH x \<or> 224 < dimW x) \<longrightarrow>
          Inception_Net_forward net g x =
            Inl (MatMulMismatch
                  (1024 * (final_extent (dimH x) - 6) * (final_extent (dimW x) - 6)) 1024))"
proof (intro conjI impI)
  assume "dimH x = 224 \<and> dimW x = 224"
  then have hw: "dimH x = 224" "dimW x = 224"
    by simp_all
  from forward_trace_224 [OF assms hw]
  show "\<exists>xs p r q0 q1. forward_states net x xs
             \<and> map shape4 xs =
                 [(dimN x, 64, 112, 112), (dimN x, 64, 56, 56), (dimN x, 64, 56, 56),
                  (dimN x, 192, 56, 56), (dimN x, 192, 28, 28), (dimN x, 256, 28, 28),
                  (dimN x, 480, 28, 28), (dimN x, 480, 14, 14), (dimN x, 512, 14, 14),
                  (dimN x, 512, 14, 14), (dimN x, 512, 14, 14), (dimN x, 528, 14, 14),
                  (dimN x, 832, 14, 14), (dimN x, 832, 7, 7), (dimN x, 832, 7, 7),
                  (dimN x, 1024, 7, 7)]
             \<and> avg_pool2d (net_avgpool5 net) (xs ! 15) = Inr p \<and> shape4 p = (dimN x, 1024, 1, 1)
             \<and> reshape_rows p = Inr r \<and> shape2 r = (dimN x, 1024)
             \<and> avg_pool2d (ac_avgpool1 (net_aux_classifier1 net)) (clone (xs ! 8)) = Inr q0
             \<and> shape4 q0 = (dimN x, 512, 4, 4)
             \<and> avg_pool2d (ac_avgpool1 (net_aux_classifier2 net)) (clone (xs ! 11)) = Inr q1
             \<and> shape4 q1 = (dimN x, 528, 4, 4)"
    by (simp only: trunk_shapes_224)
next
  show "(\<exists>res. Inception_Net_forward net g x = Inr res)
          \<longleftrightarrow> 209 \<le> dimH x \<and> dimH x \<le> 224 \<and> 209 \<le> dimW x \<and> dimW x \<le> 224"
    using forward_returns_iff [OF assms, of g] by (simp add: tap_extent_eq_14)
next
  assume a: "193 \<le> dimH x \<and> 193 \<le> dimW x \<and> (224 < dimH x \<or> 224 < dimW x)"
  then have pos: "0 < dimH x" "0 < dimW x"
    and big: "7 \<le> final_extent (dimH x)" "7 \<le> final_extent (dimW x)"
    by (simp_all add: final_extent_ge_7)
  have "\<not> final_extent (dimH x) \<le> 7 \<or> \<not> final_extent (dimW x) \<le> 7"
    using a by (auto simp: final_extent_le_7)
  then have "final_extent (dimH x) \<noteq> 7 \<or> final_extent (dimW x) \<noteq> 7"
    by auto
  from forward_flat_mismatch [OF assms(1,2,3) pos assms(4) big this]
  show "Inception_Net_forward net g x =
            Inl (MatMulMismatch
                  (1024 * (final_extent (dimH x) - 6) * (final_extent (dimW x) - 6)) 1024)" .
qed

theorem Inception_Net_forward_extents_witness:
  "\<exists>net xs res.
       Inception_Net_init (const_dict 0) 1000 = Inr net
     \<and> forward_states net (zeros 64 3 224 224) xs
     \<and> map (\<lambda>t. (dimH t, dimW t)) xs =
         [(112, 112), (56, 56), (56, 56), (56, 56), (28, 28), (28, 28), (28, 28), (14, 14),
          (14, 14), (14, 14), (14, 14), (14, 14), (14, 14), (7, 7), (7, 7), (7, 7)]
     \<and> Inception_Net_forward net (const_rng 0) (zeros 64 3 224 224) = Inr res
     \<and> Inception_Net_forward net (const_rng 0) (zeros 64 3 256 256) = Inl (MatMulMismatch 4096 1024)"
proof -
  obtain net where net: "Inception_Net_init (const_dict 0) 1000 = Inr net"
    using Inception_Net_init_total by blast
  note mode = Inception_Net_train_True [OF net, symmetric]
  have z: "dimC (zeros 64 3 224 224) = 3" "0 < dimN (zeros 64 3 224 224)"
      "dimC (zeros 64 3 256 256) = 3" "0 < dimN (zeros 64 3 256 256)"
    by (simp_all add: zeros_def)
  from Inception_Net_forward_extents [OF net mode z(1,2), of "const_rng 0"]
  obtain xs res where xs: "forward_states net (zeros 64 3 224 224) xs"
    and m: "map shape4 xs =
         [(64, 64, 112, 112), (64, 64, 56, 56), (64, 64, 56, 56),
          (64, 192, 56, 56), (64, 192, 28, 28), (64, 256, 28, 28),
          (64, 480, 28, 28), (64, 480, 14, 14), (64, 512, 14, 14),
          (64, 512, 14, 14), (64, 512, 14, 14), (64, 528, 14, 14),
          (64, 832, 14, 14), (64, 832, 7, 7), (64, 832, 7, 7), (64, 1024, 7, 7)]"
    and res: "Inception_Net_forward net (const_rng 0) (zeros 64 3 224 224) = Inr res"
    by (auto simp: zeros_def)
  have "map (\<lambda>t. (dimH t, dimW t)) xs = map ((\<lambda>(n, c, h, w). (h, w)) \<circ> shape4) xs"
    by (simp add: shape4_def)
  also have "\<dots> = map (\<lambda>(n, c, h, w). (h, w)) (map shape4 xs)"
    by simp
  finally have hw: "map (\<lambda>t. (dimH t, dimW t)) xs =
         [(112, 112), (56, 56), (56, 56), (56, 56), (28, 28), (28, 28), (28, 28), (14, 14),
          (14, 14), (14, 14), (14, 14), (14, 14), (14, 14), (7, 7), (7, 7), (7, 7)]"
    by (simp add: m)
  have fe: "final_extent 256 = 8"
    by (simp add: final_extent_def tap_extent_def half_up_def)
  from Inception_Net_forward_extents [OF net mode z(3,4), of "const_rng 0"]
  have "Inception_Net_forward net (const_rng 0) (zeros 64 3 256 256) = Inl (MatMulMismatch 4096 1024)"
    by (simp add: zeros_def fe)
  with net xs hw res show ?thesis
    by (intro exI conjI)
qed

text \<open>
  Claim C10, as the specification states it, fails for an input of another spatial
  size that the stride-2 layers reduce to the same extents: on 64 images of
  210 x 210 the forward pass returns three scores of shape (64, 1000).
\<close>

theorem Inception_Net_forward_accepts_210:
  "check_output_shape (const_dict 0) 1000 (const_rng 0) (zeros 64 3 210 210)
     = Inr [(64, 1000), (64, 1000), (64, 1000)]"
proof -
  obtain net where net: "Inception_Net_init (const_dict 0) 1000 = Inr net"
    using Inception_Net_init_total by blast
  have "tap_extent 210 = 14"
    by (simp add: tap_extent_eq_14)
  with forward_ok [OF net Inception_Net_train_True [OF net, symmetric], of "zeros 64 3 210 210" "const_rng 0"]
  obtain s0 s1 s2 g' where
    "Inception_Net_forward net (const_rng 0) (zeros 64 3 210 210) = Inr ((s0, s1, s2), g')"
    "shape2 s0 = (64, 1000)" "shape2 s1 = (64, 1000)" "shape2 s2 = (64, 1000)"
    by (auto simp: zeros_def)
  with check_output_shape_Inr [OF net this(1)] show ?thesis
    by simp
qed

text \<open>
  Claim C9, as the code has it. On an input with the expected channels and at least
  one batch element, the forward operation of the auxiliary classifier fails when the
  plane is smaller than the 5 x 5 window of the average pool; it fails with the
  dimension mismatch of the first fully-connected layer, expected width 2048, when
  the pooled plane has other than 16 positions; and it returns scores of shape
  (N, num_classes) when the pooled plane has 16 positions, whether 4 x 4 or not: the
  flattening does not keep the two extents apart.
\<close>

theorem Auxiliary_Classifier_forward_pooled:
  assumes "self = Auxiliary_Classifier_train mode (Auxiliary_Classifier_init sd in_ch num_classes)"
    and "shape4 x = (N, in_ch, H, W)" and "0 < in_ch" and "0 < N"
  shows "(H < 5 \<or> W < 5 \<longrightarrow> (\<exists>e. Auxiliary_Classifier_forward self g x = Inl e))
     \<and> (5 \<le> H \<and> 5 \<le> W \<and> aux_pooled H * aux_pooled W \<noteq> 16 \<longrightarrow>
          Auxiliary_Classifier_forward self g x =
            Inl (MatMulMismatch (128 * aux_pooled H * aux_pooled W) 2048))
     \<and> (5 \<le> H \<and> 5 \<le> W \<and> aux_pooled H * aux_pooled W = 16 \<longrightarrow>
          (\<exists>scores g'. Auxiliary_Classifier_forward self g x = Inr (scores, g')
             \<and> shape2 scores = (N, num_classes)))"
proof -
  have x: "dimC x = in_ch" "0 < dimN x" "dimN x = N" "dimH x = H" "dimW x = W"
    using assms(2,4) by (simp_all add: shape4_def)
  show ?thesis
  proof (intro conjI impI)
    assume "H < 5 \<or> W < 5"
    then have "dimH x < 5 \<or> dimW x < 5"
      by (simp add: x)
    from Auxiliary_Classifier_forward_small [OF assms(1) this]
    show "\<exists>e. Auxiliary_Classifier_forward self g x = Inl e" .
  next
    assume a: "5 \<le> H \<and> 5 \<le> W \<and> aux_pooled H * aux_pooled W \<noteq> 16"
    from Auxiliary_Classifier_forward_mismatch [OF assms(1) x(1) assms(3) x(2), of g] a
    show "Auxiliary_Classifier_forward self g x =
            Inl (MatMulMismatch (128 * aux_pooled H * aux_pooled W) 2048)"
      by (simp add: x)
  next
    assume a: "5 \<le> H \<and> 5 \<le> W \<and> aux_pooled H * aux_pooled W = 16"
    from Auxiliary_Classifier_forward_ok [OF assms(1) x(1) assms(3) x(2), of g] a
    show "\<exists>scores g'. Auxiliary_Classifier_forward self g x = Inr (scores, g')
             \<and> shape2 scores = (N, num_classes)"
      by (simp add: x)
  qed
qed

theorem Auxiliary_Classifier_forward_pooled_witness:
  "Auxiliary_Classifier_forward (Auxiliary_Classifier_init (const_dict 0) 512 1000) (const_rng 0)
       (zeros 64 512 17 17) = Inl (MatMulMismatch 3200 2048)
   \<and> (\<exists>e. Auxiliary_Classifier_forward (Auxiliary_Classifier_init (const_dict 0) 512 1000) (const_rng 0)
       (zeros 64 512 4 14) = Inl e)
   \<and> (\<exists>scores g'. Auxiliary_Classifier_forward (Auxiliary_Classifier_init (const_dict 0) 512 1000)
       (const_rng 0) (zeros 64 512 14 14) = Inr (scores, g') \<and> shape2 scores = (64, 1000))"
proof -
  let ?self = "Auxiliary_Classifier_init (const_dict 0) 512 1000"
  note self = Auxiliary_Classifier_train_True [of "const_dict 0" 512 1000, symmetric]
  have ap: "aux_pooled 17 = 5" "aux_pooled 14 = 4"
    by (simp_all add: aux_pooled_def)
  have "Auxiliary_Classifier_forward ?self (const_rng 0) (zeros 64 512 17 17) = Inl (MatMulMismatch 3200 2048)"
    using Auxiliary_Classifier_forward_pooled [OF self, of "zeros 64 512 17 17" 64 17 17 "const_rng 0"]
    by (simp add: zeros_def shape4_def ap)
  moreover have "\<exists>e. Auxiliary_Classifier_forward ?self (const_rng 0) (zeros 64 512 4 14) = Inl e"
    using Auxiliary_Classifier_forward_pooled [OF self, of "zeros 64 512 4 14" 64 4 14 "const_rng 0"]
    by (simp add: zeros_def shape4_def)
  moreover have "\<exists>scores g'. Auxiliary_Classifier_forward ?self (const_rng 0) (zeros 64 512 14 14) = Inr (scores, g')
      \<and> shape2 scores = (64, 1000)"
    using Auxiliary_Classifier_forward_pooled [OF self, of "zeros 64 512 14 14" 64 14 14 "const_rng 0"]
    by (simp add: zeros_def shape4_def ap)
  ultimately show ?thesis
    by (intro conjI)
qed

text \<open>
  Claim C9, as the specification states it, fails for a feature map that the average
  pool reduces to 2 x 8: the flattened row has 128 * 2 * 8 = 2048 entries, the first
  fully-connected layer accepts it, and scores are returned.
\<close>

theorem Auxiliary_Classifier_forward_accepts_2x8:
  "map_sum id (shape2 \<circ> fst)
     (Auxiliary_Classifier_forward (Auxiliary_Classifier_init (const_dict 0) 512 1000) (const_rng 0)
        (zeros 64 512 8 26))
   = Inr (64, 1000)
   \<and> map_sum id shape4 (avg_pool2d \<lparr>ap_kernel_size = 5, ap_stride = 3\<rparr> (zeros 64 512 8 26))
   = Inr (64, 512, 2, 8)"
proof -
  let ?self = "Auxiliary_Classifier_init (const_dict 0) 512 1000"
  note self = Auxiliary_Classifier_train_True [of "const_dict 0" 512 1000, symmetric]
  have ap: "aux_pooled 8 = 2" "aux_pooled 26 = 8"
    by (simp_all add: aux_pooled_def)
  from Auxiliary_Classifier_forward_ok [OF self, of "zeros 64 512 8 26" "const_rng 0"]
  obtain scores g' where
    "Auxiliary_Classifier_forward ?self (const_rng 0) (zeros 64 512 8 26) = Inr (scores, g')"
    "shape2 scores = (64, 1000)"
    by (auto simp: zeros_def ap)
  moreover have "map_sum id shape4 (avg_pool2d \<lparr>ap_kernel_size = 5, ap_stride = 3\<rparr> (zeros 64 512 8 26))
      = Inr (64, 512, 2, 8)"
    by (simp add: avg_pool2d_def zeros_def shape4_def out_size_def)
  ultimately show ?thesis
    by simp
qed

text \<open>
  Claim C4. The forward operation of a constructed auxiliary classifier is the
  sequence of steps the specification lists: average pool with kernel 5 and stride
  3; 1x1 convolution to 128 channels and rectification; flattening; a
  fully-connected layer from 2048 to 1024 units and rectification; dropout with
  probability 0.7, active in training mode and the identity after \<open>eval()\<close>; and
  a fully-connected layer from 1024 units to the classes, whose output is returned as
  it is. For 512 input channels, 1000 classes and an input of shape
  (64, 512, 14, 14) the scores have shape (64, 1000).
\<close>

theorem Auxiliary_Classifier_forward_steps:
  "Auxiliary_Classifier_forward (Auxiliary_Classifier_init sd in_ch num_classes) g x
     = spec_aux_classifier sd in_ch num_classes True g x
   \<and> Auxiliary_Classifier_forward
       (Auxiliary_Classifier_eval (Auxiliary_Classifier_init sd in_ch num_classes)) g x
     = spec_aux_classifier sd in_ch num_classes False g x
   \<and> (shape4 y = (64, 512, 14, 14) \<longrightarrow>
        (\<exists>scores g'.
           Auxiliary_Classifier_forward (Auxiliary_Classifier_init sd 512 1000) g y = Inr (scores, g')
         \<and> shape2 scores = (64, 1000)))"
proof (intro conjI impI)
  show "Auxiliary_Classifier_forward (Auxiliary_Classifier_init sd in_ch num_classes) g x
     = spec_aux_classifier sd in_ch num_classes True g x"
    by (rule spec_aux_classifier_eq) (simp add: Auxiliary_Classifier_train_True)
next
  show "Auxiliary_Classifier_forward
       (Auxiliary_Classifier_eval (Auxiliary_Classifier_init sd in_ch num_classes)) g x
     = spec_aux_classifier sd in_ch num_classes False g x"
    by (rule spec_aux_classifier_eq) (simp add: Auxiliary_Classifier_eval_def)
next
  assume "shape4 y = (64, 512, 14, 14)"
  then have y: "dimC y = 512" "0 < dimN y" "5 \<le> dimH y" "5 \<le> dimW y" "dimN y = 64"
      "aux_pooled (dimH y) * aux_pooled (dimW y) = 16"
    by (simp_all add: shape4_def aux_pooled_def)
  from Auxiliary_Classifier_forward_ok
    [OF Auxiliary_Classifier_train_True [symmetric] y(1) _ y(2,3,4,6), of sd 1000 g] y(5)
  show "\<exists>scores g'.
           Auxiliary_Classifier_forward (Auxiliary_Classifier_init sd 512 1000) g y = Inr (scores, g')
         \<and> shape2 scores = (64, 1000)"
    by simp
qed

theorem Auxiliary_Classifier_forward_steps_witness:
  "\<exists>scores g'.
     Auxiliary_Classifier_forward (Auxiliary_Classifier_init (const_dict 0) 512 1000) (const_rng 0)
       (zeros 64 512 14 14) = Inr (scores, g')
   \<and> spec_aux_classifier (const_dict 0) 512 1000 True (const_rng 0) (zeros 64 512 14 14) = Inr (scores, g')
   \<and> shape2 scores = (64, 1000)"
proof -
  let ?x = "zeros 64 512 14 14"
  note t = Auxiliary_Classifier_forward_steps [of "const_dict 0" 512 1000 "const_rng 0" ?x ?x]
  have "shape4 ?x = (64, 512, 14, 14)"
    by (simp add: zeros_def shape4_def)
  with t obtain scores g' where
    s: "Auxiliary_Classifier_forward (Auxiliary_Classifier_init (const_dict 0) 512 1000) (const_rng 0) ?x
        = Inr (scores, g')" "shape2 scores = (64, 1000)"
    by blast
  from t s(1) have "spec_aux_classifier (const_dict 0) 512 1000 True (const_rng 0) ?x = Inr (scores, g')"
    by simp
  with s show ?thesis
    by blast
qed

text \<open>
  Claim C8. After \<open>eval()\<close> on a constructed network, the dropout layer before the
  final classifier (probability 0.4) and the dropout layer of each auxiliary
  classifier (probability 0.7) return their input and leave the generator as it is;
  the forward pass returns the generator it was given, and two forward passes on the
  same input give the same result whatever the state of the generator: the same three
  scores, or the same error.
\<close>

theorem Inception_Net_eval_deterministic:
  assumes "Inception_Net_init sd num_classes = Inr net0"
    and "net = Inception_Net_eval net0"
  shows "drop_p (net_dropout5 net) = 0.4
     \<and> drop_p (ac_dropout4 (net_aux_classifier1 net)) = 0.7
     \<and> drop_p (ac_dropout4 (net_aux_classifier2 net)) = 0.7
     \<and> dropout (net_dropout5 net) g r = (r, g)
     \<and> dropout (ac_dropout4 (net_aux_classifier1 net)) g r = (r, g)
     \<and> dropout (ac_dropout4 (net_aux_classifier2 net)) g r = (r, g)
     \<and> map_sum id snd (Inception_Net_forward net g x) = map_sum id (\<lambda>_. g) (Inception_Net_forward net g x)
     \<and> map_sum id fst (Inception_Net_forward net g x) = map_sum id fst (Inception_Net_forward net g' x)"
proof -
  have net': "net = Inception_Net_train False net0"
    using assms(2) by (simp add: Inception_Net_eval_def)
  note f = Inception_Net_init_fields [OF assms(1) net']
  note flags = Inception_Net_eval_flags [of net0, folded assms(2)]
  note fwd = Inception_Net_forward_eval [OF flags]
  have "map_sum id snd (Inception_Net_forward net g x) = map_sum id (\<lambda>_. g) (Inception_Net_forward net g x)"
    by (subst fwd [of g x g]) (cases "Inception_Net_forward net g x"; auto)
  moreover have "map_sum id fst (Inception_Net_forward net g x) = map_sum id fst (Inception_Net_forward net g' x)"
    by (subst fwd [of g x g']) (cases "Inception_Net_forward net g' x"; auto)
  ultimately show ?thesis
    using flags by (simp add: dropout_eval f Auxiliary_Classifier_fields [OF refl])
qed

theorem Inception_Net_eval_deterministic_witness:
  "\<exists>net. Inception_Net_init (const_dict 0) 1000 = Inr net
     \<and> dropout (net_dropout5 (Inception_Net_eval net)) (const_rng 0) (zeros2 64 1024) = (zeros2 64 1024, const_rng 0)
     \<and> map_sum id fst (Inception_Net_forward (Inception_Net_eval net) (const_rng 0) (zeros 64 3 224 224))
       = map_sum id fst (Inception_Net_forward (Inception_Net_eval net) (const_rng 1) (zeros 64 3 224 224))"
proof -
  obtain net where net: "Inception_Net_init (const_dict 0) 1000 = Inr net"
    using Inception_Net_init_total by blast
  from Inception_Net_eval_deterministic [OF net refl, of "const_rng 0" "zeros2 64 1024" "zeros 64 3 224 224" "const_rng 1"]
  show ?thesis
    using net by blast
qed

text \<open>
  Claim C5, as the code has it. For labels that are class indices, one per row, and
  three score tensors of the labels' batch size and a common number of classes: when
  there is at least one row, the loss cell computes
  \<open>main_loss + 0.3 * aux_loss1 + 0.3 * aux_loss2\<close>, where the main loss is the
  cross-entropy of the third score tensor and the two auxiliary losses those of the
  first and of the second, each the mean negative log softmax probability of the
  labels; when there is no row, each of the three losses is \<open>nan\<close>, and so is the
  total. The numbers are reals: the rounding of floating point is not modelled.
\<close>

theorem total_loss_weighted:
  assumes "shape2 scores0 = (length y, C)" and "shape2 scores1 = (length y, C)"
    and "shape2 scores2 = (length y, C)" and "\<forall>t\<in>set y. t < C"
  shows "(0 < length y \<longrightarrow>
          (\<exists>main_loss aux_loss0 aux_loss1.
             spec_cross_entropy scores2 y = Some main_loss
           \<and> spec_cross_entropy scores0 y = Some aux_loss0
           \<and> spec_cross_entropy scores1 y = Some aux_loss1
           \<and> cross_entropy scores2 y = Inr (Num main_loss)
           \<and> cross_entropy scores0 y = Inr (Num aux_loss0)
           \<and> cross_entropy scores1 y = Inr (Num aux_loss1)
           \<and> total_loss_of_scores (scores0, scores1, scores2) y =
               Inr (Num (main_loss + 0.3 * aux_loss0 + 0.3 * aux_loss1))
           \<and> (Inception_Net_forward model g x = Inr ((scores0, scores1, scores2), g') \<longrightarrow>
                total_loss model g x y =
                  Inr (Num (main_loss + 0.3 * aux_loss0 + 0.3 * aux_loss1)))))
     \<and> (length y = 0 \<longrightarrow>
          cross_entropy scores0 y = Inr Nan \<and> cross_entropy scores1 y = Inr Nan
        \<and> cross_entropy scores2 y = Inr Nan
        \<and> total_loss_of_scores (scores0, scores1, scores2) y = Inr Nan
        \<and> (Inception_Net_forward model g x = Inr ((scores0, scores1, scores2), g') \<longrightarrow>
             total_loss model g x y = Inr Nan))"
proof (intro conjI impI)
  assume pos: "0 < length y"
  have d: "length y = dimB scores0" "length y = dimB scores1" "length y = dimB scores2"
    "dimF scores0 = C" "dimF scores1 = C" "dimF scores2 = C"
    using assms(1-3) by (simp_all add: shape2_def)
  obtain a0 where c0: "spec_cross_entropy scores0 y = Some a0" "cross_entropy scores0 y = Inr (Num a0)"
    using cross_entropy_spec [of y scores0] assms(4) pos d by auto
  obtain a1 where c1: "spec_cross_entropy scores1 y = Some a1" "cross_entropy scores1 y = Inr (Num a1)"
    using cross_entropy_spec [of y scores1] assms(4) pos d by auto
  obtain m where c2: "spec_cross_entropy scores2 y = Some m" "cross_entropy scores2 y = Inr (Num m)"
    using cross_entropy_spec [of y scores2] assms(4) pos d by auto
  have t: "total_loss_of_scores (scores0, scores1, scores2) y = Inr (Num (m + 0.3 * a0 + 0.3 * a1))"
    by (simp add: total_loss_of_scores_def c0 c1 c2 scalar_add_def scalar_mul_def)
  show "\<exists>main_loss aux_loss0 aux_loss1.
             spec_cross_entropy scores2 y = Some main_loss
           \<and> spec_cross_entropy scores0 y = Some aux_loss0
           \<and> spec_cross_entropy scores1 y = Some aux_loss1
           \<and> cross_entropy scores2 y = Inr (Num main_loss)
           \<and> cross_entropy scores0 y = Inr (Num aux_loss0)
           \<and> cross_entropy scores1 y = Inr (Num aux_loss1)
           \<and> total_loss_of_scores (scores0, scores1, scores2) y =
               Inr (Num (main_loss + 0.3 * aux_loss0 + 0.3 * aux_loss1))
           \<and> (Inception_Net_forward model g x = Inr ((scores0, scores1, scores2), g') \<longrightarrow>
                total_loss model g x y =
                  Inr (Num (main_loss + 0.3 * aux_loss0 + 0.3 * aux_loss1)))"
    apply (rule exI [of _ m], rule exI [of _ a0], rule exI [of _ a1])
    using c0 c1 c2 t by (simp add: total_loss_def)
next
  assume "length y = 0"
  then have y: "y = []"
    by simp
  have d: "dimB scores0 = 0" "dimB scores1 = 0" "dimB scores2 = 0"
    using assms(1-3) by (simp_all add: shape2_def y)
  show c0: "cross_entropy scores0 y = Inr Nan" and c1: "cross_entropy scores1 y = Inr Nan"
    and c2: "cross_entropy scores2 y = Inr Nan"
    unfolding y by (rule cross_entropy_empty(1) [OF d(1)], rule cross_entropy_empty(1) [OF d(2)],
        rule cross_entropy_empty(1) [OF d(3)])
  show t: "total_loss_of_scores (scores0, scores1, scores2) y = Inr Nan"
    by (simp add: total_loss_of_scores_def c0 c1 c2 scalar_add_def)
  assume "Inception_Net_forward model g x = Inr ((scores0, scores1, scores2), g')"
  then show "total_loss model g x y = Inr Nan"
    using t by (simp add: total_loss_def)
qed

theorem total_loss_weighted_witness:
  "total_loss_of_scores (zeros2 2 3, zeros2 2 3, zeros2 2 3) [0, 2] =
     Inr (Num (ln 3 + 0.3 * ln 3 + 0.3 * ln 3))
   \<and> cross_entropy (zeros2 2 3) [0, 2] = Inr (Num (ln 3))
   \<and> spec_cross_entropy (zeros2 2 3) [0, 2] = Some (ln 3)"
proof -
  obtain net where net: "Inception_Net_init (const_dict 0) 1000 = Inr net"
    using Inception_Net_init_total by blast
  have s: "spec_cross_entropy (zeros2 2 3) [0, 2] = Some (ln 3)"
    by (simp add: spec_cross_entropy_def softmax_prob_def zeros2_def upt_conv_Cons ln_div)
  have sh: "shape2 (zeros2 2 3) = (length [0, 2 :: nat], 3)"
    by (simp add: zeros2_def shape2_def)
  have lab: "\<forall>t\<in>set [0, 2 :: nat]. t < 3"
    by simp
  from total_loss_weighted
    [OF sh sh sh lab, of net "const_rng 0" "zeros 1 3 224 224" "const_rng 0"]
  obtain m a0 a1 where
    "spec_cross_entropy (zeros2 2 3) [0, 2] = Some m" "spec_cross_entropy (zeros2 2 3) [0, 2] = Some a0"
    "spec_cross_entropy (zeros2 2 3) [0, 2] = Some a1"
    "cross_entropy (zeros2 2 3) [0, 2] = Inr (Num m)"
    "total_loss_of_scores (zeros2 2 3, zeros2 2 3, zeros2 2 3) [0, 2] = Inr (Num (m + 0.3 * a0 + 0.3 * a1))"
    by auto
  with s show ?thesis
    by simp
qed

text \<open>
  Claim C5, as the specification states it, fails for the empty batch: with no row
  and no label there is no mean to take, the three losses are \<open>nan\<close>, and the total
  is \<open>nan\<close>, which is no number and equals none.
\<close>

theorem total_loss_empty_batch:
  "total_loss_of_scores (zeros2 0 3, zeros2 0 3, zeros2 0 3) [] = Inr Nan
   \<and> cross_entropy (zeros2 0 3) [] = Inr Nan
   \<and> spec_cross_entropy (zeros2 0 3) [] = None"
  by (simp add: total_loss_of_scores_def cross_entropy_def nll_loss_def spec_cross_entropy_def
      zeros2_def log_softmax_def scalar_add_def)

text \<open>
  Claim C6, as the code has it. In a constructed network the channels each block
  produces are the channels its consumer expects: the stem feeds 192 channels to
  block 3a, each block feeds the next (256, 480, 512, 512, 512, 528, 832, 832),
  blocks 4a and 4d feed 512 and 528 channels to the two auxiliary classifiers, and
  block 5b feeds 1024 features to the final linear layer. Nothing validates a
  parameter tuple when a block is constructed. A tuple with a zero among its channel
  counts is rejected at the first forward call: the block fails on every input. A
  block with at least one output channel in its first branch that is given an input
  of another channel count than its \<open>in_channels\<close> fails when its forward
  operation is called, with the channel mismatch of its first convolution.
\<close>

theorem Inception_Net_channels_consistent:
  assumes "Inception_Net_init sd num_classes = Inr net"
  shows "out_channels (net_conv2 net) = block_in_channels (net_inception3a net)
     \<and> block_out_channels (net_inception3a net) = block_in_channels (net_inception3b net)
     \<and> block_out_channels (net_inception3b net) = block_in_channels (net_inception4a net)
     \<and> block_out_channels (net_inception4a net) = block_in_channels (net_inception4b net)
     \<and> block_out_channels (net_inception4b net) = block_in_channels (net_inception4c net)
     \<and> block_out_channels (net_inception4c net) = block_in_channels (net_inception4d net)
     \<and> block_out_channels (net_inception4d net) = block_in_channels (net_inception4e net)
     \<and> block_out_channels (net_inception4e net) = block_in_channels (net_inception5a net)
     \<and> block_out_channels (net_inception5a net) = block_in_channels (net_inception5b net)
     \<and> block_out_channels (net_inception5b net) = in_features (net_linear5 net)
     \<and> block_out_channels (net_inception4a net) = in_channels (ac_conv2 (net_aux_classifier1 net))
     \<and> block_out_channels (net_inception4d net) = in_channels (ac_conv2 (net_aux_classifier2 net))
     \<and> map block_out_channels
           [net_inception3a net, net_inception3b net, net_inception4a net, net_inception4b net,
            net_inception4c net, net_inception4d net, net_inception4e net, net_inception5a net,
            net_inception5b net]
         = [256, 480, 512, 512, 512, 528, 832, 832, 1024]
     \<and> (0 < out1 \<and> dimC x \<noteq> in_ch \<longrightarrow>
          Inception_Block_forward
            (Inception_Block_init sd' (in_ch, out1, red2, out2, red3, out3, out4)) x
          = Inl (ChannelMismatch in_ch (dimC x)))
     \<and> (in_ch = 0 \<or> out1 = 0 \<or> red2 = 0 \<or> out2 = 0 \<or> red3 = 0 \<or> out3 = 0 \<or> out4 = 0 \<longrightarrow>
          (\<exists>e. Inception_Block_forward
                 (Inception_Block_init sd' (in_ch, out1, red2, out2, red3, out3, out4)) x
               = Inl e))"
proof -
  note f = Inception_Net_init_fields
    [OF assms Inception_Net_train_True [OF assms, symmetric]]
  have zero: "in_ch = 0 \<or> out1 = 0 \<or> red2 = 0 \<or> out2 = 0 \<or> red3 = 0 \<or> out3 = 0 \<or> out4 = 0 \<longrightarrow>
          (\<exists>e. Inception_Block_forward
                 (Inception_Block_init sd' (in_ch, out1, red2, out2, red3, out3, out4)) x
               = Inl e)"
    using Inception_Block_forward_zero_count by blast
  have "0 < out1 \<and> dimC x \<noteq> in_ch \<longrightarrow>
          Inception_Block_forward
            (Inception_Block_init sd' (in_ch, out1, red2, out2, red3, out3, out4)) x
          = Inl (ChannelMismatch in_ch (dimC x))"
    using Inception_Block_forward_channel_mismatch by blast
  with zero show ?thesis
    by (simp add: f Auxiliary_Classifier_fields [OF refl])
qed

theorem Inception_Net_channels_consistent_witness:
  "\<exists>net. Inception_Net_init (const_dict 0) 1000 = Inr net
     \<and> block_out_channels (net_inception3a net) = 256
     \<and> block_in_channels (net_inception3b net) = 256
     \<and> block_out_channels (net_inception4a net) = 512
     \<and> block_out_channels (net_inception4d net) = 528
     \<and> Inception_Block_forward
          (Inception_Block_init (const_dict 0) (100, 64, 96, 128, 16, 32, 32)) (zeros 64 192 32 32)
        = Inl (ChannelMismatch 100 192)
     \<and> (\<exists>e. Inception_Block_forward
          (Inception_Block_init (const_dict 0) (192, 64, 96, 128, 0, 32, 32)) (zeros 64 192 32 32)
        = Inl e)"
proof -
  obtain net where net: "Inception_Net_init (const_dict 0) 1000 = Inr net"
    using Inception_Net_init_total by blast
  from Inception_Net_channels_consistent
    [OF net, of 64 "zeros 64 192 32 32" 100 "const_dict 0" 96 128 16 32 32]
  have a: "block_out_channels (net_inception3a net) = 256
     \<and> block_in_channels (net_inception3b net) = 256
     \<and> block_out_channels (net_inception4a net) = 512
     \<and> block_out_channels (net_inception4d net) = 528
     \<and> Inception_Block_forward
          (Inception_Block_init (const_dict 0) (100, 64, 96, 128, 16, 32, 32)) (zeros 64 192 32 32)
        = Inl (ChannelMismatch 100 192)"
    by (auto simp: zeros_def)
  from Inception_Net_channels_consistent
    [OF net, of 64 "zeros 64 192 32 32" 192 "const_dict 0" 96 128 0 32 32]
  have b: "\<exists>e. Inception_Block_forward
          (Inception_Block_init (const_dict 0) (192, 64, 96, 128, 0, 32, 32)) (zeros 64 192 32 32)
        = Inl e"
    by simp
  from net a b show ?thesis
    by blast
qed

text \<open>
  Claim C6, as the specification states it, fails: two blocks whose channel counts
  do not fit are both constructed without complaint, the first runs to the end, and
  the inconsistency shows only as the shape mismatch that the second block's first
  convolution raises on the 256 channels it is given.
\<close>

theorem Inception_Block_mismatch_found_by_conv:
  "map_sum id shape4
     (Inception_Block_forward
        (Inception_Block_init (const_dict 0) (192, 64, 96, 128, 16, 32, 32)) (zeros 64 192 32 32))
   = Inr (64, 256, 32, 32)
   \<and> ebind
       (Inception_Block_forward
          (Inception_Block_init (const_dict 0) (192, 64, 96, 128, 16, 32, 32)) (zeros 64 192 32 32))
       (Inception_Block_forward
          (Inception_Block_init (const_dict 0) (100, 64, 96, 128, 16, 32, 32)))
   = Inl (ChannelMismatch 100 256)"
proof -
  from Inception_Block_forward_ok [of 192 64 96 128 16 32 32 "zeros 64 192 32 32" "const_dict 0"]
  obtain y where y: "Inception_Block_forward
        (Inception_Block_init (const_dict 0) (192, 64, 96, 128, 16, 32, 32)) (zeros 64 192 32 32) = Inr y"
    "shape4 y = (64, 256, 32, 32)"
    by (auto simp: zeros_def shape4_def)
  have "Inception_Block_forward (Inception_Block_init (const_dict 0) (100, 64, 96, 128, 16, 32, 32)) y
      = Inl (ChannelMismatch 100 (dimC y))"
    using y(2) by (intro Inception_Block_forward_channel_mismatch) (simp_all add: shape4_def)
  with y show ?thesis
    by (simp add: shape4_def)
qed

text \<open>
  Claim C7. Read on objects, \<open>forward\<close> holds references into a heap: a call of a
  layer, of a block or of \<open>F.relu\<close> allocates its result, \<open>x.clone()\<close> allocates a
  copy, and no statement writes to an object that exists. For a network as
  constructed, in either mode, and every run of \<open>forward\<close> that returns: the
  activation \<open>a\<close> after block 4a has 512 channels and \<open>aux0 = x.clone()\<close> is a new
  object, different from the one \<open>x\<close> refers to, that holds \<open>a\<close>; the activation
  \<open>d\<close> after block 4d has 528 channels and \<open>aux1 = x.clone()\<close> is a new object that
  holds \<open>d\<close>; the heap after each tap is a prefix of every later heap, so that at the
  end \<open>aux0\<close> still holds \<open>a\<close> and \<open>aux1\<close> still holds \<open>d\<close>; \<open>scores0\<close> is
  the output of the first auxiliary classifier, whose convolution takes 512
  channels, on \<open>a\<close>, and \<open>scores1\<close> that of the second, whose convolution takes
  528 channels, on \<open>d\<close>; and the three scores are those of the forward operation on
  values.
\<close>

theorem Inception_Net_forward_taps_independent:
  assumes init: "Inception_Net_init sd num_classes = Inr net0"
    and net: "net = Inception_Net_train mode net0"
    and x: "get4 h xr = Inr x"
    and run: "Inception_Net_forward_ref net xr (h, g) = Inr ((scores0, scores1, scores2), (h', g'))"
  shows "\<exists>a d ra ha rd hd g1 g2 s0 s1 s2.
       pipeline (stages_to_4a net) xr (h, g) = Inr (ra, (ha, g))
     \<and> get4 ha ra = Inr a \<and> activation_4a net x = Inr a \<and> dimC a = 512
     \<and> clone_ref ra (ha, g) = Inr (length ha, (ha @ [Feature (clone a)], g))
     \<and> length ha \<noteq> ra
     \<and> pipeline (stages_4b_to_4d net) ra (ha @ [Feature (clone a)], g) = Inr (rd, (hd, g))
     \<and> get4 hd rd = Inr d \<and> activation_4d net x = Inr d \<and> dimC d = 528
     \<and> clone_ref rd (hd, g) = Inr (length hd, (hd @ [Feature (clone d)], g))
     \<and> length hd \<noteq> rd
     \<and> prefix (ha @ [Feature (clone a)]) hd \<and> prefix (hd @ [Feature (clone d)]) h'
     \<and> get4 h' (length ha) = Inr a \<and> get4 h' (length hd) = Inr d
     \<and> in_channels (ac_conv2 (net_aux_classifier1 net)) = 512
     \<and> Auxiliary_Classifier_forward (net_aux_classifier1 net) g1 a = Inr (s0, g2)
     \<and> get2 h' scores0 = Inr s0
     \<and> in_channels (ac_conv2 (net_aux_classifier2 net)) = 528
     \<and> Auxiliary_Classifier_forward (net_aux_classifier2 net) g2 d = Inr (s1, g')
     \<and> get2 h' scores1 = Inr s1
     \<and> get2 h' scores2 = Inr s2
     \<and> Inception_Net_forward net g x = Inr ((s0, s1, s2), g')"
proof -
  note f = Inception_Net_init_fields [OF init net]
  note ref = Inception_Net_forward_ref_refines [OF x, of net g]
  obtain res where pure: "Inception_Net_forward net g x = Inr res"
    using ref run by (cases "Inception_Net_forward net g x") simp_all
  obtain s0 s1 s2 g3 where res: "res = ((s0, s1, s2), g3)"
    by (cases res) auto
  from ref obtain a d r ra ha rd hd h3 r0 r1 r2 where
    seg: "forward_to_4a net x = Inr a" "forward_4b_to_4d net a = Inr d"
    and heads: "forward_heads net g (clone a) (clone d) r = Inr ((s0, s1, s2), g3)"
    and st1: "pipeline (stages_to_4a net) xr (h, g) = Inr (ra, (ha, g))" "get4 ha ra = Inr a"
    and st2: "pipeline (stages_4b_to_4d net) ra (ha @ [Feature (clone a)], g) = Inr (rd, (hd, g))"
      "prefix (ha @ [Feature (clone a)]) hd" "get4 hd rd = Inr d"
    and fin: "Inception_Net_forward_ref net xr (h, g) =
        Inr ((r0, r1, r2), ((hd @ [Feature (clone d)]) @ h3, g3))"
    and sc: "get2 ((hd @ [Feature (clone d)]) @ h3) r0 = Inr s0"
      "get2 ((hd @ [Feature (clone d)]) @ h3) r1 = Inr s1"
      "get2 ((hd @ [Feature (clone d)]) @ h3) r2 = Inr s2"
    unfolding pure res by auto
  from run fin have eq: "r0 = scores0" "r1 = scores1" "r2 = scores2"
    "h' = (hd @ [Feature (clone d)]) @ h3" "g3 = g'"
    by simp_all
  from forward_heads_Inr [OF heads [unfolded clone_ident]] obtain g1 g2 where
    a0: "Auxiliary_Classifier_forward (net_aux_classifier1 net) g1 a = Inr (s0, g2)"
    and a1: "Auxiliary_Classifier_forward (net_aux_classifier2 net) g2 d = Inr (s1, g3)"
    by auto
  have in0: "in_channels (ac_conv2 (net_aux_classifier1 net)) = 512"
    and in1: "in_channels (ac_conv2 (net_aux_classifier2 net)) = 528"
    by (simp_all add: Auxiliary_Classifier_fields(2) [OF f(20)]
        Auxiliary_Classifier_fields(2) [OF f(21)] nn_Conv2d_fields)
  have ch: "dimC a = 512" "dimC d = 528"
    using Auxiliary_Classifier_forward_channels [OF a0]
      Auxiliary_Classifier_forward_channels [OF a1] in0 in1 by simp_all
  have act: "activation_4a net x = Inr a" "activation_4d net x = Inr d"
    using seg by (simp_all add: activation_4a_def activation_4d_def)
  have cl: "clone_ref ra (ha, g) = Inr (length ha, (ha @ [Feature (clone a)], g))"
    "clone_ref rd (hd, g) = Inr (length hd, (hd @ [Feature (clone d)], g))"
    by (rule clone_ref_step [OF st1(2)], rule clone_ref_step [OF st2(3)])
  have new: "length ha \<noteq> ra" "length hd \<noteq> rd"
    using get4_less [OF st1(2)] get4_less [OF st2(3)] by simp_all
  have p2: "prefix (hd @ [Feature (clone d)]) h'"
    by (simp add: eq(4))
  have "get4 (ha @ [Feature (clone a)]) (length ha) = Inr a"
    by (simp add: clone_ident)
  then have "get4 (hd @ [Feature (clone d)]) (length ha) = Inr a"
    using st2(2) by (intro get4_extend) (rule get4_prefix)
  then have k0: "get4 h' (length ha) = Inr a"
    using p2 by (rule get4_prefix)
  have "get4 (hd @ [Feature (clone d)]) (length hd) = Inr d"
    by (simp add: clone_ident)
  then have k1: "get4 h' (length hd) = Inr d"
    using p2 by (rule get4_prefix)
  show ?thesis
    apply (rule exI [of _ a], rule exI [of _ d], rule exI [of _ ra], rule exI [of _ ha],
        rule exI [of _ rd], rule exI [of _ hd], rule exI [of _ g1], rule exI [of _ g2],
        rule exI [of _ s0], rule exI [of _ s1], rule exI [of _ s2])
    using st1 act ch cl new st2 p2 k0 k1 in0 a0 in1 a1 sc pure res eq
    by simp
qed

theorem Inception_Net_forward_taps_independent_witness:
  "\<exists>net scores0 scores1 scores2 h' g' a d ha hd.
       Inception_Net_init (const_dict 0) 1000 = Inr net
     \<and> get4 [Feature (zeros 1 3 224 224)] 0 = Inr (zeros 1 3 224 224)
     \<and> Inception_Net_forward_ref net 0 ([Feature (zeros 1 3 224 224)], const_rng 0) =
         Inr ((scores0, scores1, scores2), (h', g'))
     \<and> activation_4a net (zeros 1 3 224 224) = Inr a \<and> dimC a = 512
     \<and> activation_4d net (zeros 1 3 224 224) = Inr d \<and> dimC d = 528
     \<and> get4 h' (length ha) = Inr a \<and> get4 h' (length hd) = Inr d
     \<and> prefix (ha @ [Feature (clone a)]) hd \<and> prefix (hd @ [Feature (clone d)]) h'"
proof -
  obtain net where net: "Inception_Net_init (const_dict 0) 1000 = Inr net"
    using Inception_Net_init_total by blast
  note tr = Inception_Net_train_True [OF net, symmetric]
  let ?x = "zeros 1 3 224 224"
  have x: "get4 [Feature ?x] 0 = Inr ?x"
    by (simp add: get4_def)
  have "dimC ?x = 3" "0 < dimN ?x" "0 < dimH ?x" "0 < dimW ?x"
    "tap_extent (dimH ?x) = 14" "tap_extent (dimW ?x) = 14"
    by (simp_all add: zeros_def tap_extent_eq_14)
  from forward_ok [OF net tr this, of "const_rng 0"]
  obtain res where "Inception_Net_forward net (const_rng 0) ?x = Inr res"
    by blast
  then obtain scores g' where "Inception_Net_forward net (const_rng 0) ?x = Inr (scores, g')"
    by (cases res) simp
  from Inception_Net_forward_ref_returns [OF x this]
  obtain r0 r1 r2 h' where
    run: "Inception_Net_forward_ref net 0 ([Feature ?x], const_rng 0) = Inr ((r0, r1, r2), (h', g'))"
    by blast
  from Inception_Net_forward_taps_independent [OF net tr x run]
  show ?thesis
    using net x run by blast
qed

end
